theory Spec2Isabelle
  imports Main "HOL-Library.Word"
begin

unbundle bit_operations_syntax

chapter \<open>The programs\<close>

section \<open>Values shared by the functions\<close>

text \<open>
  A \<open>Uint8Array\<close> is a list of 8-bit words. A JavaScript string is kept as the list of
  bytes of its UTF-8 form, one \<open>char\<close> per byte, so \<open>TextEncoder.encode\<close> only changes the
  element type. A thrown exception is a value of \<open>exn\<close>; \<open>Error m\<close> is \<open>new Error(m)\<close>.
  The process environment (\<open>Deno.env.get\<close>) is a record of optional strings.
\<close>

type_synonym byte = "8 word"

datatype exn =
    TypeError | RangeError | SyntaxError | InvalidCharacterError | FetchFailed
  | Error string

record environment =
  ALLOWED_ORIGIN :: "string option"
  SUPABASE_URL :: "string option"
  SUPABASE_SERVICE_ROLE_KEY :: "string option"
  SUPABASE_ANON_KEY :: "string option"
  STATE_SECRET :: "string option"
  STRAVA_CLIENT_ID :: "string option"
  STRAVA_CLIENT_SECRET :: "string option"
  APP_NAME :: "string option"
  TITLE_PREFIX :: "string option"

text \<open>\<open>v || d\<close> on an optional string: the empty string is falsy, like \<open>undefined\<close>.\<close>

definition env_or :: "string option \<Rightarrow> string \<Rightarrow> string" where
  "env_or v d = (case v of None \<Rightarrow> d | Some s \<Rightarrow> if s = [] then d else s)"

text \<open>\<open>!v\<close> on an optional string.\<close>

definition falsy :: "string option \<Rightarrow> bool" where
  "falsy v = (case v of None \<Rightarrow> True | Some s \<Rightarrow> s = [])"

text \<open>A template literal prints \<open>undefined\<close> for a missing value.\<close>

definition template_str :: "string option \<Rightarrow> string" where
  "template_str v = (case v of None \<Rightarrow> ''undefined'' | Some s \<Rightarrow> s)"

definition byte_of_char :: "char \<Rightarrow> byte" where
  "byte_of_char c = of_nat (of_char c)"

definition char_of_byte :: "byte \<Rightarrow> char" where
  "char_of_byte b = char_of (unat b)"

definition String_fromCharCode :: "byte list \<Rightarrow> string" where
  "String_fromCharCode data = map char_of_byte data"

definition charCodes :: "string \<Rightarrow> byte list" where
  "charCodes s = map byte_of_char s"

definition TextEncoder_encode :: "string \<Rightarrow> byte list" where
  "TextEncoder_encode s = map byte_of_char s"

section \<open>constantTimeEqual (oauth-callback)\<close>

text \<open>
  \<^verbatim>\<open>
  function constantTimeEqual(a: Uint8Array, b: Uint8Array): boolean {
    if (a.length !== b.length) return false;
    let result = 0;
    for (let i = 0; i < a.length; i++) {
      result |= a[i] ^ b[i];
    }
    return result === 0;
  }
  \<close>
  The bitwise operators of JavaScript work on 32-bit integers, so the accumulator is a
  32-bit word and an array element enters it zero-extended (\<open>ucast\<close>). The loop runs over
  the index \<open>i\<close>; it is only entered when both arrays have the same length, so every read
  \<open>a[i]\<close>, \<open>b[i]\<close> is in range.
\<close>

function constantTimeEqual_loop :: "byte list \<Rightarrow> byte list \<Rightarrow> nat \<Rightarrow> 32 word \<Rightarrow> 32 word" where
  "constantTimeEqual_loop a b i result =
     (if i < length a
      then constantTimeEqual_loop a b (i + 1) (result OR (ucast (a ! i) XOR ucast (b ! i)))
      else result)"
  by pat_completeness auto
termination
  by (relation "measure (\<lambda>(a, b, i, result). length a - i)") auto

declare constantTimeEqual_loop.simps [simp del]

definition constantTimeEqual :: "byte list \<Rightarrow> byte list \<Rightarrow> bool" where
  "constantTimeEqual a b =
     (if length a \<noteq> length b then False
      else constantTimeEqual_loop a b 0 0 = 0)"

section \<open>Base64 (oauth-authorize, oauth-callback)\<close>

text \<open>
  \<open>btoa\<close> and \<open>atob\<close> are the platform's: \<open>btoa\<close> maps each group of three bytes of a
  binary string to four characters of the alphabet \<open>A-Z a-z 0-9 + /\<close> and pads the last
  group with \<open>=\<close>; \<open>atob\<close> is the forgiving decoder of the HTML standard (it drops ASCII
  whitespace, removes one or two trailing \<open>=\<close> when the length is a multiple of four,
  fails on a length of 1 modulo 4 or a character outside the alphabet, and discards the
  unused low bits of the last group).
\<close>

definition b64_char :: "nat \<Rightarrow> char" where
  "b64_char n =
     (if n < 26 then char_of (65 + n)
      else if n < 52 then char_of (71 + n)
      else if n < 62 then char_of (n - 4)
      else if n = 62 then CHR ''+'' else CHR ''/'')"

definition b64_index :: "char \<Rightarrow> nat option" where
  "b64_index c =
     (let x = (of_char c :: nat) in
      if 65 \<le> x \<and> x \<le> 90 then Some (x - 65)
      else if 97 \<le> x \<and> x \<le> 122 then Some (x - 71)
      else if 48 \<le> x \<and> x \<le> 57 then Some (x + 4)
      else if c = CHR ''+'' then Some 62
      else if c = CHR ''/'' then Some 63
      else None)"

fun btoa_codes :: "nat list \<Rightarrow> string" where
  "btoa_codes [] = []"
| "btoa_codes [a] =
     [b64_char (a div 4), b64_char ((a mod 4) * 16), CHR ''='', CHR ''='']"
| "btoa_codes [a, b] =
     [b64_char (a div 4), b64_char ((a mod 4) * 16 + b div 16), b64_char ((b mod 16) * 4), CHR ''='']"
| "btoa_codes (a # b # c # rest) =
     [b64_char (a div 4), b64_char ((a mod 4) * 16 + b div 16),
      b64_char ((b mod 16) * 4 + c div 64), b64_char (c mod 64)] @ btoa_codes rest"

definition btoa :: "string \<Rightarrow> string" where
  "btoa s = btoa_codes (map of_char s)"

definition ascii_whitespace :: "char \<Rightarrow> bool" where
  "ascii_whitespace c \<longleftrightarrow> c \<in> {CHR 0x09, CHR 0x0A, CHR 0x0C, CHR 0x0D, CHR 0x20}"

definition strip_padding :: "string \<Rightarrow> string" where
  "strip_padding d =
     (if length d mod 4 = 0 \<and> d \<noteq> [] \<and> last d = CHR ''=''
      then (if butlast d \<noteq> [] \<and> last (butlast d) = CHR ''='' then butlast (butlast d) else butlast d)
      else d)"

fun decode_sextets :: "nat list \<Rightarrow> nat list" where
  "decode_sextets (s1 # s2 # s3 # s4 # rest) =
     [s1 * 4 + s2 div 16, (s2 mod 16) * 16 + s3 div 4, (s3 mod 4) * 64 + s4] @ decode_sextets rest"
| "decode_sextets [s1, s2, s3] = [s1 * 4 + s2 div 16, (s2 mod 16) * 16 + s3 div 4]"
| "decode_sextets [s1, s2] = [s1 * 4 + s2 div 16]"
| "decode_sextets _ = []"

definition atob :: "string \<Rightarrow> exn + string" where
  "atob data =
     (let d = strip_padding (filter (\<lambda>c. \<not> ascii_whitespace c) data) in
      if length d mod 4 = 1 then Inl InvalidCharacterError
      else if list_ex (\<lambda>c. b64_index c = None) d then Inl InvalidCharacterError
      else Inr (map char_of (decode_sextets (map (\<lambda>c. the (b64_index c)) d))))"

text \<open>\<open>s.replace(/x/g, y)\<close> for single characters, and \<open>s.replace(/x/g, '')\<close>.\<close>

definition replace_all :: "char \<Rightarrow> char \<Rightarrow> string \<Rightarrow> string" where
  "replace_all x y s = map (\<lambda>c. if c = x then y else c) s"

definition remove_all :: "char \<Rightarrow> string \<Rightarrow> string" where
  "remove_all x s = filter (\<lambda>c. c \<noteq> x) s"

text \<open>
  \<^verbatim>\<open>
  function base64urlEncode(data: Uint8Array): string {
    return btoa(String.fromCharCode.apply(null, Array.from(data)))
      .replace(/\+/g, '-').replace(/\//g, '_').replace(/=/g, '');
  }
  \<close>
  The bytes are handed to \<open>String.fromCharCode.apply\<close> as its arguments, which the engine
  takes up to its limit on the number of arguments (some \<open>10\<^sup>5\<close>; above it the call throws
  a \<open>RangeError\<close>). The arrays encoded here are a signature of 32 bytes and the text of a
  state, a few hundred bytes; the definition is for arrays within the limit.
\<close>

definition base64urlEncode :: "byte list \<Rightarrow> string" where
  "base64urlEncode data =
     remove_all CHR ''='' (replace_all CHR ''/'' CHR ''_'' (replace_all CHR ''+'' CHR ''-''
       (btoa (String_fromCharCode data))))"

text \<open>
  \<^verbatim>\<open>
  function base64urlDecode(input: string): Uint8Array {
    let str = input.replace(/-/g, '+').replace(/_/g, '/');
    while (str.length % 4) { str += '='; }
    return new Uint8Array(Array.from(atob(str), c => c.charCodeAt(0)));
  }
  \<close>
  The padding loop is \<open>pad_loop\<close>; it ends after at most three rounds.
\<close>

function pad_loop :: "string \<Rightarrow> string" where
  "pad_loop str = (if length str mod 4 \<noteq> 0 then pad_loop (str @ ''='') else str)"
  by pat_completeness auto
termination
proof (relation "measure (\<lambda>str. (4 - length str mod 4) mod 4)")
  fix str :: string
  assume "length str mod 4 \<noteq> 0"
  moreover have "length str mod 4 < 4" by simp
  ultimately show "(str @ ''='', str) \<in> measure (\<lambda>str. (4 - length str mod 4) mod 4)"
    by (simp add: mod_Suc) linarith
qed simp

declare pad_loop.simps [simp del]

definition base64urlDecode :: "string \<Rightarrow> exn + byte list" where
  "base64urlDecode input =
     (let str = pad_loop (replace_all CHR ''_'' CHR ''/'' (replace_all CHR ''-'' CHR ''+'' input))
      in case atob str of Inl e \<Rightarrow> Inl e | Inr s \<Rightarrow> Inr (charCodes s))"

text \<open>
  For the proofs: the six-bit groups \<open>btoa\<close> prints for a list of byte values, and the
  number of \<open>=\<close> it pads with.
\<close>

fun sextets :: "nat list \<Rightarrow> nat list" where
  "sextets [] = []"
| "sextets [a] = [a div 4, (a mod 4) * 16]"
| "sextets [a, b] = [a div 4, (a mod 4) * 16 + b div 16, (b mod 16) * 4]"
| "sextets (a # b # c # rest) =
     [a div 4, (a mod 4) * 16 + b div 16, (b mod 16) * 4 + c div 64, c mod 64] @ sextets rest"

definition padding_of :: "nat list \<Rightarrow> nat" where
  "padding_of ns = (3 - length ns mod 3) mod 3"

section \<open>The state token (oauth-authorize, oauth-callback)\<close>

subsection \<open>Platform functions\<close>

text \<open>
  \<open>new TextDecoder().decode\<close> is the UTF-8 decoder of the Encoding standard: a
  well-formed sequence passes, each ill-formed part becomes U+FFFD (\<open>EF BF BD\<close>), a
  leading byte order mark is dropped. The decoder state is \<open>Idle\<close> or \<open>Pending\<close> with
  the number of bytes still needed, the bounds for the next byte and the bytes already
  read of the sequence.
\<close>

datatype utf8_state = Idle | Pending nat nat nat "nat list"

datatype lead_class = AsciiByte | LeadByte nat nat nat | InvalidByte

definition classify_lead :: "nat \<Rightarrow> lead_class" where
  "classify_lead b =
     (if b \<le> 0x7F then AsciiByte
      else if 0xC2 \<le> b \<and> b \<le> 0xDF then LeadByte 1 0x80 0xBF
      else if 0xE0 \<le> b \<and> b \<le> 0xEF
        then LeadByte 2 (if b = 0xE0 then 0xA0 else 0x80) (if b = 0xED then 0x9F else 0xBF)
      else if 0xF0 \<le> b \<and> b \<le> 0xF4
        then LeadByte 3 (if b = 0xF0 then 0x90 else 0x80) (if b = 0xF4 then 0x8F else 0xBF)
      else InvalidByte)"

definition replacement_character :: "nat list" where
  "replacement_character = [0xEF, 0xBF, 0xBD]"

fun utf8_decode :: "utf8_state \<Rightarrow> nat list \<Rightarrow> nat list" where
  "utf8_decode Idle [] = []"
| "utf8_decode (Pending n lo hi seen) [] = replacement_character"
| "utf8_decode Idle (b # bs) =
     (case classify_lead b of
        AsciiByte \<Rightarrow> b # utf8_decode Idle bs
      | LeadByte n lo hi \<Rightarrow> utf8_decode (Pending n lo hi [b]) bs
      | InvalidByte \<Rightarrow> replacement_character @ utf8_decode Idle bs)"
| "utf8_decode (Pending n lo hi seen) (b # bs) =
     (if lo \<le> b \<and> b \<le> hi
      then (if n \<le> 1 then seen @ [b] @ utf8_decode Idle bs
            else utf8_decode (Pending (n - 1) 0x80 0xBF (seen @ [b])) bs)
      else replacement_character @
           (case classify_lead b of
              AsciiByte \<Rightarrow> b # utf8_decode Idle bs
            | LeadByte n' lo' hi' \<Rightarrow> utf8_decode (Pending n' lo' hi' [b]) bs
            | InvalidByte \<Rightarrow> replacement_character @ utf8_decode Idle bs))"

definition TextDecoder_decode :: "byte list \<Rightarrow> string" where
  "TextDecoder_decode data =
     (let ns = map unat data;
          ns' = (if take 3 ns = [0xEF, 0xBB, 0xBF] then drop 3 ns else ns)
      in map char_of (utf8_decode Idle ns'))"

text \<open>
  A parsed JSON value. Numbers are integers here (the expiry is in whole seconds).
  \<open>crypto.subtle\<close>'s HMAC-SHA-256 (key, then message, to the raw signature),
  \<open>JSON.parse\<close> (\<open>None\<close> when it throws) and the comparison \<open>x < n\<close> for an \<open>x\<close> that
  is not a number are parameters of the model: every theorem holds whatever they compute.
\<close>

datatype json =
    JNull | JBool bool | JNum int | JStr string | JArr "json list" | JObj "(string \<times> json) list"

record platform =
  hmac_sha256 :: "byte list \<Rightarrow> byte list \<Rightarrow> byte list"
  JSON_parse :: "string \<Rightarrow> json option"
  loose_less :: "json option \<Rightarrow> int \<Rightarrow> bool"

text \<open>A property read \<open>v.k\<close> on a value that is not \<open>null\<close>: \<open>None\<close> is \<open>undefined\<close>.\<close>

definition js_get :: "json \<Rightarrow> string \<Rightarrow> json option" where
  "js_get v k = (case v of JObj members \<Rightarrow> map_of members k | _ \<Rightarrow> None)"

text \<open>\<open>x < n\<close> for a number \<open>n\<close>.\<close>

definition js_less :: "platform \<Rightarrow> json option \<Rightarrow> int \<Rightarrow> bool" where
  "js_less pf x n = (case x of Some (JNum e) \<Rightarrow> e < n | _ \<Rightarrow> loose_less pf x n)"

text \<open>\<open>s.split('.')\<close>: the parts between the separators, at least one.\<close>

fun split_on :: "char \<Rightarrow> string \<Rightarrow> string list" where
  "split_on sep [] = [[]]"
| "split_on sep (c # cs) =
     (if c = sep then [] # split_on sep cs
      else (case split_on sep cs of
              [] \<Rightarrow> [[c]]
            | p # ps \<Rightarrow> (c # p) # ps))"

text \<open>The decimal form of an integer, as a template literal and \<open>JSON.stringify\<close> print it.\<close>

definition digit_char :: "nat \<Rightarrow> char" where
  "digit_char d = ''0123456789'' ! d"

function decimal_nat :: "nat \<Rightarrow> string" where
  "decimal_nat n = (if n < 10 then [digit_char n] else decimal_nat (n div 10) @ [digit_char (n mod 10)])"
  by pat_completeness auto
termination
  by (relation "measure id") auto

declare decimal_nat.simps [simp del]

definition Number_toString :: "int \<Rightarrow> string" where
  "Number_toString i = (if i < 0 then ''-'' @ decimal_nat (nat (- i)) else decimal_nat (nat i))"

text \<open>
  \<open>JSON.stringify\<close> of a string: the quotes, with \<open>"\<close>, \<open>\\<close> and the control characters
  escaped; every other byte as it is.
\<close>

definition hex_digit :: "nat \<Rightarrow> char" where
  "hex_digit d = ''0123456789abcdef'' ! d"

definition quote_char :: "char \<Rightarrow> string" where
  "quote_char c =
     (let x = (of_char c :: nat) in
      if c = CHR 0x22 then [CHR 0x5C, CHR 0x22]
      else if c = CHR 0x5C then [CHR 0x5C, CHR 0x5C]
      else if c = CHR 0x08 then [CHR 0x5C, CHR ''b'']
      else if c = CHR 0x0C then [CHR 0x5C, CHR ''f'']
      else if c = CHR 0x0A then [CHR 0x5C, CHR ''n'']
      else if c = CHR 0x0D then [CHR 0x5C, CHR ''r'']
      else if c = CHR 0x09 then [CHR 0x5C, CHR ''t'']
      else if x < 0x20 then [CHR 0x5C, CHR ''u'', CHR ''0'', CHR ''0'', hex_digit (x div 16), hex_digit (x mod 16)]
      else [c])"

definition QuoteJSONString :: "string \<Rightarrow> string" where
  "QuoteJSONString s = [CHR 0x22] @ concat (map quote_char s) @ [CHR 0x22]"

subsection \<open>hmacSha256\<close>

text \<open>
  \<^verbatim>\<open>
  async function hmacSha256(message: string, secret: string): Promise<string> {
    const encoder = new TextEncoder();
    const key = await crypto.subtle.importKey('raw', encoder.encode(secret), ...);
    const signature = await crypto.subtle.sign('HMAC', key, encoder.encode(message));
    return base64urlEncode(new Uint8Array(signature));
  }
  \<close>
  The copy in oauth-callback writes \<open>base64urlEncode\<close> out in place.
\<close>

definition hmacSha256 :: "platform \<Rightarrow> string \<Rightarrow> string \<Rightarrow> string" where
  "hmacSha256 pf message secret =
     base64urlEncode (hmac_sha256 pf (TextEncoder_encode secret) (TextEncoder_encode message))"

subsection \<open>Encoding (oauth-authorize)\<close>

text \<open>
  \<^verbatim>\<open>
  const statePayload = { userId, role, exp, nonce, codeVerifier };
  const canonicalJson = JSON.stringify(statePayload);
  const signature = await hmacSha256(canonicalJson, stateSecret);
  const state = base64urlEncode(new TextEncoder().encode(canonicalJson + '.' + signature));
  \<close>
\<close>

record state_payload =
  userId :: string
  role :: string
  exp :: int
  nonce :: string
  codeVerifier :: string

definition JSON_stringify_payload :: "state_payload \<Rightarrow> string" where
  "JSON_stringify_payload p =
     ''{'' @ QuoteJSONString ''userId'' @ '':'' @ QuoteJSONString (userId p)
     @ '','' @ QuoteJSONString ''role'' @ '':'' @ QuoteJSONString (role p)
     @ '','' @ QuoteJSONString ''exp'' @ '':'' @ Number_toString (exp p)
     @ '','' @ QuoteJSONString ''nonce'' @ '':'' @ QuoteJSONString (nonce p)
     @ '','' @ QuoteJSONString ''codeVerifier'' @ '':'' @ QuoteJSONString (codeVerifier p)
     @ ''}''"

text \<open>The value \<open>JSON.parse\<close> gives back for the text of a payload.\<close>

definition payload_json :: "state_payload \<Rightarrow> json" where
  "payload_json p =
     JObj [(''userId'', JStr (userId p)), (''role'', JStr (role p)), (''exp'', JNum (exp p)),
           (''nonce'', JStr (nonce p)), (''codeVerifier'', JStr (codeVerifier p))]"

definition encodeState :: "platform \<Rightarrow> string \<Rightarrow> state_payload \<Rightarrow> string" where
  "encodeState pf stateSecret statePayload =
     (let canonicalJson = JSON_stringify_payload statePayload;
          signature = hmacSha256 pf canonicalJson stateSecret
      in base64urlEncode (TextEncoder_encode (canonicalJson @ ''.'' @ signature)))"

subsection \<open>Validation (oauth-callback)\<close>

text \<open>
  \<^verbatim>\<open>
  const stateData = base64urlDecode(stateParam);
  const stateStr = new TextDecoder().decode(stateData);
  const [jsonPart, providedSignature] = stateStr.split('.');
  if (!jsonPart || !providedSignature) { throw new Error('Invalid state format'); }
  const expectedSignature = await hmacSha256(jsonPart, stateSecret);
  const providedSigBytes = new TextEncoder().encode(providedSignature);
  const expectedSigBytes = new TextEncoder().encode(expectedSignature);
  if (!constantTimeEqual(providedSigBytes, expectedSigBytes)) {
    throw new Error('Invalid state signature');
  }
  statePayload = JSON.parse(jsonPart);
  const now = Math.floor(Date.now() / 1000);
  if (statePayload.exp < now) { throw new Error('State expired'); }
  \<close>
  The destructuring takes the first two parts of the split and ignores the others; a
  missing second part is \<open>undefined\<close>. \<open>Inl\<close> is the exception the \<open>try\<close> block ends
  with, \<open>Inr\<close> the payload it leaves in \<open>statePayload\<close>.
\<close>

definition validateState :: "platform \<Rightarrow> string \<Rightarrow> int \<Rightarrow> string \<Rightarrow> exn + json" where
  "validateState pf stateSecret now stateParam =
     (case base64urlDecode stateParam of
        Inl e \<Rightarrow> Inl e
      | Inr stateData \<Rightarrow>
          let stateStr = TextDecoder_decode stateData;
              parts = split_on CHR ''.'' stateStr;
              jsonPart = hd parts;
              providedSignature = (if 1 < length parts then Some (parts ! 1) else None)
          in if jsonPart = [] \<or> falsy providedSignature
             then Inl (Error ''Invalid state format'')
             else
               let expectedSignature = hmacSha256 pf jsonPart stateSecret;
                   providedSigBytes = TextEncoder_encode (the providedSignature);
                   expectedSigBytes = TextEncoder_encode expectedSignature
               in if \<not> constantTimeEqual providedSigBytes expectedSigBytes
                  then Inl (Error ''Invalid state signature'')
                  else (case JSON_parse pf jsonPart of
                          None \<Rightarrow> Inl SyntaxError
                        | Some statePayload \<Rightarrow>
                            if statePayload = JNull then Inl TypeError
                            else if js_less pf (js_get statePayload ''exp'') now
                            then Inl (Error ''State expired'')
                            else Inr statePayload))"

text \<open>For the proofs: strings of ASCII characters, and the characters base64url prints.\<close>

definition ascii :: "string \<Rightarrow> bool" where
  "ascii s \<longleftrightarrow> list_all (\<lambda>c. (of_char c :: nat) < 128) s"

definition b64url_code :: "nat \<Rightarrow> bool" where
  "b64url_code x \<longleftrightarrow> x = 45 \<or> x = 95 \<or> (48 \<le> x \<and> x \<le> 57) \<or> (65 \<le> x \<and> x \<le> 90) \<or> (97 \<le> x \<and> x \<le> 122)"

definition url_char :: "char \<Rightarrow> char" where
  "url_char c = (if c = CHR ''+'' then CHR ''-'' else if c = CHR ''/'' then CHR ''_'' else c)"

section \<open>generateGPX (mirror-activity)\<close>

text \<open>
  The numbers of a stream (latitude, longitude, altitude) are of a type \<open>'n\<close> the model
  does not look into; \<open>Number_to_text\<close> prints one as a template literal does.
  \<open>Date_parse\<close> gives the time value of a date string in milliseconds (\<open>None\<close> for an
  invalid date) and \<open>toISOString\<close> prints a valid time value; both are the platform's.
  A time value outside \<open>\<plusminus>8.64e15\<close> ms is an invalid date (\<open>TimeClip\<close>), and
  \<open>toISOString\<close> of an invalid date throws a \<open>RangeError\<close>. The offsets of the time
  stream are whole seconds.
\<close>

record 'n date_platform =
  Date_parse :: "string \<Rightarrow> int option"
  toISOString :: "int \<Rightarrow> string"
  Number_to_text :: "'n \<Rightarrow> string"

definition TimeClip :: "int \<Rightarrow> int option" where
  "TimeClip t = (if \<bar>t\<bar> \<le> 8640000000000000 then Some t else None)"

definition new_Date :: "'n date_platform \<Rightarrow> string \<Rightarrow> int option" where
  "new_Date pf s = (case Date_parse pf s of None \<Rightarrow> None | Some t \<Rightarrow> TimeClip t)"

text \<open>
  The fields of an activity and of its streams that the code reads. A stream that is
  absent is \<open>None\<close>; \<open>latlng\<close> holds pairs; an entry of the altitude stream is a number
  or \<open>null\<close> (\<open>None\<close>).
\<close>

record StravaActivity =
  act_id :: int
  act_athlete_id :: int
  act_name :: string
  act_start_date :: string

record 'n StravaStream =
  latlng :: "('n \<times> 'n) list option"
  time :: "int list option"
  altitude :: "'n option list option"

text \<open>The default title prefix, byte for byte as the source file holds it.\<close>

definition default_title_prefix :: string where
  "default_title_prefix =
     ''Run with '' @ [CHR 0xEF, CHR 0xA3, CHR 0xBF, CHR 0xC3, CHR 0xBC, CHR 0xC3, CHR 0xAA, CHR 0xC3, CHR 0xA6] @ '' ''"

text \<open>
  \<^verbatim>\<open>
  function generateGPX(activity: StravaActivity, streams: StravaStream): string {
    const latlng = streams.latlng!.data;
    const time = streams.time!.data;
    const altitude = streams.altitude?.data;
    const startTime = new Date(activity.start_date);
    let trackPoints = '';
    for (let i = 0; i < latlng.length; i++) {
      const [lat, lon] = latlng[i];
      const timestamp = new Date(startTime.getTime() + time[i] * 1000).toISOString();
      const ele = altitude ? altitude[i] : null;
      trackPoints += `      <trkpt lat="${lat}" lon="${lon}">
          <time>${timestamp}</time>`;
      if (ele !== null) { trackPoints += `
          <ele>${ele}</ele>`; }
      trackPoints += `
        </trkpt>
  `;
    }
    const appName = Deno.env.get('APP_NAME') || 'Pet Activity Syncer';
    const titlePrefix = Deno.env.get('TITLE_PREFIX') || ...;
    return `<?xml ...>`;   // the document of gpx_document
  }
  \<close>
  \<open>timestamp_at\<close> is the timestamp of sample \<open>i\<close>: \<open>time[i]\<close> out of range is
  \<open>undefined\<close>, the sum is \<open>NaN\<close> and \<open>toISOString\<close> throws. \<open>ele_at\<close> is \<open>ele\<close>:
  \<open>None\<close> for \<open>null\<close> (no altitude stream, or the entry \<open>altitude[i]\<close> is \<open>null\<close>), else the
  text the template prints, which is \<open>undefined\<close> for an index past the end of the altitude
  stream: \<open>undefined !== null\<close> holds, so the element is written.
\<close>

definition timestamp_at :: "'n date_platform \<Rightarrow> int option \<Rightarrow> int list \<Rightarrow> nat \<Rightarrow> exn + string" where
  "timestamp_at pf startTime time_data i =
     (case startTime of
        None \<Rightarrow> Inl RangeError
      | Some t0 \<Rightarrow>
          if i < length time_data
          then (case TimeClip (t0 + time_data ! i * 1000) of
                  None \<Rightarrow> Inl RangeError
                | Some v \<Rightarrow> Inr (toISOString pf v))
          else Inl RangeError)"

definition ele_at :: "'n date_platform \<Rightarrow> 'n option list option \<Rightarrow> nat \<Rightarrow> string option" where
  "ele_at pf altitude_data i =
     (case altitude_data of
        None \<Rightarrow> None
      | Some alt \<Rightarrow>
          if i < length alt
          then (case alt ! i of None \<Rightarrow> None | Some ele \<Rightarrow> Some (Number_to_text pf ele))
          else Some ''undefined'')"

definition trkpt_text :: "'n date_platform \<Rightarrow> 'n \<times> 'n \<Rightarrow> string \<Rightarrow> string option \<Rightarrow> string" where
  "trkpt_text pf p timestamp ele =
     (''      <trkpt lat=\"'' @ Number_to_text pf (fst p) @ ''\" lon=\"'' @ Number_to_text pf (snd p) @ ''\">\<newline>''
        @ ''        <time>'' @ timestamp @ ''</time>'')
     @ (case ele of None \<Rightarrow> [] | Some e \<Rightarrow> ''\<newline>        <ele>'' @ e @ ''</ele>'')
     @ ''\<newline>      </trkpt>\<newline>''"

function generateGPX_loop ::
  "'n date_platform \<Rightarrow> ('n \<times> 'n) list \<Rightarrow> int list \<Rightarrow> 'n option list option \<Rightarrow> int option \<Rightarrow> nat
   \<Rightarrow> string \<Rightarrow> exn + string" where
  "generateGPX_loop pf latlng_data time_data altitude_data startTime i trackPoints =
     (if i < length latlng_data
      then (case timestamp_at pf startTime time_data i of
              Inl e \<Rightarrow> Inl e
            | Inr timestamp \<Rightarrow>
                generateGPX_loop pf latlng_data time_data altitude_data startTime (i + 1)
                  (trackPoints @ trkpt_text pf (latlng_data ! i) timestamp (ele_at pf altitude_data i)))
      else Inr trackPoints)"
  by pat_completeness auto
termination
  by (relation "measure (\<lambda>(pf, latlng_data, time_data, altitude_data, startTime, i, trackPoints). length latlng_data - i)") auto

declare generateGPX_loop.simps [simp del]

definition gpx_document :: "string \<Rightarrow> string \<Rightarrow> string \<Rightarrow> string \<Rightarrow> string \<Rightarrow> string" where
  "gpx_document appName titlePrefix activity_name startIso trackPoints =
     ''<?xml version=\"1.0\" encoding=\"UTF-8\"?>\<newline>''
     @ ''<gpx version=\"1.1\" creator=\"'' @ appName @ ''\">\<newline>''
     @ ''  <metadata>\<newline>''
     @ ''    <name>'' @ titlePrefix @ activity_name @ ''</name>\<newline>''
     @ ''    <time>'' @ startIso @ ''</time>\<newline>''
     @ ''  </metadata>\<newline>''
     @ ''  <trk>\<newline>''
     @ ''    <name>'' @ titlePrefix @ activity_name @ ''</name>\<newline>''
     @ ''    <trkseg>\<newline>''
     @ trackPoints @ ''    </trkseg>\<newline>''
     @ ''  </trk>\<newline>''
     @ ''</gpx>''"

definition generateGPX ::
  "'n date_platform \<Rightarrow> environment \<Rightarrow> StravaActivity \<Rightarrow> 'n StravaStream \<Rightarrow> exn + string" where
  "generateGPX pf env activity streams =
     (case latlng streams of
        None \<Rightarrow> Inl TypeError
      | Some latlng_data \<Rightarrow>
     (case time streams of
        None \<Rightarrow> Inl TypeError
      | Some time_data \<Rightarrow>
          let altitude_data = altitude streams;
              startTime = new_Date pf (act_start_date activity)
          in (case generateGPX_loop pf latlng_data time_data altitude_data startTime 0 [] of
                Inl e \<Rightarrow> Inl e
              | Inr trackPoints \<Rightarrow>
                  let appName = env_or (APP_NAME env) ''Pet Activity Syncer'';
                      titlePrefix = env_or (TITLE_PREFIX env) default_title_prefix
                  in (case startTime of
                        None \<Rightarrow> Inl RangeError
                      | Some t0 \<Rightarrow>
                          Inr (gpx_document appName titlePrefix (act_name activity)
                                 (toISOString pf t0) trackPoints)))))"

section \<open>The store and the provider\<close>

text \<open>
  The tables \<open>connections\<close> and \<open>mirrors\<close> are lists of rows. The columns of a connection
  that only hold display data (username, full name, avatar) are left out: no decision
  reads them. The schema keeps \<open>(user_id, role)\<close> and \<open>(user_id, athlete_id)\<close> unique in
  \<open>connections\<close>, \<open>(user_id, source_activity_id)\<close> unique in \<open>mirrors\<close>, and \<open>role\<close> is one
  of \<open>HUMAN\<close> and \<open>PET\<close>. Every request to the store can fail for a reason of its own
  (the service refuses or cannot be reached): a read then has no \<open>data\<close>, a write changes
  nothing, and the result carries an \<open>error\<close>, which the code reads at some places and
  not at others. Whether a request fails is given with each call.
\<close>

record connection =
  conn_id :: nat
  conn_user_id :: string
  conn_role :: string
  conn_athlete_id :: int
  conn_access_token :: string
  conn_refresh_token :: string
  conn_expires_at :: int

record mirror =
  mirror_id :: nat
  mirror_user_id :: string
  mirror_source_activity_id :: int
  mirror_status :: string

text \<open>\<open>.maybeSingle()\<close>: the row when exactly one matches, else \<open>null\<close>.\<close>

definition maybeSingle :: "'a list \<Rightarrow> 'a option" where
  "maybeSingle rows = (case rows of [r] \<Rightarrow> Some r | _ \<Rightarrow> None)"

definition connections_unique :: "connection list \<Rightarrow> bool" where
  "connections_unique cs \<longleftrightarrow>
     distinct (map (\<lambda>c. (conn_user_id c, conn_athlete_id c)) cs) \<and>
     distinct (map (\<lambda>c. (conn_user_id c, conn_role c)) cs)"

definition mirrors_unique :: "mirror list \<Rightarrow> bool" where
  "mirrors_unique ms \<longleftrightarrow>
     distinct (map (\<lambda>m. (mirror_user_id m, mirror_source_activity_id m)) ms)"

text \<open>
  The provider's answers. A request is what \<open>fetch\<close> sends; a response is a network
  failure (\<open>fetch\<close> throws) or a status with its body. The bodies are those of the
  provider's interface, with the fields the code reads, each of its documented type;
  \<open>OtherBody\<close> is a body that is not JSON, so that \<open>response.json()\<close> throws a
  \<open>SyntaxError\<close>. The provider answers a request with the body of that request or with
  \<open>OtherBody\<close>; the body of another request, which it never sends, is read like
  \<open>OtherBody\<close>. The provider is a function of the
  number of calls made so far and the request, so it may answer the same request
  differently later. Every call is appended to \<open>http_log\<close>.
\<close>

record athlete =
  athlete_id :: int

record token_data =
  access_token :: string
  refresh_token :: string
  expires_at :: int
  athlete :: "athlete option"

datatype http_request =
    TokenExchange "string option" "string option" string "json option"
  | TokenRefresh "string option" "string option" string
  | GetActivity int string
  | GetStreams int string
  | Upload string string string

datatype 'n response_body =
    TokenBody token_data
  | ActivityBody StravaActivity
  | StreamsBody "'n StravaStream"
  | UploadBody int
  | OtherBody

datatype 'n http_response = NetworkFailure | Response nat "'n response_body"

definition response_ok :: "nat \<Rightarrow> bool" where
  "response_ok st \<longleftrightarrow> 200 \<le> st \<and> st \<le> 299"

record system =
  connections :: "connection list"
  mirrors :: "mirror list"
  http_log :: "http_request list"

definition fetch ::
  "(nat \<Rightarrow> http_request \<Rightarrow> 'n http_response) \<Rightarrow> http_request \<Rightarrow> system \<Rightarrow> 'n http_response \<times> system" where
  "fetch provider req s = (provider (length (http_log s)) req, s\<lparr>http_log := http_log s @ [req]\<rparr>)"

section \<open>The client of the store\<close>

text \<open>
  \<^verbatim>\<open>
  const supabaseUrl = Deno.env.get('SUPABASE_URL')!;
  const supabaseKey = Deno.env.get('SUPABASE_SERVICE_ROLE_KEY')!;
  const supabase = createClient(supabaseUrl, supabaseKey);
  \<close>
  \<open>createClient\<close> is the library's: it throws \<open>Error('supabaseUrl is required.')\<close> for a
  URL that is unset or empty, an exception of its own for a URL it does not accept
  (which URLs those are differs between its releases, so \<open>url_error\<close> is given from
  outside; \<open>None\<close>: accepted), and \<open>Error('supabaseKey is required.')\<close> for a key that is
  unset or empty. \<open>None\<close> is a client.
\<close>

definition createClient :: "(string \<Rightarrow> exn option) \<Rightarrow> string option \<Rightarrow> string option \<Rightarrow> exn option" where
  "createClient url_error supabaseUrl supabaseKey =
     (if falsy supabaseUrl then Some (Error ''supabaseUrl is required.'')
      else (case url_error (the supabaseUrl) of
              Some e \<Rightarrow> Some e
            | None \<Rightarrow> if falsy supabaseKey then Some (Error ''supabaseKey is required.'') else None))"

section \<open>Header values of a response\<close>

text \<open>
  \<open>new Response(body, { status, headers: { name: value } })\<close> converts each header value
  to a byte string, which throws a \<open>TypeError\<close> for a value with a code point above
  U+00FF (in the UTF-8 form of the string: a byte from \<open>0xC4\<close> on), strips leading and
  trailing HTTP white space (tab, line feed, carriage return, space), and throws a
  \<open>TypeError\<close> when a NUL, line feed or carriage return is left. \<open>header_value\<close> is the
  value the response then carries.
\<close>

definition http_whitespace :: "char \<Rightarrow> bool" where
  "http_whitespace c \<longleftrightarrow> c = CHR 0x09 \<or> c = CHR 0x0A \<or> c = CHR 0x0D \<or> c = CHR 0x20"

definition http_trim :: "string \<Rightarrow> string" where
  "http_trim v = rev (dropWhile http_whitespace (rev (dropWhile http_whitespace v)))"

definition header_value :: "string \<Rightarrow> exn + string" where
  "header_value v =
     (if list_ex (\<lambda>c. 196 \<le> (of_char c :: nat)) v then Inl TypeError
      else if list_ex (\<lambda>c. c = CHR 0x00 \<or> c = CHR 0x0A \<or> c = CHR 0x0D) (http_trim v)
      then Inl TypeError
      else Inr (http_trim v))"

text \<open>
  \<^verbatim>\<open>
  const ALLOWED_ORIGIN = Deno.env.get('ALLOWED_ORIGIN')!;
  const corsHeaders = { 'Access-Control-Allow-Origin': ALLOWED_ORIGIN,
    'Access-Control-Allow-Headers': 'authorization, x-client-info, apikey, content-type' }
  \<close>
  A response built with \<open>corsHeaders\<close> exists when the value of the origin is a header
  value (an unset variable is sent as \<open>undefined\<close>).
\<close>

definition cors_error :: "environment \<Rightarrow> exn option" where
  "cors_error env =
     (case header_value (template_str (ALLOWED_ORIGIN env)) of Inl e \<Rightarrow> Some e | Inr v \<Rightarrow> None)"

section \<open>refreshTokenIfNeeded (mirror-activity)\<close>

text \<open>
  \<^verbatim>\<open>
  async function refreshTokenIfNeeded(connection: any): Promise<string> {
    const now = Math.floor(Date.now() / 1000);
    if (connection.expires_at > now + 300) { return connection.access_token; }
    const response = await fetch('https://www.strava.com/oauth/token', { ... grant_type:
      'refresh_token', refresh_token: connection.refresh_token ... });
    if (!response.ok) { throw new Error('Failed to refresh token'); }
    const tokenData = await response.json();
    await supabase.from('connections').update({ access_token: tokenData.access_token,
      refresh_token: tokenData.refresh_token, expires_at: tokenData.expires_at })
      .eq('id', connection.id);
    return tokenData.access_token;
  }
  \<close>
  The client is made after the provider has answered. The result of the update is not
  looked at: when the store refuses it (\<open>update_fails\<close>) the table stays as it is and the
  new access token is returned all the same.
\<close>

definition update_tokens :: "nat \<Rightarrow> token_data \<Rightarrow> connection list \<Rightarrow> connection list" where
  "update_tokens cid tokenData cs =
     map (\<lambda>c. if conn_id c = cid
               then c\<lparr>conn_access_token := access_token tokenData,
                       conn_refresh_token := refresh_token tokenData,
                       conn_expires_at := expires_at tokenData\<rparr>
               else c) cs"

definition refreshTokenIfNeeded ::
  "environment \<Rightarrow> (string \<Rightarrow> exn option) \<Rightarrow> (nat \<Rightarrow> http_request \<Rightarrow> 'n http_response) \<Rightarrow> int \<Rightarrow> bool
   \<Rightarrow> connection \<Rightarrow> system \<Rightarrow> (exn + string) \<times> system" where
  "refreshTokenIfNeeded env url_error provider now update_fails connection s =
     (if conn_expires_at connection > now + 300 then (Inr (conn_access_token connection), s)
      else
        (case fetch provider
                (TokenRefresh (STRAVA_CLIENT_ID env) (STRAVA_CLIENT_SECRET env)
                   (conn_refresh_token connection)) s of
           (NetworkFailure, s1) \<Rightarrow> (Inl FetchFailed, s1)
         | (Response st body, s1) \<Rightarrow>
             if \<not> response_ok st then (Inl (Error ''Failed to refresh token''), s1)
             else (case body of
                     TokenBody tokenData \<Rightarrow>
                       (case createClient url_error (SUPABASE_URL env) (SUPABASE_SERVICE_ROLE_KEY env) of
                          Some e \<Rightarrow> (Inl e, s1)
                        | None \<Rightarrow>
                            (Inr (access_token tokenData),
                             if update_fails then s1
                             else s1\<lparr>connections :=
                                       update_tokens (conn_id connection) tokenData (connections s1)\<rparr>))
                   | _ \<Rightarrow> (Inl SyntaxError, s1))))"
section \<open>The mirror-activity handler\<close>

text \<open>
  What one invocation meets outside the code: the identity service's answer to
  \<open>supabase.auth.getUser()\<close> for an \<open>Authorization\<close> header (\<open>None\<close>: an error or no user),
  the provider, the clock at the two token checks, the URLs the client library refuses,
  and whether each request to the store fails: the lookup of the existing mirror, the
  query of the connections, the update of the tokens of the human and of the pet
  connection, and the insert of the mirror record.
\<close>

record 'n mirror_world =
  getUser :: "string \<Rightarrow> string option"
  mw_provider :: "nat \<Rightarrow> http_request \<Rightarrow> 'n http_response"
  mw_now_human :: int
  mw_now_pet :: int
  mw_url_error :: "string \<Rightarrow> exn option"
  mirror_lookup_fails :: bool
  connections_query_fails :: bool
  update_fails_human :: bool
  update_fails_pet :: bool
  mirror_insert_fails :: bool

text \<open>
  The request: its method, the \<open>Authorization\<close> header and the \<open>activityUrl\<close> of the JSON
  body (\<open>None\<close> when the body is not JSON or holds no string there, so that reading it
  throws).
\<close>

record mirror_request =
  mreq_method :: string
  mreq_authorization :: "string option"
  mreq_activityUrl :: "string option"

datatype mirror_body =
    NoBody
  | ErrorBody string
  | AlreadyMirroredBody string mirror
  | SuccessBody int "mirror option" int string string

record mirror_response =
  mresp_status :: nat
  mresp_body :: mirror_body

text \<open>
  \<open>activityUrl.match(/\/activities\/(\d+)/)\<close> and \<open>parseInt\<close> of the group: the digits after
  the first \<open>/activities/\<close> that a digit follows. \<open>parseInt\<close> here reads the digits exactly,
  as JavaScript does up to \<open>2\<^sup>5\<^sup>3\<close>; a longer number JavaScript rounds to the nearest
  double.
\<close>

definition is_digit :: "char \<Rightarrow> bool" where
  "is_digit c \<longleftrightarrow> 48 \<le> (of_char c :: nat) \<and> (of_char c :: nat) \<le> 57"

fun match_activity_digits :: "string \<Rightarrow> string option" where
  "match_activity_digits [] = None"
| "match_activity_digits (c # cs) =
     (if take 12 (c # cs) = ''/activities/'' \<and> takeWhile is_digit (drop 12 (c # cs)) \<noteq> []
      then Some (takeWhile is_digit (drop 12 (c # cs)))
      else match_activity_digits cs)"

definition parseInt :: "string \<Rightarrow> int" where
  "parseInt ds = foldl (\<lambda>acc c. acc * 10 + (int (of_char c) - 48)) 0 ds"

definition error_response :: "nat \<Rightarrow> string \<Rightarrow> mirror_response" where
  "error_response st msg = \<lparr>mresp_status = st, mresp_body = ErrorBody msg\<rparr>"

definition insert_mirror :: "bool \<Rightarrow> string \<Rightarrow> int \<Rightarrow> mirror list \<Rightarrow> mirror option" where
  "insert_mirror fails user activityId ms =
     (if fails \<or> list_ex (\<lambda>m. mirror_user_id m = user \<and> mirror_source_activity_id m = activityId) ms
      then None
      else Some \<lparr>mirror_id = Suc (foldr max (map mirror_id ms) 0), mirror_user_id = user,
                  mirror_source_activity_id = activityId, mirror_status = ''PENDING''\<rparr>)"

text \<open>
  The body of the \<open>try\<close> block, step by step as the source has it; \<open>Inl\<close> is an exception
  on its way to the \<open>catch\<close>. Every \<open>return\<close> ends in \<open>new Response\<close> with \<open>corsHeaders\<close>;
  the steps give the response they ask for and the handler (\<open>mirror_activity\<close>) applies
  the constructor where it returns. The lookup of the existing mirror reads only \<open>data\<close>
  of its result, so a lookup that fails reads as not mirrored.
\<close>

definition mirror_upload ::
  "'n date_platform \<Rightarrow> environment \<Rightarrow> 'n mirror_world \<Rightarrow> string \<Rightarrow> int \<Rightarrow> string
   \<Rightarrow> StravaActivity \<Rightarrow> 'n StravaStream \<Rightarrow> system \<Rightarrow> (exn + mirror_response) \<times> system" where
  "mirror_upload pf env w user activityId petToken activity streams s =
     (case generateGPX pf env activity streams of
        Inl e \<Rightarrow> (Inl e, s)
      | Inr gpx \<Rightarrow>
          let titlePrefix = env_or (TITLE_PREFIX env) default_title_prefix in
          (case fetch (mw_provider w) (Upload petToken gpx (titlePrefix @ act_name activity)) s of
             (NetworkFailure, s1) \<Rightarrow> (Inl FetchFailed, s1)
           | (Response st body, s1) \<Rightarrow>
               if \<not> response_ok st
               then (Inr (error_response 500 ''Failed to upload to pet account''), s1)
               else (case body of
                       UploadBody uploadId \<Rightarrow>
                         let inserted = insert_mirror (mirror_insert_fails w) user activityId (mirrors s1);
                             s2 = (case inserted of None \<Rightarrow> s1
                                   | Some m \<Rightarrow> s1\<lparr>mirrors := mirrors s1 @ [m]\<rparr>)
                         in (Inr \<lparr>mresp_status = 200,
                                   mresp_body = SuccessBody uploadId inserted (act_id activity)
                                     (act_name activity)
                                     (''https://www.strava.com/activities/'' @ Number_toString (act_id activity))\<rparr>,
                             s2)
                     | _ \<Rightarrow> (Inl SyntaxError, s1))))"

definition mirror_fetch ::
  "'n date_platform \<Rightarrow> environment \<Rightarrow> 'n mirror_world \<Rightarrow> string \<Rightarrow> int \<Rightarrow> connection
   \<Rightarrow> string \<Rightarrow> string \<Rightarrow> system \<Rightarrow> (exn + mirror_response) \<times> system" where
  "mirror_fetch pf env w user activityId humanConnection humanToken petToken s =
     (case fetch (mw_provider w) (GetActivity activityId humanToken) s of
        (NetworkFailure, s1) \<Rightarrow> (Inl FetchFailed, s1)
      | (Response st body, s1) \<Rightarrow>
          if \<not> response_ok st
          then (if st = 404 then (Inr (error_response 404 ''Activity not found or private''), s1)
                else (Inr (error_response 500 ''Failed to fetch activity''), s1))
          else (case body of
                  ActivityBody activity \<Rightarrow>
                    if act_athlete_id activity \<noteq> conn_athlete_id humanConnection
                    then (Inr (error_response 403 ''Activity does not belong to connected human account''), s1)
                    else (case fetch (mw_provider w) (GetStreams activityId humanToken) s1 of
                            (NetworkFailure, s2) \<Rightarrow> (Inl FetchFailed, s2)
                          | (Response st2 body2, s2) \<Rightarrow>
                              if \<not> response_ok st2
                              then (Inr (error_response 500 ''Failed to fetch activity streams''), s2)
                              else (case body2 of
                                      StreamsBody streams \<Rightarrow>
                                        if latlng streams = None \<or> time streams = None
                                        then (Inr (error_response 400 ''Activity missing GPS data''), s2)
                                        else mirror_upload pf env w user activityId petToken activity streams s2
                                    | _ \<Rightarrow> (Inl SyntaxError, s2)))
                | _ \<Rightarrow> (Inl SyntaxError, s1)))"

definition mirror_try ::
  "'n date_platform \<Rightarrow> environment \<Rightarrow> 'n mirror_world \<Rightarrow> mirror_request \<Rightarrow> system
   \<Rightarrow> (exn + mirror_response) \<times> system" where
  "mirror_try pf env w req s =
     (if falsy (mreq_authorization req)
      then (Inr (error_response 401 ''Missing authorization header''), s)
      else (case createClient (mw_url_error w) (SUPABASE_URL env) (SUPABASE_ANON_KEY env) of
        Some e \<Rightarrow> (Inl e, s)
      | None \<Rightarrow>
     (case getUser w (the (mreq_authorization req)) of
        None \<Rightarrow> (Inr (error_response 401 ''Unauthorized''), s)
      | Some user \<Rightarrow>
     (case mreq_activityUrl req of
        None \<Rightarrow> (Inl TypeError, s)
      | Some activityUrl \<Rightarrow>
     (case match_activity_digits activityUrl of
        None \<Rightarrow> (Inr (error_response 400 ''Invalid Strava activity URL''), s)
      | Some digits \<Rightarrow>
          let activityId = parseInt digits;
              existingMirror =
                (if mirror_lookup_fails w then None
                 else maybeSingle (filter (\<lambda>m. mirror_user_id m = user \<and>
                                 mirror_source_activity_id m = activityId) (mirrors s)))
          in (case existingMirror of
                Some m \<Rightarrow> (Inr \<lparr>mresp_status = 400,
                                  mresp_body = AlreadyMirroredBody ''Activity already mirrored'' m\<rparr>, s)
              | None \<Rightarrow>
                  if connections_query_fails w
                  then (Inr (error_response 500 ''Failed to fetch connections''), s)
                  else
                    let conns = filter (\<lambda>c. conn_user_id c = user) (connections s) in
                    (case (find (\<lambda>c. conn_role c = ''HUMAN'') conns, find (\<lambda>c. conn_role c = ''PET'') conns) of
                       (Some humanConnection, Some petConnection) \<Rightarrow>
                         (case refreshTokenIfNeeded env (mw_url_error w) (mw_provider w) (mw_now_human w)
                                 (update_fails_human w) humanConnection s of
                            (Inl e, s1) \<Rightarrow> (Inl e, s1)
                          | (Inr humanToken, s1) \<Rightarrow>
                         (case refreshTokenIfNeeded env (mw_url_error w) (mw_provider w) (mw_now_pet w)
                                 (update_fails_pet w) petConnection s1 of
                            (Inl e, s2) \<Rightarrow> (Inl e, s2)
                          | (Inr petToken, s2) \<Rightarrow>
                              mirror_fetch pf env w user activityId humanConnection humanToken petToken s2))
                     | _ \<Rightarrow> (Inr (error_response 400 ''Both human and pet connections required''), s))))))))"

text \<open>
  The handler: the preflight and method checks, then the \<open>try\<close> block with the
  constructor of its response; the \<open>catch\<close> answers 500. Every response carries
  \<open>corsHeaders\<close>, so each constructor throws when the origin is not a header value; \<open>Inl\<close>
  is an exception the handler throws (a constructor outside the \<open>try\<close> block or in the
  \<open>catch\<close> has thrown).
\<close>

definition new_cors_Response :: "environment \<Rightarrow> mirror_response \<Rightarrow> exn + mirror_response" where
  "new_cors_Response env r = (case cors_error env of Some e \<Rightarrow> Inl e | None \<Rightarrow> Inr r)"

definition mirror_activity ::
  "'n date_platform \<Rightarrow> environment \<Rightarrow> 'n mirror_world \<Rightarrow> mirror_request \<Rightarrow> system
   \<Rightarrow> (exn + mirror_response) \<times> system" where
  "mirror_activity pf env w req s =
     (if mreq_method req = ''OPTIONS''
      then (new_cors_Response env \<lparr>mresp_status = 200, mresp_body = NoBody\<rparr>, s)
      else if mreq_method req \<noteq> ''POST''
      then (new_cors_Response env (error_response 405 ''Method not allowed''), s)
      else (case mirror_try pf env w req s of
              (Inr r, s') \<Rightarrow>
                (case new_cors_Response env r of
                   Inr r' \<Rightarrow> (Inr r', s')
                 | Inl e \<Rightarrow> (new_cors_Response env (error_response 500 ''Internal server error''), s'))
            | (Inl e, s') \<Rightarrow>
                (new_cors_Response env (error_response 500 ''Internal server error''), s')))"

text \<open>The uploads an execution has made: the \<open>Upload\<close> requests in the log.\<close>

definition uploads :: "system \<Rightarrow> http_request list" where
  "uploads s = filter (\<lambda>r. case r of Upload t g n \<Rightarrow> True | _ \<Rightarrow> False) (http_log s)"

section \<open>The oauth-callback handler\<close>

text \<open>
  The request is its method and the query parameters \<open>code\<close>, \<open>state\<close> and \<open>error\<close>
  (\<open>None\<close> when absent). Outside the code are the provider, the clock, the URLs the
  client library refuses, and whether the lookup of the existing connection and the
  upsert fail. The response is its status and its \<open>Location\<close> header.
\<close>

record callback_request =
  req_method :: string
  req_code :: "string option"
  req_state :: "string option"
  req_error :: "string option"

record 'n callback_world =
  cw_provider :: "nat \<Rightarrow> http_request \<Rightarrow> 'n http_response"
  cw_now :: int
  cw_url_error :: "string \<Rightarrow> exn option"
  lookup_fails :: bool
  upsert_fails :: bool

record callback_response =
  resp_status :: nat
  resp_location :: "string option"

text \<open>
  \<^verbatim>\<open>
  return new Response(null, { status: 302,
    headers: { 'Location': `${Deno.env.get('SUPABASE_URL')}?error=...` } });
  \<close>
  \<open>redirect\<close> is what is handed to \<open>new Response\<close>, and \<open>new_Response\<close> the constructor:
  it throws when the \<open>Location\<close> is not a header value, and the response carries the
  value stripped of white space around it. Every \<open>return\<close> of the handler ends in this
  constructor, so the steps below give the response they ask for, and the handler
  (\<open>oauth_callback\<close>) applies the constructor where it returns.
\<close>

definition redirect :: "environment \<Rightarrow> string \<Rightarrow> callback_response" where
  "redirect env query =
     \<lparr>resp_status = 302, resp_location = Some (template_str (SUPABASE_URL env) @ query)\<rparr>"

definition new_Response :: "callback_response \<Rightarrow> exn + callback_response" where
  "new_Response init =
     (case resp_location init of
        None \<Rightarrow> Inr init
      | Some v \<Rightarrow>
          (case header_value v of
             Inl e \<Rightarrow> Inl e
           | Inr v' \<Rightarrow> Inr (init\<lparr>resp_location := Some v'\<rparr>)))"

text \<open>
  \<^verbatim>\<open>
  const { data: existingConnection } = await supabase.from('connections').select('*')
    .eq('user_id', userId).eq('athlete_id', athlete.id).maybeSingle();
  \<close>
  \<open>userId\<close> is a value of the parsed payload; a row matches when it is the string of the
  row's \<open>user_id\<close>. Only \<open>data\<close> of the result is read: a lookup that fails reads as no
  existing connection (see \<open>callback_upsert\<close>).
\<close>

definition find_existing_connection :: "json option \<Rightarrow> int \<Rightarrow> connection list \<Rightarrow> connection option" where
  "find_existing_connection uid aid cs =
     maybeSingle (filter (\<lambda>c. uid = Some (JStr (conn_user_id c)) \<and> conn_athlete_id c = aid) cs)"

text \<open>
  \<^verbatim>\<open>
  const { error: upsertError } = await supabase.from('connections').upsert({
    user_id: userId, role: role, athlete_id: athlete.id, ...,
    access_token: access_token, refresh_token: refresh_token, expires_at: expires_at
  }, { onConflict: 'user_id,role' });
  \<close>
  The row of \<open>(user_id, role)\<close> is overwritten, or a new row is added. The store refuses
  the write (\<open>None\<close>) when it fails for a reason of its own, when \<open>user_id\<close> or \<open>role\<close> is
  not a string or \<open>role\<close> not one of the two roles, and when another row of the user
  holds the athlete already.
\<close>

definition upsert_row :: "string \<Rightarrow> string \<Rightarrow> int \<Rightarrow> token_data \<Rightarrow> connection list \<Rightarrow> connection list" where
  "upsert_row u r aid tokenData cs =
     (if list_ex (\<lambda>c. conn_user_id c = u \<and> conn_role c = r) cs
      then map (\<lambda>c. if conn_user_id c = u \<and> conn_role c = r
                     then c\<lparr>conn_athlete_id := aid,
                             conn_access_token := access_token tokenData,
                             conn_refresh_token := refresh_token tokenData,
                             conn_expires_at := expires_at tokenData\<rparr>
                     else c) cs
      else cs @ [\<lparr>conn_id = Suc (foldr max (map conn_id cs) 0), conn_user_id = u, conn_role = r,
                  conn_athlete_id = aid, conn_access_token = access_token tokenData,
                  conn_refresh_token = refresh_token tokenData,
                  conn_expires_at = expires_at tokenData\<rparr>])"

definition upsert_connection ::
  "bool \<Rightarrow> json option \<Rightarrow> json option \<Rightarrow> int \<Rightarrow> token_data \<Rightarrow> connection list
   \<Rightarrow> (string \<times> connection list) option" where
  "upsert_connection fails uid rl aid tokenData cs =
     (case (uid, rl) of
        (Some (JStr u), Some (JStr r)) \<Rightarrow>
          if fails \<or> (r \<noteq> ''HUMAN'' \<and> r \<noteq> ''PET'')
             \<or> list_ex (\<lambda>c. conn_user_id c = u \<and> conn_athlete_id c = aid \<and> conn_role c \<noteq> r) cs
          then None
          else Some (r, upsert_row u r aid tokenData cs)
      | _ \<Rightarrow> None)"

text \<open>
  The steps after the state is validated: the token exchange, the client of the store,
  the role-conflict check and the upsert, each a definition of its own, from the last to
  the first. \<open>Inl\<close> is an exception on its way to the outer \<open>catch\<close> (\<open>createClient\<close> may
  throw; \<open>athlete.id\<close> of a response without \<open>athlete\<close> is a \<open>TypeError\<close>).
\<close>

definition callback_upsert ::
  "environment \<Rightarrow> 'n callback_world \<Rightarrow> json option \<Rightarrow> json option \<Rightarrow> token_data \<Rightarrow> athlete
   \<Rightarrow> system \<Rightarrow> (exn + callback_response) \<times> system" where
  "callback_upsert env w uid rl tokenData ath s1 =
     (let existingConnection =
            (if lookup_fails w then None
             else find_existing_connection uid (athlete_id ath) (connections s1))
      in if existingConnection \<noteq> None \<and> Some (JStr (conn_role (the existingConnection))) \<noteq> rl
         then (Inr (redirect env (''?error=athlete_role_conflict&athlete_id='' @
                      Number_toString (athlete_id ath))), s1)
         else (case upsert_connection (upsert_fails w) uid rl (athlete_id ath) tokenData
                      (connections s1) of
                 None \<Rightarrow> (Inr (redirect env ''?error=database_error''), s1)
               | Some (r, cs') \<Rightarrow>
                   (Inr (redirect env (''?oauth_success=true&role='' @ r)),
                    s1\<lparr>connections := cs'\<rparr>)))"

definition callback_token_response ::
  "environment \<Rightarrow> 'n callback_world \<Rightarrow> json option \<Rightarrow> json option \<Rightarrow> 'n http_response
   \<Rightarrow> system \<Rightarrow> (exn + callback_response) \<times> system" where
  "callback_token_response env w uid rl tokenResponse s1 =
     (case tokenResponse of
        NetworkFailure \<Rightarrow> (Inl FetchFailed, s1)
      | Response st body \<Rightarrow>
          if \<not> response_ok st then (Inr (redirect env ''?error=token_exchange_failed''), s1)
          else (case body of
                  TokenBody tokenData \<Rightarrow>
                    (case createClient (cw_url_error w) (SUPABASE_URL env)
                            (SUPABASE_SERVICE_ROLE_KEY env) of
                       Some e \<Rightarrow> (Inl e, s1)
                     | None \<Rightarrow>
                         (case athlete tokenData of
                            None \<Rightarrow> (Inl TypeError, s1)
                          | Some ath \<Rightarrow> callback_upsert env w uid rl tokenData ath s1))
                | _ \<Rightarrow> (Inl SyntaxError, s1)))"

definition callback_exchange ::
  "environment \<Rightarrow> 'n callback_world \<Rightarrow> string \<Rightarrow> json \<Rightarrow> system
   \<Rightarrow> (exn + callback_response) \<times> system" where
  "callback_exchange env w code_param statePayload s =
     (let uid = js_get statePayload ''userId'';
          rl = js_get statePayload ''role'';
          verifier = js_get statePayload ''codeVerifier'';
          clientId = STRAVA_CLIENT_ID env;
          clientSecret = STRAVA_CLIENT_SECRET env
      in if falsy clientId \<or> falsy clientSecret then (Inr (redirect env ''?error=server_error''), s)
         else (case fetch (cw_provider w) (TokenExchange clientId clientSecret code_param verifier) s of
                 (tokenResponse, s1) \<Rightarrow> callback_token_response env w uid rl tokenResponse s1))"

definition callback_try ::
  "platform \<Rightarrow> environment \<Rightarrow> 'n callback_world \<Rightarrow> callback_request \<Rightarrow> system
   \<Rightarrow> (exn + callback_response) \<times> system" where
  "callback_try pf env w req s =
     (if \<not> falsy (req_error req) then (Inr (redirect env ''?error=oauth_denied''), s)
      else if falsy (req_code req) \<or> falsy (req_state req)
      then (Inr (redirect env ''?error=invalid_request''), s)
      else if falsy (STATE_SECRET env) then (Inr (redirect env ''?error=server_error''), s)
      else (case validateState pf (the (STATE_SECRET env)) (cw_now w) (the (req_state req)) of
              Inl e \<Rightarrow> (Inr (redirect env ''?error=invalid_state''), s)
            | Inr statePayload \<Rightarrow> callback_exchange env w (the (req_code req)) statePayload s))"

text \<open>
  \<^verbatim>\<open>
  serve(async (req) => {
    if (req.method === 'OPTIONS') { return new Response(null, { headers: corsHeaders }); }
    try { ... } catch (error) {
      return new Response(null, { status: 302,
        headers: { 'Location': `${Deno.env.get('SUPABASE_URL')}?error=server_error` } });
    }
  })
  \<close>
  The handler: the preflight answer (status 200, no \<open>Location\<close>), else the \<open>try\<close> block
  with the constructor of its response; the outer \<open>catch\<close> redirects with \<open>server_error\<close>.
  \<open>Inl\<close> is an exception the handler throws: a constructor outside the \<open>try\<close> block or
  in the \<open>catch\<close> has thrown.
\<close>

definition oauth_callback ::
  "platform \<Rightarrow> environment \<Rightarrow> 'n callback_world \<Rightarrow> callback_request \<Rightarrow> system
   \<Rightarrow> (exn + callback_response) \<times> system" where
  "oauth_callback pf env w req s =
     (if req_method req = ''OPTIONS''
      then ((case cors_error env of
               Some e \<Rightarrow> Inl e
             | None \<Rightarrow> Inr \<lparr>resp_status = 200, resp_location = None\<rparr>), s)
      else (case callback_try pf env w req s of
              (Inr init, s') \<Rightarrow>
                (case new_Response init of
                   Inr r \<Rightarrow> (Inr r, s')
                 | Inl e \<Rightarrow> (new_Response (redirect env ''?error=server_error''), s'))
            | (Inl e, s') \<Rightarrow> (new_Response (redirect env ''?error=server_error''), s')))"

text \<open>
  For the properties: the queries a redirect carries, the redirect as the browser
  receives it (\<open>sent_redirect\<close>: the base URL without white space before it), the base
  URLs that are header values, and a provider whose token responses carry other tokens.
\<close>

definition status_query :: "string \<Rightarrow> bool" where
  "status_query q \<longleftrightarrow>
     q = ''?error=oauth_denied'' \<or> q = ''?error=invalid_request'' \<or> q = ''?error=server_error'' \<or>
     q = ''?error=invalid_state'' \<or> q = ''?error=token_exchange_failed'' \<or>
     q = ''?error=database_error'' \<or>
     (\<exists>aid. q = ''?error=athlete_role_conflict&athlete_id='' @ Number_toString aid) \<or>
     q = ''?oauth_success=true&role=HUMAN'' \<or> q = ''?oauth_success=true&role=PET''"

definition is_redirect :: "environment \<Rightarrow> callback_response \<Rightarrow> bool" where
  "is_redirect env r \<longleftrightarrow> (\<exists>q. status_query q \<and> r = redirect env q)"

definition sent_redirect :: "environment \<Rightarrow> string \<Rightarrow> callback_response" where
  "sent_redirect env query =
     \<lparr>resp_status = 302,
      resp_location = Some (dropWhile http_whitespace (template_str (SUPABASE_URL env)) @ query)\<rparr>"

definition location_base_ok :: "environment \<Rightarrow> bool" where
  "location_base_ok env \<longleftrightarrow>
     \<not> list_ex (\<lambda>c. 196 \<le> (of_char c :: nat)) (template_str (SUPABASE_URL env)) \<and>
     \<not> list_ex (\<lambda>c. c = CHR 0x00 \<or> c = CHR 0x0A \<or> c = CHR 0x0D)
         (dropWhile http_whitespace (template_str (SUPABASE_URL env)))"

definition with_tokens :: "(token_data \<Rightarrow> string \<times> string) \<Rightarrow> 'n http_response \<Rightarrow> 'n http_response" where
  "with_tokens f resp =
     (case resp of
        Response st (TokenBody td) \<Rightarrow>
          Response st (TokenBody (td\<lparr>access_token := fst (f td), refresh_token := snd (f td)\<rparr>))
      | _ \<Rightarrow> resp)"

section \<open>Well-formed XML\<close>

text \<open>
  The last property is about what an XML processor accepts. The recogniser below follows
  the grammar of XML 1.0 for documents without a document type declaration, comments,
  processing instructions and CDATA sections: an optional XML declaration at the very
  start, white space, one root element, white space; an element is an empty-element tag
  or a start tag, content and the end tag of the same name; a tag holds attributes, each
  name once, their values quoted and free of \<open><\<close>; content is character data (no \<open><\<close>,
  no \<open>&\<close>, no \<open>]]>\<close>), elements and references; a reference names one of the five
  predefined entities or a legal character. The document is read one character (one byte
  of its UTF-8 text, a byte above 127 being part of a character that may stand in
  names) at a time; a document outside the grammar ends in \<open>Rejected\<close>.
\<close>

definition xml_space :: "char \<Rightarrow> bool" where
  "xml_space c \<longleftrightarrow> c = CHR '' '' \<or> c = CHR 0x09 \<or> c = CHR 0x0A \<or> c = CHR 0x0D"

definition xml_char :: "char \<Rightarrow> bool" where
  "xml_char c \<longleftrightarrow> xml_space c \<or> 32 \<le> (of_char c :: nat)"

definition name_start :: "char \<Rightarrow> bool" where
  "name_start c \<longleftrightarrow>
     (65 \<le> (of_char c :: nat) \<and> (of_char c :: nat) \<le> 90) \<or>
     (97 \<le> (of_char c :: nat) \<and> (of_char c :: nat) \<le> 122) \<or>
     c = CHR ''_'' \<or> c = CHR '':'' \<or> 128 \<le> (of_char c :: nat)"

definition name_char :: "char \<Rightarrow> bool" where
  "name_char c \<longleftrightarrow> name_start c \<or> is_digit c \<or> c = CHR ''-'' \<or> c = CHR ''.''"

definition hex_value :: "char \<Rightarrow> nat option" where
  "hex_value c =
     (if is_digit c then Some (of_char c - 48)
      else if 65 \<le> (of_char c :: nat) \<and> (of_char c :: nat) \<le> 70 then Some (of_char c - 55)
      else if 97 \<le> (of_char c :: nat) \<and> (of_char c :: nat) \<le> 102 then Some (of_char c - 87)
      else None)"

definition legal_character :: "nat \<Rightarrow> bool" where
  "legal_character n \<longleftrightarrow>
     n = 9 \<or> n = 10 \<or> n = 13 \<or> (32 \<le> n \<and> n \<le> 55295) \<or> (57344 \<le> n \<and> n \<le> 65533) \<or>
     (65536 \<le> n \<and> n \<le> 1114111)"

definition reference_ok :: "string \<Rightarrow> bool" where
  "reference_ok r \<longleftrightarrow>
     (case r of
        CHR ''#'' # CHR ''x'' # ds \<Rightarrow>
          ds \<noteq> [] \<and> list_all (\<lambda>c. hex_value c \<noteq> None) ds \<and>
          legal_character (foldl (\<lambda>acc c. acc * 16 + the (hex_value c)) 0 ds)
      | CHR ''#'' # ds \<Rightarrow>
          ds \<noteq> [] \<and> list_all is_digit ds \<and>
          legal_character (foldl (\<lambda>acc c. acc * 10 + (of_char c - 48)) 0 ds)
      | _ \<Rightarrow> r = ''amp'' \<or> r = ''lt'' \<or> r = ''gt'' \<or> r = ''apos'' \<or> r = ''quot'')"

datatype tag_kind = Declaration | Element string

datatype xml_state =
    Rejected
  | Prolog bool
  | Markup_Start "string list" bool
  | Decl_Target string
  | Tag_Name "string list" string
  | In_Tag tag_kind "string list" "string list" bool
  | Att_Name tag_kind "string list" "string list" string
  | Att_Eq tag_kind "string list" "string list" bool
  | Att_Value tag_kind "string list" "string list" char
  | Att_Ref tag_kind "string list" "string list" char string
  | Empty_End "string list"
  | Decl_End
  | Content "string list" nat
  | Content_Ref "string list" string
  | Close_Name "string list" string
  | Close_End "string list"
  | Epilog

text \<open>
  The stack holds the names of the open elements, the innermost first; when the root
  element is closed only white space may follow.
\<close>

definition closed :: "string list \<Rightarrow> xml_state" where
  "closed stack = (if stack = [] then Epilog else Content stack 0)"

definition decl_attributes :: "string list \<Rightarrow> bool" where
  "decl_attributes names \<longleftrightarrow>
     names = [''version''] \<or> names = [''version'', ''encoding''] \<or>
     names = [''version'', ''standalone''] \<or> names = [''version'', ''encoding'', ''standalone'']"

definition in_tag :: "tag_kind \<Rightarrow> string list \<Rightarrow> string list \<Rightarrow> bool \<Rightarrow> char \<Rightarrow> xml_state" where
  "in_tag kind stack names spaced c =
     (if xml_space c then In_Tag kind stack names True
      else if c = CHR ''>'' then (case kind of Element n \<Rightarrow> Content (n # stack) 0 | Declaration \<Rightarrow> Rejected)
      else if c = CHR ''/'' then (case kind of Element n \<Rightarrow> Empty_End stack | Declaration \<Rightarrow> Rejected)
      else if c = CHR ''?''
      then (case kind of Declaration \<Rightarrow> if decl_attributes names then Decl_End else Rejected
            | Element n \<Rightarrow> Rejected)
      else if name_start c \<and> spaced then Att_Name kind stack names [c]
      else Rejected)"

fun step :: "xml_state \<Rightarrow> char \<Rightarrow> xml_state" where
  "step Rejected c = Rejected"
| "step (Prolog first) c =
     (if c = CHR ''<'' then Markup_Start [] first
      else if xml_space c then Prolog False else Rejected)"
| "step (Markup_Start stack first) c =
     (if c = CHR ''?'' then (if first then Decl_Target [] else Rejected)
      else if c = CHR ''/'' then (if stack = [] then Rejected else Close_Name stack [])
      else if name_start c then Tag_Name stack [c]
      else Rejected)"
| "step (Decl_Target acc) c =
     (if xml_space c then (if acc = ''xml'' then In_Tag Declaration [] [] True else Rejected)
      else if name_char c then Decl_Target (acc @ [c]) else Rejected)"
| "step (Tag_Name stack acc) c =
     (if name_char c then Tag_Name stack (acc @ [c]) else in_tag (Element acc) stack [] False c)"
| "step (In_Tag kind stack names spaced) c = in_tag kind stack names spaced c"
| "step (Att_Name kind stack names acc) c =
     (if name_char c then Att_Name kind stack names (acc @ [c])
      else if acc \<in> set names then Rejected
      else if c = CHR ''='' then Att_Eq kind stack (names @ [acc]) True
      else if xml_space c then Att_Eq kind stack (names @ [acc]) False
      else Rejected)"
| "step (Att_Eq kind stack names seen) c =
     (if xml_space c then Att_Eq kind stack names seen
      else if c = CHR ''='' \<and> \<not> seen then Att_Eq kind stack names True
      else if (c = CHR 0x22 \<or> c = CHR 0x27) \<and> seen then Att_Value kind stack names c
      else Rejected)"
| "step (Att_Value kind stack names q) c =
     (if c = q then In_Tag kind stack names False
      else if c = CHR ''<'' then Rejected
      else if c = CHR ''&'' then Att_Ref kind stack names q []
      else if xml_char c then Att_Value kind stack names q else Rejected)"
| "step (Att_Ref kind stack names q acc) c =
     (if c = CHR '';'' then (if reference_ok acc then Att_Value kind stack names q else Rejected)
      else if (if acc = [] then name_start c \<or> c = CHR ''#'' else name_char c)
      then Att_Ref kind stack names q (acc @ [c])
      else Rejected)"
| "step (Empty_End stack) c = (if c = CHR ''>'' then closed stack else Rejected)"
| "step Decl_End c = (if c = CHR ''>'' then Prolog False else Rejected)"
| "step (Content stack k) c =
     (if c = CHR ''<'' then Markup_Start stack False
      else if c = CHR ''&'' then Content_Ref stack []
      else if c = CHR ''>'' \<and> k = 2 then Rejected
      else if c = CHR '']'' then Content stack (min 2 (k + 1))
      else if xml_char c then Content stack 0 else Rejected)"
| "step (Content_Ref stack acc) c =
     (if c = CHR '';'' then (if reference_ok acc then Content stack 0 else Rejected)
      else if (if acc = [] then name_start c \<or> c = CHR ''#'' else name_char c)
      then Content_Ref stack (acc @ [c])
      else Rejected)"
| "step (Close_Name stack acc) c =
     (if name_char c \<and> (acc \<noteq> [] \<or> name_start c) then Close_Name stack (acc @ [c])
      else if stack \<noteq> [] \<and> acc = hd stack
      then (if c = CHR ''>'' then closed (tl stack)
            else if xml_space c then Close_End (tl stack) else Rejected)
      else Rejected)"
| "step (Close_End stack) c =
     (if xml_space c then Close_End stack
      else if c = CHR ''>'' then closed stack else Rejected)"
| "step Epilog c = (if xml_space c then Epilog else Rejected)"

definition well_formed :: "string \<Rightarrow> bool" where
  "well_formed doc \<longleftrightarrow> foldl step (Prolog True) doc = Epilog"

text \<open>
  For the property: the characters that are text in content and in an attribute value,
  and a character \<open>c\<close> followed by \<open>d\<close> that begins neither a reference nor markup of any
  kind (\<open>&\<close> not followed by the start of a name or \<open>#\<close>; \<open><\<close> not followed by the
  start of a name, \<open>/\<close>, \<open>!\<close> or \<open>?\<close>).
\<close>

definition text_char :: "char \<Rightarrow> bool" where
  "text_char c \<longleftrightarrow> xml_char c \<and> c \<noteq> CHR ''<'' \<and> c \<noteq> CHR ''&'' \<and> c \<noteq> CHR ''>'' \<and> c \<noteq> CHR 0x22"

definition broken_markup :: "char \<Rightarrow> char \<Rightarrow> bool" where
  "broken_markup c d \<longleftrightarrow>
     (c = CHR ''&'' \<and> \<not> name_start d \<and> d \<noteq> CHR ''#'') \<or>
     (c = CHR ''<'' \<and> \<not> name_start d \<and> d \<noteq> CHR ''/'' \<and> d \<noteq> CHR ''!'' \<and> d \<noteq> CHR ''?'')"

section \<open>Example inputs\<close>

text \<open>
  Concrete inputs for the instances below. The example platforms are stand-ins: dates
  print as their millisecond count, numbers in decimal.
\<close>

definition demo_dates :: "int date_platform" where
  "demo_dates = \<lparr>Date_parse = (\<lambda>s. if s = ''2024-01-01T00:00:00Z'' then Some 1704067200000 else None),
                  toISOString = Number_toString,
                  Number_to_text = Number_toString\<rparr>"

definition demo_env :: environment where
  "demo_env = \<lparr>ALLOWED_ORIGIN = Some ''https://app.example'',
                SUPABASE_URL = Some ''https://app.example'',
                SUPABASE_SERVICE_ROLE_KEY = Some ''service-key'', SUPABASE_ANON_KEY = Some ''anon-key'',
                STATE_SECRET = Some ''secret'',
                STRAVA_CLIENT_ID = Some ''cid'', STRAVA_CLIENT_SECRET = Some ''csecret'',
                APP_NAME = None, TITLE_PREFIX = Some ''Run with ''\<rparr>"

definition demo_activity :: StravaActivity where
  "demo_activity = \<lparr>act_id = 7, act_athlete_id = 42, act_name = ''Morning'',
                     act_start_date = ''2024-01-01T00:00:00Z''\<rparr>"

definition demo_streams :: "int StravaStream" where
  "demo_streams = \<lparr>latlng = Some [(1, 2), (3, 4), (5, 6)], time = Some [0, 5, 10], altitude = None\<rparr>"

definition demo_human :: connection where
  "demo_human = \<lparr>conn_id = 1, conn_user_id = ''u1'', conn_role = ''HUMAN'', conn_athlete_id = 42,
                  conn_access_token = ''old-access'', conn_refresh_token = ''old-refresh'',
                  conn_expires_at = 1000\<rparr>"

definition demo_pet :: connection where
  "demo_pet = \<lparr>conn_id = 2, conn_user_id = ''u1'', conn_role = ''PET'', conn_athlete_id = 43,
                conn_access_token = ''pet-access'', conn_refresh_token = ''pet-refresh'',
                conn_expires_at = 9000\<rparr>"

definition demo_system :: system where
  "demo_system = \<lparr>connections = [demo_human, demo_pet], mirrors = [], http_log = []\<rparr>"



text \<open>
  A stand-in platform for the instances: the message authentication code is a fixed
  function of key and message, and \<open>JSON.parse\<close> knows the text of one payload.
\<close>

definition toy_mac :: "byte list \<Rightarrow> byte list \<Rightarrow> byte list" where
  "toy_mac key msg = take 32 (rev msg @ key @ [0, 0, 0, 0, 0, 0, 0, 0, 0, 0, 0, 0, 0, 0, 0, 0,
                                               0, 0, 0, 0, 0, 0, 0, 0, 0, 0, 0, 0, 0, 0, 0, 0])"

definition demo_payload :: state_payload where
  "demo_payload = \<lparr>userId = ''u1'', role = ''PET'', exp = 1000, nonce = ''n'', codeVerifier = ''v''\<rparr>"

definition demo_payload_human :: state_payload where
  "demo_payload_human = \<lparr>userId = ''u1'', role = ''HUMAN'', exp = 1000, nonce = ''n'', codeVerifier = ''v''\<rparr>"

definition demo_platform :: platform where
  "demo_platform =
     \<lparr>hmac_sha256 = toy_mac,
      JSON_parse = (\<lambda>s. if s = JSON_stringify_payload demo_payload then Some (payload_json demo_payload)
                        else if s = JSON_stringify_payload demo_payload_human
                        then Some (payload_json demo_payload_human)
                        else None),
      loose_less = (\<lambda>x n. False)\<rparr>"

text \<open>
  A callback request carrying the state issued for a payload, and a world whose provider
  answers the token exchange with two tokens and the athlete of the given id.
\<close>

definition demo_request :: "state_payload \<Rightarrow> callback_request" where
  "demo_request p = \<lparr>req_method = ''GET'', req_code = Some ''code1'',
                      req_state = Some (encodeState demo_platform ''secret'' p), req_error = None\<rparr>"

definition exchange_tokens :: "int \<Rightarrow> token_data" where
  "exchange_tokens aid = \<lparr>access_token = ''secret-access'', refresh_token = ''secret-refresh'',
                          expires_at = 5000, athlete = Some \<lparr>athlete_id = aid\<rparr>\<rparr>"

definition demo_callback_world :: "int \<Rightarrow> int \<Rightarrow> int callback_world" where
  "demo_callback_world aid t =
     \<lparr>cw_provider = (\<lambda>k req. Response 200 (TokenBody (exchange_tokens aid))),
      cw_now = t, cw_url_error = (\<lambda>u. None), lookup_fails = False, upsert_fails = False\<rparr>"

text \<open>A payload whose user id holds the delimiter of the token.\<close>

definition dotted_payload :: state_payload where
  "dotted_payload = \<lparr>userId = ''a.b'', role = ''HUMAN'', exp = 2000, nonce = ''n'', codeVerifier = ''v''\<rparr>"

definition preflight_request :: callback_request where
  "preflight_request = \<lparr>req_method = ''OPTIONS'', req_code = None, req_state = None, req_error = None\<rparr>"

definition other_tokens :: "token_data \<Rightarrow> string \<times> string" where
  "other_tokens td = (''other-access'', ''other-refresh'')"

definition demo_mirror_provider :: "nat \<Rightarrow> http_request \<Rightarrow> int http_response" where
  "demo_mirror_provider k req =
     (case req of
        GetActivity activityId token \<Rightarrow> Response 200 (ActivityBody demo_activity)
      | GetStreams activityId token \<Rightarrow> Response 200 (StreamsBody demo_streams)
      | Upload token gpx name \<Rightarrow> Response 201 (UploadBody 9)
      | _ \<Rightarrow> Response 400 OtherBody)"

text \<open>
  A world of the mirror handler in which nothing fails but, as asked for, the lookup of
  the existing mirror and the insert of the mirror record.
\<close>

definition demo_mirror_world :: "bool \<Rightarrow> bool \<Rightarrow> int mirror_world" where
  "demo_mirror_world lookup_refused insert_refused =
     \<lparr>getUser = (\<lambda>a. if a = ''Bearer jwt'' then Some ''u1'' else None),
      mw_provider = demo_mirror_provider, mw_now_human = 0, mw_now_pet = 0,
      mw_url_error = (\<lambda>u. None), mirror_lookup_fails = lookup_refused,
      connections_query_fails = False, update_fails_human = False, update_fails_pet = False,
      mirror_insert_fails = insert_refused\<rparr>"

definition demo_mirror_request :: mirror_request where
  "demo_mirror_request =
     \<lparr>mreq_method = ''POST'', mreq_authorization = Some ''Bearer jwt'',
      mreq_activityUrl = Some ''https://www.strava.com/activities/7''\<rparr>"

definition demo_mirror :: mirror where
  "demo_mirror = \<lparr>mirror_id = 1, mirror_user_id = ''u1'', mirror_source_activity_id = 7,
                   mirror_status = ''PENDING''\<rparr>"

definition demo_log :: "http_request list" where
  "demo_log =
     [GetActivity 7 ''old-access'', GetStreams 7 ''old-access'',
      Upload ''pet-access'' (projr (generateGPX demo_dates demo_env demo_activity demo_streams))
        ''Run with Morning'']"

text \<open>The example activity under another name.\<close>

definition named_activity :: "string \<Rightarrow> StravaActivity" where
  "named_activity n = \<lparr>act_id = 7, act_athlete_id = 42, act_name = n,
                        act_start_date = ''2024-01-01T00:00:00Z''\<rparr>"

chapter \<open>The properties\<close>

section \<open>Properties of constantTimeEqual\<close>

lemma ucast_byte_roundtrip: "(ucast (ucast (x :: byte) :: 32 word) :: byte) = x"
  by (simp add: ucast_up_ucast_id is_up)

lemma word32_xor_zero_iff: "(a XOR b) = 0 \<longleftrightarrow> a = (b :: 32 word)"
  by (simp add: bit_eq_iff bit_simps)

lemma byte_xor_zero_iff:
  "(ucast (x :: byte) XOR (ucast (y :: byte) :: 32 word)) = 0 \<longleftrightarrow> x = y"
proof
  assume "(ucast x XOR (ucast y :: 32 word)) = 0"
  then have "(ucast x :: 32 word) = ucast y"
    by (simp add: word32_xor_zero_iff)
  then have "(ucast (ucast x :: 32 word) :: byte) = ucast (ucast y :: 32 word)"
    by simp
  then show "x = y" by (simp add: ucast_byte_roundtrip)
next
  assume "x = y" then show "(ucast x XOR (ucast y :: 32 word)) = 0" by simp
qed

lemma index_range_split:
  "i < n \<Longrightarrow>
   (\<forall>j. i \<le> j \<and> j < n \<longrightarrow> P j) \<longleftrightarrow> P i \<and> (\<forall>j. Suc i \<le> j \<and> j < n \<longrightarrow> P j)"
proof -
  assume "i < (n::nat)"
  have "\<And>j. i \<le> j \<longleftrightarrow> j = i \<or> Suc i \<le> j" by auto
  then show ?thesis using \<open>i < n\<close> by auto
qed

text \<open>The loop invariant: the accumulator stays zero exactly while all bytes read so far agree.\<close>

lemma constantTimeEqual_loop_zero_iff:
  "constantTimeEqual_loop a b i result = 0 \<longleftrightarrow>
     result = 0 \<and> (\<forall>j. i \<le> j \<and> j < length a \<longrightarrow> a ! j = b ! j)"
proof (induction a b i result rule: constantTimeEqual_loop.induct)
  case (1 a b i result)
  show ?case
  proof (cases "i < length a")
    case True
    have step: "constantTimeEqual_loop a b i result =
                constantTimeEqual_loop a b (i + 1) (result OR (ucast (a ! i) XOR ucast (b ! i)))"
      using True by (subst constantTimeEqual_loop.simps) simp
    show ?thesis
      unfolding step "1.IH"[OF True] index_range_split[OF True]
      by (auto simp: or_eq_0_iff byte_xor_zero_iff)
  next
    case False
    then show ?thesis by (subst constantTimeEqual_loop.simps) auto
  qed
qed

lemma constantTimeEqual_iff: "constantTimeEqual a b \<longleftrightarrow> a = b"
  by (auto simp: constantTimeEqual_def constantTimeEqual_loop_zero_iff list_eq_iff_nth_eq)

text \<open>
  Claim C8. For all byte arrays \<open>a\<close> and \<open>b\<close>: \<open>constantTimeEqual a b\<close> is false when the
  lengths differ, false when the lengths agree and some position holds different bytes,
  and true exactly when \<open>a = b\<close>.
\<close>

theorem C8_constantTimeEqual_correct:
  "(length a \<noteq> length b \<longrightarrow> \<not> constantTimeEqual a b) \<and>
   (length a = length b \<and> (\<exists>i < length a. a ! i \<noteq> b ! i) \<longrightarrow> \<not> constantTimeEqual a b) \<and>
   (constantTimeEqual a b \<longleftrightarrow> a = b)"
  by (auto simp: constantTimeEqual_iff)

theorem C8_constantTimeEqual_witness:
  "length [1, 2 :: byte] \<noteq> length [1 :: byte] \<and> \<not> constantTimeEqual [1, 2] [1] \<and>
   length [7, 9 :: byte] = length [7, 8 :: byte] \<and> (\<exists>i < length [7, 9 :: byte]. [7, 9 :: byte] ! i \<noteq> [7, 8] ! i) \<and>
   \<not> constantTimeEqual [7, 9] [7, 8] \<and>
   constantTimeEqual [7, 9] [7, 9]"
proof -
  have d: "\<exists>i < length [7, 9 :: byte]. [7, 9 :: byte] ! i \<noteq> [7, 8] ! i"
    by (rule exI[of _ 1]) simp
  show ?thesis
    using C8_constantTimeEqual_correct[of "[1, 2]" "[1]"]
          C8_constantTimeEqual_correct[of "[7, 9]" "[7, 8]"]
          C8_constantTimeEqual_correct[of "[7, 9]" "[7, 9]"] d
    by simp
qed

section \<open>Base64: decoding inverts encoding\<close>

lemma char_of_nat_eval:
  "char_of (n::nat) = Char (odd n) (odd (n div 2)) (odd (n div 4)) (odd (n div 8))
                           (odd (n div 16)) (odd (n div 32)) (odd (n div 64)) (odd (n div 128))"
  by (simp add: char_of_def bit_iff_odd)

lemma b64_alphabet_check:
  "b64_char 0 = CHR ''A'' \<and> b64_char 25 = CHR ''Z'' \<and> b64_char 26 = CHR ''a'' \<and>
   b64_char 51 = CHR ''z'' \<and> b64_char 52 = CHR ''0'' \<and> b64_char 61 = CHR ''9'' \<and>
   b64_char 62 = CHR ''+'' \<and> b64_char 63 = CHR ''/''"
  by (simp add: b64_char_def char_of_nat_eval)

lemma b64_index_char: "x < 64 \<Longrightarrow> b64_index (b64_char x) = Some x"
  by (auto simp: b64_index_def b64_char_def Let_def)

lemma of_char_b64_char:
  "x < 64 \<Longrightarrow> of_char (b64_char x) =
     (if x < 26 then 65 + x else if x < 52 then 71 + x else if x < 62 then x - 4 else if x = 62 then 43 else (47::nat))"
  by (auto simp: b64_char_def)

lemma b64_char_neq:
  assumes "x < 64"
  shows "b64_char x \<noteq> CHR ''=''" "b64_char x \<noteq> CHR ''-''" "b64_char x \<noteq> CHR ''_''"
        "\<not> ascii_whitespace (b64_char x)"
proof -
  have ne: "\<And>c. (of_char c :: nat) \<notin> {43, 47} \<union> {48..57} \<union> {65..90} \<union> {97..122} \<Longrightarrow> b64_char x \<noteq> c"
    using of_char_b64_char[OF assms] by (auto split: if_splits)
  show "b64_char x \<noteq> CHR ''=''" by (rule ne) simp
  show "b64_char x \<noteq> CHR ''-''" by (rule ne) simp
  show "b64_char x \<noteq> CHR ''_''" by (rule ne) simp
  have "b64_char x \<noteq> CHR 0x09" "b64_char x \<noteq> CHR 0x0A" "b64_char x \<noteq> CHR 0x0C"
       "b64_char x \<noteq> CHR 0x0D" "b64_char x \<noteq> CHR 0x20"
    by (rule ne, simp)+
  then show "\<not> ascii_whitespace (b64_char x)" by (simp add: ascii_whitespace_def)
qed

lemma padding_of_simps [simp]:
  "padding_of [] = 0" "padding_of [a] = 2" "padding_of [a, b] = 1"
  "padding_of (a # b # c # rest) = padding_of rest"
  by (simp_all add: padding_of_def)

lemma btoa_codes_sextets:
  "btoa_codes ns = map b64_char (sextets ns) @ replicate (padding_of ns) CHR ''=''"
  by (induction ns rule: sextets.induct) (simp_all add: numeral_2_eq_2)

lemma sextets_bound: "\<forall>n \<in> set ns. n < 256 \<Longrightarrow> \<forall>x \<in> set (sextets ns). x < 64"
proof (induction ns rule: sextets.induct)
  case (4 a b c rest)
  then have "a < 256" "b < 256" "c < 256" by simp_all
  then have "a div 4 < 64" "(a mod 4) * 16 + b div 16 < 64" "(b mod 16) * 4 + c div 64 < 64" "c mod 64 < 64"
    by simp_all
  then show ?case using 4 by simp
qed auto

lemma length_sextets_pad: "(length (sextets ns) + padding_of ns) mod 4 = 0"
  by (induction ns rule: sextets.induct) simp_all

lemma padding_le: "padding_of ns \<le> 2"
  by (simp add: padding_of_def) 

lemma sextet_arith:
  fixes a b c :: nat
  assumes "b < 256" "c < 256"
  shows "a div 4 * 4 + (a mod 4 * 16 + b div 16) div 16 = a"
    and "(a mod 4 * 16 + b div 16) mod 16 * 16 + (b mod 16 * 4 + c div 64) div 4 = b"
    and "(b mod 16 * 4 + c div 64) mod 4 * 64 + c mod 64 = c"
proof -
  have b16: "b div 16 < 16" and c64: "c div 64 < 4" using assms by simp_all
  have 1: "(a mod 4 * 16 + b div 16) div 16 = a mod 4" using b16 by simp
  have 2: "(a mod 4 * 16 + b div 16) mod 16 = b div 16" using b16 by simp
  have 3: "(b mod 16 * 4 + c div 64) div 4 = b mod 16" using c64 by simp
  have 4: "(b mod 16 * 4 + c div 64) mod 4 = c div 64" using c64 by simp
  show "a div 4 * 4 + (a mod 4 * 16 + b div 16) div 16 = a" unfolding 1 by simp
  show "(a mod 4 * 16 + b div 16) mod 16 * 16 + (b mod 16 * 4 + c div 64) div 4 = b" unfolding 2 3 by simp
  show "(b mod 16 * 4 + c div 64) mod 4 * 64 + c mod 64 = c" unfolding 4 by simp
qed

lemma decode_sextets_sextets: "\<forall>n \<in> set ns. n < 256 \<Longrightarrow> decode_sextets (sextets ns) = ns"
proof (induction ns rule: sextets.induct)
  case 1 show ?case by simp
next
  case (2 a) show ?case by simp
next
  case (3 a b)
  then have "b < 256" by simp
  then show ?case using sextet_arith(1,2)[where a = a and b = b and c = 0] by simp
next
  case (4 a b c rest)
  then have "b < 256" "c < 256" by simp_all
  then show ?case
    using sextet_arith(1,2)[where a = a and b = b and c = c] sextet_arith(3)[where b = b and c = c] 4
    by simp
qed


lemma pad_loop_eq: "pad_loop str = str @ replicate ((4 - length str mod 4) mod 4) CHR ''=''"
proof (induction str rule: pad_loop.induct)
  case (1 str)
  show ?case
  proof (cases "length str mod 4 = 0")
    case True
    then show ?thesis by (subst pad_loop.simps) simp
  next
    case False
    have lt: "length str mod 4 < 4" by simp
    have k: "(4 - length str mod 4) mod 4 = Suc ((4 - Suc (length str) mod 4) mod 4)"
      using False lt by (simp add: mod_Suc) linarith
    show ?thesis
      using False "1.IH"[OF False]
      by (subst pad_loop.simps) (simp add: k replicate_app_Cons_same)
  qed
qed

lemma pad_of_sextets: "(4 - length (sextets ns) mod 4) mod 4 = padding_of ns"
  by (induction ns rule: sextets.induct) simp_all

lemma strip_padding_b64:
  assumes "\<forall>x \<in> set sx. x < 64" "k \<le> 2" "(length sx + k) mod 4 = 0"
  shows "strip_padding (map b64_char sx @ replicate k CHR ''='') = map b64_char sx"
proof -
  have last_ne: "sx \<noteq> [] \<Longrightarrow> last (map b64_char sx) \<noteq> CHR ''=''"
    using assms(1) by (simp add: last_map b64_char_neq(1))
  consider "k = 0" | "k = 1" | "k = 2" using assms(2) by linarith
  then show ?thesis
  proof cases
    case 1
    then show ?thesis using last_ne by (cases "sx = []") (auto simp: strip_padding_def)
  next
    case 2
    then have "sx \<noteq> []" using assms(3) by auto
    then show ?thesis using 2 assms(3) last_ne by (simp add: strip_padding_def butlast_append)
  next
    case 3
    then show ?thesis using assms(3) by (simp add: strip_padding_def numeral_2_eq_2 butlast_append)
  qed
qed


lemma atob_btoa_codes:
  assumes "\<forall>n \<in> set ns. n < 256"
  shows "atob (btoa_codes ns) = Inr (map char_of ns)"
proof -
  let ?sx = "sextets ns"
  have sx: "\<forall>x \<in> set ?sx. x < 64" using sextets_bound[OF assms] .
  have eqws: "\<not> ascii_whitespace CHR ''=''" by (simp add: ascii_whitespace_def)
  have nows: "filter (\<lambda>c. \<not> ascii_whitespace c) (btoa_codes ns) = btoa_codes ns"
    using sx eqws by (auto simp: btoa_codes_sextets filter_id_conv b64_char_neq(4))
  have strip: "strip_padding (btoa_codes ns) = map b64_char ?sx"
    unfolding btoa_codes_sextets
    by (rule strip_padding_b64[OF sx padding_le length_sextets_pad])
  have len: "length (map b64_char ?sx) mod 4 \<noteq> 1"
    by (induction ns rule: sextets.induct) simp_all
  have valid: "\<not> list_ex (\<lambda>c. b64_index c = None) (map b64_char ?sx)"
    using sx by (auto simp: list_ex_iff b64_index_char)
  have idx: "map (\<lambda>c. the (b64_index c)) (map b64_char ?sx) = ?sx"
    using sx by (simp add: map_idI b64_index_char)
  have dec: "decode_sextets (map (\<lambda>c. the (b64_index c)) (map b64_char ?sx)) = ns"
    by (simp only: idx decode_sextets_sextets[OF assms])
  show ?thesis
    unfolding atob_def nows strip Let_def dec
    using len valid by simp
qed


lemma byte_of_char_of_byte [simp]: "byte_of_char (char_of_byte b) = b"
proof -
  have "unat b < 256" using unsigned_less[of b, where 'a = nat] by simp
  then show ?thesis by (simp add: byte_of_char_def char_of_byte_def)
qed

lemma char_of_byte_of_char [simp]: "char_of_byte (byte_of_char c) = c"
proof -
  have "(of_char c :: nat) < 256" by simp
  then show ?thesis by (simp add: byte_of_char_def char_of_byte_def unat_of_nat)
qed

lemma url_chars_roundtrip:
  assumes "\<forall>x \<in> set sx. x < 64"
  shows "replace_all CHR ''_'' CHR ''/'' (replace_all CHR ''-'' CHR ''+''
            (remove_all CHR ''='' (replace_all CHR ''/'' CHR ''_'' (replace_all CHR ''+'' CHR ''-''
               (map b64_char sx @ replicate k CHR ''=''))))) = map b64_char sx"
  using assms
  by (induction sx) (auto simp: replace_all_def remove_all_def b64_char_neq)

text \<open>\<open>base64urlDecode\<close> gives back every byte array \<open>base64urlEncode\<close> encoded.\<close>

lemma base64url_roundtrip: "base64urlDecode (base64urlEncode data) = Inr data"
proof -
  let ?ns = "map of_char (String_fromCharCode data) :: nat list"
  have ns: "\<forall>n \<in> set ?ns. n < 256" by auto
  have sx: "\<forall>x \<in> set (sextets ?ns). x < 64" using sextets_bound[OF ns] .
  have enc: "replace_all CHR ''_'' CHR ''/'' (replace_all CHR ''-'' CHR ''+'' (base64urlEncode data))
             = map b64_char (sextets ?ns)"
    unfolding base64urlEncode_def btoa_def btoa_codes_sextets
    by (rule url_chars_roundtrip[OF sx])
  have pad: "pad_loop (map b64_char (sextets ?ns)) = btoa_codes ?ns"
    by (simp add: pad_loop_eq btoa_codes_sextets pad_of_sextets)
  have bytes: "charCodes (String_fromCharCode data) = data"
    by (simp add: charCodes_def String_fromCharCode_def comp_def)
  show ?thesis
    unfolding base64urlDecode_def enc Let_def pad atob_btoa_codes[OF ns]
    by (simp add: bytes)
qed
section \<open>The state token\<close>

subsection \<open>Text encoding\<close>

lemma unat_byte_of_char [simp]: "unat (byte_of_char c) = of_char c"
proof -
  have "(of_char c :: nat) < 256" by simp
  then show ?thesis by (simp add: byte_of_char_def unat_of_nat)
qed

lemma inj_byte_of_char: "byte_of_char c = byte_of_char d \<Longrightarrow> c = d"
  by (metis char_of_byte_of_char)

lemma TextEncoder_encode_eq_iff [simp]: "TextEncoder_encode s = TextEncoder_encode t \<longleftrightarrow> s = t"
proof
  assume "TextEncoder_encode s = TextEncoder_encode t"
  then have "map char_of_byte (map byte_of_char s) = map char_of_byte (map byte_of_char t)"
    by (simp add: TextEncoder_encode_def)
  then show "s = t" by (simp add: comp_def)
qed simp

lemma utf8_decode_ascii: "list_all (\<lambda>n. n < 128) ns \<Longrightarrow> utf8_decode Idle ns = ns"
  by (induction ns) (simp_all add: classify_lead_def)

lemma TextDecoder_ascii:
  assumes "ascii s"
  shows "TextDecoder_decode (TextEncoder_encode s) = s"
proof -
  let ?ns = "map of_char s :: nat list"
  have ns: "map unat (TextEncoder_encode s) = ?ns"
    by (simp add: TextEncoder_encode_def comp_def)
  have small: "list_all (\<lambda>n. n < 128) ?ns"
    using assms by (simp add: ascii_def list_all_iff)
  have nobom: "take 3 ?ns \<noteq> [0xEF, 0xBB, 0xBF]"
  proof
    assume "take 3 ?ns = [0xEF, 0xBB, 0xBF]"
    then have "(0xEF :: nat) \<in> set (take 3 ?ns)" by simp
    then have "(0xEF :: nat) \<in> set ?ns" by (rule in_set_takeD)
    then show False using small by (auto simp: list_all_iff)
  qed
  show ?thesis
    unfolding TextDecoder_decode_def ns Let_def
    using nobom by (simp add: utf8_decode_ascii[OF small] comp_def)
qed

subsection \<open>Splitting\<close>

lemma split_on_not_Nil [simp]: "split_on sep s \<noteq> []"
  by (induction s) (auto split: list.splits)

lemma split_on_no_sep: "sep \<notin> set a \<Longrightarrow> split_on sep a = [a]"
  by (induction a) auto

lemma split_on_append: "sep \<notin> set a \<Longrightarrow> split_on sep (a @ sep # rest) = a # split_on sep rest"
  by (induction a) auto
lemma b64url_code_b64_char: "x < 64 \<Longrightarrow> b64url_code (of_char (url_char (b64_char x)))"
  by (auto simp: b64_char_def url_char_def b64url_code_def char_of_eq_iff take_bit_eq_mod)

lemma url_char_replace:
  "replace_all CHR ''/'' CHR ''_'' (replace_all CHR ''+'' CHR ''-'' s) = map url_char s"
  by (induction s) (simp_all add: replace_all_def url_char_def)

lemma url_char_pad [simp]: "url_char CHR ''='' = CHR ''=''"
  by (simp add: url_char_def)

lemma url_char_neq_pad: "x < 64 \<Longrightarrow> url_char (b64_char x) \<noteq> CHR ''=''"
  using b64url_code_b64_char[of x] by (auto simp: b64url_code_def)

lemma base64urlEncode_sextets:
  "base64urlEncode data =
     map (\<lambda>x. url_char (b64_char x)) (sextets (map of_char (String_fromCharCode data)))"
proof -
  let ?ns = "map of_char (String_fromCharCode data) :: nat list"
  have ns: "\<forall>n \<in> set ?ns. n < 256" by auto
  have sx: "\<forall>x \<in> set (sextets ?ns). x < 64" using sextets_bound[OF ns] .
  have keep: "filter (\<lambda>c. c \<noteq> CHR ''='') (map (\<lambda>x. url_char (b64_char x)) (sextets ?ns))
              = map (\<lambda>x. url_char (b64_char x)) (sextets ?ns)"
    using sx by (simp add: filter_id_conv url_char_neq_pad)
  show ?thesis
    unfolding base64urlEncode_def url_char_replace btoa_def btoa_codes_sextets remove_all_def
    using keep by (simp add: comp_def)
qed

lemma base64urlEncode_chars: "c \<in> set (base64urlEncode data) \<Longrightarrow> b64url_code (of_char c)"
proof -
  let ?ns = "map of_char (String_fromCharCode data) :: nat list"
  have ns: "\<forall>n \<in> set ?ns. n < 256" by auto
  have sx: "\<forall>x \<in> set (sextets ?ns). x < 64" using sextets_bound[OF ns] .
  assume "c \<in> set (base64urlEncode data)"
  then obtain x where "x \<in> set (sextets ?ns)" and c: "c = url_char (b64_char x)"
    unfolding base64urlEncode_sextets set_map image_iff by (erule bexE)
  then have "x < 64" using sx by simp
  then show ?thesis unfolding c by (rule b64url_code_b64_char)
qed

lemma base64urlEncode_ascii: "ascii (base64urlEncode data)"
  unfolding ascii_def list_all_iff
proof
  fix c assume "c \<in> set (base64urlEncode data)"
  then have "b64url_code (of_char c)" by (rule base64urlEncode_chars)
  then show "(of_char c :: nat) < 128" by (auto simp: b64url_code_def)
qed

lemma base64urlEncode_no_dot: "CHR ''.'' \<notin> set (base64urlEncode data)"
proof
  assume "CHR ''.'' \<in> set (base64urlEncode data)"
  then have "b64url_code (of_char CHR ''.'')" by (rule base64urlEncode_chars)
  then show False by (simp add: b64url_code_def)
qed

lemma base64urlEncode_no_quote: "CHR 0x22 \<notin> set (base64urlEncode data)"
proof
  assume "CHR 0x22 \<in> set (base64urlEncode data)"
  then have "b64url_code (of_char CHR 0x22)" by (rule base64urlEncode_chars)
  then show False by (simp add: b64url_code_def)
qed

subsection \<open>The steps of validateState\<close>

lemma validateState_decode_error:
  "base64urlDecode stateParam = Inl e \<Longrightarrow> validateState pf secret now stateParam = Inl e"
  by (simp add: validateState_def)

lemma validateState_format_error:
  assumes "base64urlDecode stateParam = Inr stateData"
      and "parts = split_on CHR ''.'' (TextDecoder_decode stateData)"
      and "hd parts = [] \<or> length parts \<le> 1 \<or> parts ! 1 = []"
  shows "validateState pf secret now stateParam = Inl (Error ''Invalid state format'')"
  using assms by (auto simp: validateState_def Let_def falsy_def)

lemma validateState_checked:
  assumes "base64urlDecode stateParam = Inr stateData"
      and "split_on CHR ''.'' (TextDecoder_decode stateData) = jsonPart # providedSignature # rest"
      and "jsonPart \<noteq> []" and "providedSignature \<noteq> []"
  shows "validateState pf secret now stateParam =
           (if providedSignature \<noteq> hmacSha256 pf jsonPart secret
            then Inl (Error ''Invalid state signature'')
            else (case JSON_parse pf jsonPart of
                    None \<Rightarrow> Inl SyntaxError
                  | Some statePayload \<Rightarrow>
                      if statePayload = JNull then Inl TypeError
                      else if js_less pf (js_get statePayload ''exp'') now
                      then Inl (Error ''State expired'')
                      else Inr statePayload))"
  using assms by (simp add: validateState_def Let_def falsy_def constantTimeEqual_iff)
lemma validateState_not_format_error:
  assumes "base64urlDecode stateParam = Inr stateData"
      and "split_on CHR ''.'' (TextDecoder_decode stateData) = jsonPart # providedSignature # rest"
      and "jsonPart \<noteq> []" and "providedSignature \<noteq> []"
  shows "validateState pf secret now stateParam \<noteq> Inl (Error ''Invalid state format'')"
  unfolding validateState_checked[OF assms]
  by (simp split: option.splits)

text \<open>
  Claim C7, as the code has it. For every state string that base64url-decodes, with
  \<open>parts\<close> the split of the decoded text on \<open>.\<close>: validation fails with
  \<open>Error('Invalid state format')\<close> exactly when the first part is empty, or there is no
  second part (no delimiter), or the second part is empty. Parts after the second are not
  looked at: a text with more than two parts passes the format check.
\<close>

theorem C7_format_check:
  assumes "base64urlDecode stateParam = Inr stateData"
      and "parts = split_on CHR ''.'' (TextDecoder_decode stateData)"
  shows "validateState pf secret now stateParam = Inl (Error ''Invalid state format'')
         \<longleftrightarrow> hd parts = [] \<or> length parts \<le> 1 \<or> parts ! 1 = []"
proof
  assume "hd parts = [] \<or> length parts \<le> 1 \<or> parts ! 1 = []"
  then show "validateState pf secret now stateParam = Inl (Error ''Invalid state format'')"
    by (rule validateState_format_error[OF assms])
next
  assume fmt: "validateState pf secret now stateParam = Inl (Error ''Invalid state format'')"
  show "hd parts = [] \<or> length parts \<le> 1 \<or> parts ! 1 = []"
  proof (rule ccontr)
    assume "\<not> (hd parts = [] \<or> length parts \<le> 1 \<or> parts ! 1 = [])"
    then have a: "hd parts \<noteq> []" and b: "1 < length parts" and c: "parts ! 1 \<noteq> []" by simp_all
    from b obtain j sg rest where p: "parts = j # sg # rest"
      by (cases parts; cases "tl parts") auto
    have "validateState pf secret now stateParam \<noteq> Inl (Error ''Invalid state format'')"
      using a c p assms(2)
      by (intro validateState_not_format_error[OF assms(1), where jsonPart = j and providedSignature = sg and rest = rest]) simp_all
    then show False using fmt by simp
  qed
qed
lemmas codec_eval = base64urlEncode_def base64urlDecode_def btoa_def atob_def b64_char_def
  b64_index_def String_fromCharCode_def charCodes_def replace_all_def remove_all_def strip_padding_def
  ascii_whitespace_def pad_loop.simps char_of_nat_eval Let_def byte_of_char_def char_of_byte_def
  TextEncoder_encode_def TextDecoder_decode_def classify_lead_def replacement_character_def
  hmacSha256_def JSON_stringify_payload_def QuoteJSONString_def
  quote_char_def hex_digit_def Number_toString_def decimal_nat.simps digit_char_def

lemma decode_a: "base64urlDecode ''YQ'' = Inr [97]"
  by (simp add: codec_eval)

lemma decode_abc: "base64urlDecode ''YS5iLmM'' = Inr [97, 46, 98, 46, 99]"
  by (simp add: codec_eval)

lemma text_a: "TextDecoder_decode [97] = ''a''"
  by (simp add: codec_eval)

lemma text_abc: "TextDecoder_decode [97, 46, 98, 46, 99] = ''a.b.c''"
  by (simp add: codec_eval)

theorem C7_format_check_witness:
  "base64urlDecode ''YQ'' = Inr [97] \<and>
   [''a''] = split_on CHR ''.'' (TextDecoder_decode [97]) \<and>
   (hd [''a''] = [] \<or> length [''a''] \<le> 1 \<or> [''a''] ! 1 = []) \<and>
   validateState demo_platform ''secret'' 0 ''YQ'' = Inl (Error ''Invalid state format'')"
proof -
  have s: "[''a''] = split_on CHR ''.'' (TextDecoder_decode [97])"
    by (simp add: text_a)
  have c: "hd [''a''] = [] \<or> length [''a''] \<le> 1 \<or> [''a''] ! 1 = []" by simp
  show ?thesis
    using C7_format_check[OF decode_a s, of demo_platform "''secret''" 0] decode_a s c by simp
qed

text \<open>
  The claim as stated fails for a text of three parts: \<open>YS5iLmM\<close> decodes to \<open>a.b.c\<close>,
  and validation does not end with the format error (with the stand-in platform it ends
  with \<open>Error('Invalid state signature')\<close>).
\<close>

theorem C7_counterexample:
  "base64urlDecode ''YS5iLmM'' = Inr [97, 46, 98, 46, 99] \<and>
   split_on CHR ''.'' (TextDecoder_decode [97, 46, 98, 46, 99]) = [''a'', ''b'', ''c''] \<and>
   validateState demo_platform ''secret'' 0 ''YS5iLmM'' = Inl (Error ''Invalid state signature'') \<and>
   (\<forall>pf secret now. validateState pf secret now ''YS5iLmM'' \<noteq> Inl (Error ''Invalid state format''))"
proof -
  have s: "split_on CHR ''.'' (TextDecoder_decode [97, 46, 98, 46, 99]) = [''a'', ''b'', ''c'']"
    by (simp add: text_abc)
  have n: "\<And>pf secret now. validateState pf secret now ''YS5iLmM'' \<noteq> Inl (Error ''Invalid state format'')"
    by (rule validateState_not_format_error[OF decode_abc s]) simp_all
  have sig: "hmacSha256 demo_platform ''a'' ''secret'' \<noteq> ''b''"
    by (simp add: codec_eval demo_platform_def toy_mac_def)
  have v: "validateState demo_platform ''secret'' 0 ''YS5iLmM'' = Inl (Error ''Invalid state signature'')"
    using sig by (simp add: validateState_checked[OF decode_abc s])
  show ?thesis using decode_abc s v n by simp
qed
lemma dotted_json:
  "JSON_stringify_payload dotted_payload =
     ''{\"userId\":\"a'' @ CHR ''.'' # ''b\",\"role\":\"HUMAN\",\"exp\":2000,\"nonce\":\"n\",\"codeVerifier\":\"v\"}''"
  by (simp add: dotted_payload_def codec_eval)

lemma encodeState_text:
  assumes "ascii (JSON_stringify_payload p)"
  shows "base64urlDecode (encodeState pf secret p) =
           Inr (TextEncoder_encode (JSON_stringify_payload p @ ''.'' @ hmacSha256 pf (JSON_stringify_payload p) secret))"
    and "TextDecoder_decode (TextEncoder_encode
             (JSON_stringify_payload p @ ''.'' @ hmacSha256 pf (JSON_stringify_payload p) secret))
         = JSON_stringify_payload p @ ''.'' @ hmacSha256 pf (JSON_stringify_payload p) secret"
proof -
  show "base64urlDecode (encodeState pf secret p) =
           Inr (TextEncoder_encode (JSON_stringify_payload p @ ''.'' @ hmacSha256 pf (JSON_stringify_payload p) secret))"
    by (simp add: encodeState_def Let_def base64url_roundtrip)
  have "ascii (JSON_stringify_payload p @ ''.'' @ hmacSha256 pf (JSON_stringify_payload p) secret)"
    using assms base64urlEncode_ascii[of "hmac_sha256 pf (TextEncoder_encode secret)
             (TextEncoder_encode (JSON_stringify_payload p))"]
    by (simp add: ascii_def hmacSha256_def)
  then show "TextDecoder_decode (TextEncoder_encode
             (JSON_stringify_payload p @ ''.'' @ hmacSha256 pf (JSON_stringify_payload p) secret))
         = JSON_stringify_payload p @ ''.'' @ hmacSha256 pf (JSON_stringify_payload p) secret"
    by (rule TextDecoder_ascii)
qed

lemma hmacSha256_no_dot: "CHR ''.'' \<notin> set (hmacSha256 pf m secret)"
  by (simp add: hmacSha256_def base64urlEncode_no_dot)

lemma hmacSha256_no_quote: "CHR 0x22 \<notin> set (hmacSha256 pf m secret)"
  by (simp add: hmacSha256_def base64urlEncode_no_quote)

text \<open>
  Claim C1 fails on the code for a payload whose user id holds the delimiter: the text
  of the token then has three parts, the first two are taken for payload and signature,
  and validation ends with \<open>Error('Invalid state signature')\<close>, whatever the platform
  computes, the secret and the time.
\<close>

theorem C1_roundtrip_fails_with_dot:
  "validateState pf secret now (encodeState pf secret dotted_payload)
     = Inl (Error ''Invalid state signature'')"
proof -
  let ?j1 = "''{\"userId\":\"a''"
  let ?j2 = "''b\",\"role\":\"HUMAN\",\"exp\":2000,\"nonce\":\"n\",\"codeVerifier\":\"v\"}''"
  let ?sig = "hmacSha256 pf (JSON_stringify_payload dotted_payload) secret"
  have a: "ascii (JSON_stringify_payload dotted_payload)"
    unfolding dotted_json by (simp add: ascii_def)
  have whole: "JSON_stringify_payload dotted_payload @ ''.'' @ ?sig = ?j1 @ CHR ''.'' # (?j2 @ CHR ''.'' # ?sig)"
    unfolding dotted_json by simp
  have sp: "split_on CHR ''.'' (?j1 @ CHR ''.'' # (?j2 @ CHR ''.'' # ?sig)) = ?j1 # ?j2 # [?sig]"
    by (subst split_on_append, simp, subst split_on_append, simp,
        simp add: split_on_no_sep[OF hmacSha256_no_dot])
  have ne: "?j2 \<noteq> hmacSha256 pf ?j1 secret"
  proof
    assume "?j2 = hmacSha256 pf ?j1 secret"
    then have "CHR 0x22 \<in> set (hmacSha256 pf ?j1 secret)" by (metis list.set_intros(1,2))
    then show False using hmacSha256_no_quote by blast
  qed
  let ?data = "TextEncoder_encode (JSON_stringify_payload dotted_payload @ ''.'' @ ?sig)"
  have d: "base64urlDecode (encodeState pf secret dotted_payload) = Inr ?data"
    by (rule encodeState_text(1)[OF a])
  have t: "TextDecoder_decode ?data = ?j1 @ CHR ''.'' # (?j2 @ CHR ''.'' # ?sig)"
    using encodeState_text(2)[OF a, of pf secret] whole by simp
  have sp': "split_on CHR ''.'' (TextDecoder_decode ?data) = ?j1 # ?j2 # [?sig]"
    unfolding t by (rule sp)
  have "validateState pf secret now (encodeState pf secret dotted_payload) =
           (if ?j2 \<noteq> hmacSha256 pf ?j1 secret
            then Inl (Error ''Invalid state signature'')
            else (case JSON_parse pf ?j1 of
                    None \<Rightarrow> Inl SyntaxError
                  | Some statePayload \<Rightarrow>
                      if statePayload = JNull then Inl TypeError
                      else if js_less pf (js_get statePayload ''exp'') now
                      then Inl (Error ''State expired'')
                      else Inr statePayload))"
    by (rule validateState_checked[OF d sp']) simp_all
  then show ?thesis using ne by simp
qed
lemma hmacSha256_nonempty:
  "hmac_sha256 pf (TextEncoder_encode secret) (TextEncoder_encode m) \<noteq> [] \<Longrightarrow> hmacSha256 pf m secret \<noteq> []"
proof -
  assume ne: "hmac_sha256 pf (TextEncoder_encode secret) (TextEncoder_encode m) \<noteq> []"
  have "\<And>ns. ns \<noteq> [] \<Longrightarrow> sextets ns \<noteq> []"
    subgoal for ns by (induction ns rule: sextets.induct) simp_all
    done
  then show ?thesis using ne
    by (simp add: hmacSha256_def base64urlEncode_sextets String_fromCharCode_def)
qed

lemma validateState_encodeState:
  assumes a: "ascii (JSON_stringify_payload p)"
      and nd: "CHR ''.'' \<notin> set (JSON_stringify_payload p)"
      and mac: "hmac_sha256 pf (TextEncoder_encode secret) (TextEncoder_encode (JSON_stringify_payload p)) \<noteq> []"
  shows "validateState pf secret now (encodeState pf secret p) =
           (case JSON_parse pf (JSON_stringify_payload p) of
              None \<Rightarrow> Inl SyntaxError
            | Some statePayload \<Rightarrow>
                if statePayload = JNull then Inl TypeError
                else if js_less pf (js_get statePayload ''exp'') now
                then Inl (Error ''State expired'')
                else Inr statePayload)"
proof -
  let ?j = "JSON_stringify_payload p"
  let ?sig = "hmacSha256 pf ?j secret"
  let ?data = "TextEncoder_encode (?j @ ''.'' @ ?sig)"
  have d: "base64urlDecode (encodeState pf secret p) = Inr ?data"
    by (rule encodeState_text(1)[OF a])
  have t: "TextDecoder_decode ?data = ?j @ CHR ''.'' # ?sig"
    using encodeState_text(2)[OF a, of pf secret] by simp
  have sp: "split_on CHR ''.'' (TextDecoder_decode ?data) = ?j # ?sig # []"
    unfolding t by (simp add: split_on_append[OF nd] split_on_no_sep[OF hmacSha256_no_dot])
  have j: "?j \<noteq> []" by (simp add: JSON_stringify_payload_def)
  have s: "?sig \<noteq> []" by (rule hmacSha256_nonempty[OF mac])
  show ?thesis
    by (simp add: validateState_checked[OF d sp j s])
qed
section \<open>generateGPX\<close>

lemma timestamp_at_ok:
  "i < length ts \<Longrightarrow> \<bar>t0 + ts ! i * 1000\<bar> \<le> 8640000000000000 \<Longrightarrow>
   timestamp_at pf (Some t0) ts i = Inr (toISOString pf (t0 + ts ! i * 1000))"
  by (simp add: timestamp_at_def TimeClip_def)

lemma generateGPX_loop_ok:
  assumes "length ts = length ll"
      and "\<forall>j < length ll. \<bar>t0 + ts ! j * 1000\<bar> \<le> 8640000000000000"
  shows "generateGPX_loop pf ll ts alt (Some t0) i acc =
         Inr (acc @ concat (map (\<lambda>j. trkpt_text pf (ll ! j) (toISOString pf (t0 + ts ! j * 1000)) (ele_at pf alt j))
                              [i ..< length ll]))"
  using assms
proof (induction pf ll ts alt "Some t0" i acc rule: generateGPX_loop.induct)
  case (1 pf ll ts alt i acc)
  show ?case
  proof (cases "i < length ll")
    case True
    have t: "timestamp_at pf (Some t0) ts i = Inr (toISOString pf (t0 + ts ! i * 1000))"
      using True "1.prems" by (simp add: timestamp_at_ok)
    have r: "[i ..< length ll] = i # [i + 1 ..< length ll]"
      using True by (simp add: upt_conv_Cons)
    show ?thesis
      using "1.hyps"[OF True t "1.prems"] True t
      by (subst generateGPX_loop.simps) (simp add: r)
  next
    case False
    then show ?thesis by (subst generateGPX_loop.simps) simp
  qed
qed

text \<open>
  The track log of an activity whose \<open>latlng\<close> and \<open>time\<close> streams both have \<open>n\<close> samples
  and whose start date and sample times are valid dates: the document whose track
  segment is the \<open>n\<close> track points in order, the \<open>i\<close>-th with the \<open>i\<close>-th latitude and
  longitude and the timestamp of the start time plus the \<open>i\<close>-th offset in seconds.
\<close>

lemma generateGPX_track_points:
  assumes "latlng streams = Some ll" and "time streams = Some ts"
      and "length ts = length ll"
      and "new_Date pf (act_start_date activity) = Some t0"
      and "\<forall>j < length ll. \<bar>t0 + ts ! j * 1000\<bar> \<le> 8640000000000000"
  shows "generateGPX pf env activity streams =
           Inr (gpx_document (env_or (APP_NAME env) ''Pet Activity Syncer'')
                  (env_or (TITLE_PREFIX env) default_title_prefix) (act_name activity)
                  (toISOString pf t0)
                  (concat (map (\<lambda>i. trkpt_text pf (ll ! i) (toISOString pf (t0 + ts ! i * 1000))
                                        (ele_at pf (altitude streams) i))
                               [0 ..< length ll])))"
proof -
  have loop: "generateGPX_loop pf ll ts (altitude streams) (Some t0) 0 [] =
         Inr (concat (map (\<lambda>j. trkpt_text pf (ll ! j) (toISOString pf (t0 + ts ! j * 1000)) (ele_at pf (altitude streams) j))
                              [0 ..< length ll]))"
    using generateGPX_loop_ok[OF assms(3) assms(5), of pf "altitude streams" 0 "[]"] by simp
  show ?thesis
    using assms(1,2,4) loop by (simp add: generateGPX_def Let_def)
qed

text \<open>
  The elevation of a point: left out when there is no altitude stream or the entry of
  the point is \<open>null\<close>; printed when the entry is a number; and printed as \<open>undefined\<close>
  when the altitude stream ends before the point.
\<close>

lemma ele_at_cases:
  "ele_at pf None i = None"
  "i < length alt \<Longrightarrow> alt ! i = None \<Longrightarrow> ele_at pf (Some alt) i = None"
  "i < length alt \<Longrightarrow> alt ! i = Some v \<Longrightarrow> ele_at pf (Some alt) i = Some (Number_to_text pf v)"
  "length alt \<le> i \<Longrightarrow> ele_at pf (Some alt) i = Some ''undefined''"
  by (simp_all add: ele_at_def)

lemma trkpt_text_cases:
  "trkpt_text pf p timestamp None =
     ''      <trkpt lat=\"'' @ Number_to_text pf (fst p) @ ''\" lon=\"'' @ Number_to_text pf (snd p) @ ''\">\<newline>''
       @ ''        <time>'' @ timestamp @ ''</time>'' @ ''\<newline>      </trkpt>\<newline>''"
  "trkpt_text pf p timestamp (Some e) =
     ''      <trkpt lat=\"'' @ Number_to_text pf (fst p) @ ''\" lon=\"'' @ Number_to_text pf (snd p) @ ''\">\<newline>''
       @ ''        <time>'' @ timestamp @ ''</time>'' @ ''\<newline>        <ele>'' @ e @ ''</ele>''
       @ ''\<newline>      </trkpt>\<newline>''"
  by (simp_all add: trkpt_text_def)

lemmas gpx_eval = demo_dates_def demo_env_def demo_activity_def demo_streams_def new_Date_def TimeClip_def
  env_or_def gpx_document_def trkpt_text_def ele_at_def Number_toString_def decimal_nat.simps digit_char_def

lemma generateGPX_example:
  "generateGPX demo_dates demo_env demo_activity demo_streams = Inr
     ''<?xml version=\"1.0\" encoding=\"UTF-8\"?>\<newline><gpx version=\"1.1\" creator=\"Pet Activity Syncer\">\<newline>  <metadata>\<newline>    <name>Run with Morning</name>\<newline>    <time>1704067200000</time>\<newline>  </metadata>\<newline>  <trk>\<newline>    <name>Run with Morning</name>\<newline>    <trkseg>\<newline>      <trkpt lat=\"1\" lon=\"2\">\<newline>        <time>1704067200000</time>\<newline>      </trkpt>\<newline>      <trkpt lat=\"3\" lon=\"4\">\<newline>        <time>1704067205000</time>\<newline>      </trkpt>\<newline>      <trkpt lat=\"5\" lon=\"6\">\<newline>        <time>1704067210000</time>\<newline>      </trkpt>\<newline>    </trkseg>\<newline>  </trk>\<newline></gpx>''"
proof -
  have h1: "latlng demo_streams = Some [(1, 2), (3, 4), (5, 6)]"
   and h2: "time demo_streams = Some [0, 5, 10]"
   and h3: "length [0, 5, 10 :: int] = length [(1, 2), (3, 4), (5, 6 :: int)]"
   and h4: "new_Date demo_dates (act_start_date demo_activity) = Some 1704067200000"
   and h6: "altitude demo_streams = None"
    by (simp_all add: gpx_eval)
  have h5: "\<forall>j < length [(1, 2), (3, 4), (5, 6 :: int)]. \<bar>1704067200000 + [0, 5, 10 :: int] ! j * 1000\<bar> \<le> 8640000000000000"
    by (auto simp: less_Suc_eq)
  show ?thesis
    using generateGPX_track_points[OF h1 h2 h3 h4 h5, of demo_env]
    by (simp add: gpx_eval upt_rec h6)
qed

text \<open>
  Claim C5 on the code. The count, the order and the timestamps of the track points are
  as the claim says (\<open>generateGPX_track_points\<close>), and a point has no elevation element
  when there is no altitude stream or its entry is \<open>null\<close> (\<open>ele_at_cases\<close>). But a point
  for which the altitude stream has no entry is not written without the element: for
  three samples and the altitude stream \<open>[10, null]\<close> the first point carries
  \<open><ele>10</ele>\<close>, the second no elevation, and the third, which has no altitude data,
  \<open><ele>undefined</ele>\<close>.
\<close>

theorem C5_elevation_past_altitude_stream:
  "generateGPX demo_dates demo_env demo_activity (demo_streams\<lparr>altitude := Some [Some 10, None]\<rparr>) = Inr
     ''<?xml version=\"1.0\" encoding=\"UTF-8\"?>\<newline><gpx version=\"1.1\" creator=\"Pet Activity Syncer\">\<newline>  <metadata>\<newline>    <name>Run with Morning</name>\<newline>    <time>1704067200000</time>\<newline>  </metadata>\<newline>  <trk>\<newline>    <name>Run with Morning</name>\<newline>    <trkseg>\<newline>      <trkpt lat=\"1\" lon=\"2\">\<newline>        <time>1704067200000</time>\<newline>        <ele>10</ele>\<newline>      </trkpt>\<newline>      <trkpt lat=\"3\" lon=\"4\">\<newline>        <time>1704067205000</time>\<newline>      </trkpt>\<newline>      <trkpt lat=\"5\" lon=\"6\">\<newline>        <time>1704067210000</time>\<newline>        <ele>undefined</ele>\<newline>      </trkpt>\<newline>    </trkseg>\<newline>  </trk>\<newline></gpx>''"
proof -
  let ?streams = "demo_streams\<lparr>altitude := Some [Some 10, None]\<rparr>"
  have h1: "latlng ?streams = Some [(1, 2), (3, 4), (5, 6)]"
   and h2: "time ?streams = Some [0, 5, 10]"
   and h3: "length [0, 5, 10 :: int] = length [(1, 2), (3, 4), (5, 6 :: int)]"
   and h4: "new_Date demo_dates (act_start_date demo_activity) = Some 1704067200000"
   and h6: "altitude ?streams = Some [Some 10, None]"
    by (simp_all add: gpx_eval)
  have h5: "\<forall>j < length [(1, 2), (3, 4), (5, 6 :: int)]. \<bar>1704067200000 + [0, 5, 10 :: int] ! j * 1000\<bar> \<le> 8640000000000000"
    by (auto simp: less_Suc_eq)
  show ?thesis
    using generateGPX_track_points[OF h1 h2 h3 h4 h5, of demo_env]
    by (simp add: gpx_eval upt_rec h6)
qed

section \<open>refreshTokenIfNeeded\<close>


lemma update_tokens_others:
  "filter (\<lambda>r. conn_id r \<noteq> cid) (update_tokens cid td cs) = filter (\<lambda>r. conn_id r \<noteq> cid) cs"
  by (induction cs) (auto simp: update_tokens_def)










section \<open>The mirror-activity handler\<close>

lemma fetch_mirrors: "fetch provider req s = (resp, s') \<Longrightarrow> mirrors s' = mirrors s"
  by (auto simp: fetch_def)

lemma refresh_mirrors:
  "refreshTokenIfNeeded env url_error provider now update_fails c s = (res, s') \<Longrightarrow>
   mirrors s' = mirrors s"
  by (auto simp: refreshTokenIfNeeded_def fetch_def
           split: if_splits http_response.splits response_body.splits option.splits)

lemma error_response_body [simp]: "mresp_body (error_response st msg) = ErrorBody msg"
  by (simp add: error_response_def)

lemma insert_mirror_Some:
  assumes "insert_mirror fails user activityId ms = Some m"
  shows "filter (\<lambda>m'. mirror_user_id m' = user \<and> mirror_source_activity_id m' = activityId) (ms @ [m]) = [m]"
proof -
  have n: "\<not> list_ex (\<lambda>m. mirror_user_id m = user \<and> mirror_source_activity_id m = activityId) ms"
    using assms by (simp add: insert_mirror_def split: if_splits)
  then have "filter (\<lambda>m'. mirror_user_id m' = user \<and> mirror_source_activity_id m' = activityId) ms = []"
    by (simp add: list_ex_iff filter_empty_conv)
  moreover have "mirror_user_id m = user \<and> mirror_source_activity_id m = activityId"
    using assms by (auto simp: insert_mirror_def split: if_splits)
  ultimately show ?thesis by simp
qed

lemma mirror_upload_recorded:
  assumes "mirror_upload pf env w user activityId petToken activity streams s = (Inr r, s')"
      and "mresp_body r = SuccessBody uploadId (Some m) a n u"
  shows "insert_mirror (mirror_insert_fails w) user activityId (mirrors s) = Some m \<and>
         mirrors s' = mirrors s @ [m]"
proof (cases "generateGPX pf env activity streams")
  case (Inl e)
  then show ?thesis using assms(1) by (simp add: mirror_upload_def)
next
  case (Inr gpx)
  let ?req = "Upload petToken gpx (env_or (TITLE_PREFIX env) default_title_prefix @ act_name activity)"
  obtain resp s1 where f: "fetch (mw_provider w) ?req s = (resp, s1)"
    by (cases "fetch (mw_provider w) ?req s")
  have ms: "mirrors s1 = mirrors s" by (rule fetch_mirrors[OF f])
  show ?thesis
  proof (cases resp)
    case NetworkFailure
    then show ?thesis using assms(1) Inr f by (simp add: mirror_upload_def Let_def)
  next
    case (Response st body)
    show ?thesis
    proof (cases "response_ok st")
      case False
      then have "r = error_response 500 ''Failed to upload to pet account''"
        using assms(1) Inr f Response by (simp add: mirror_upload_def Let_def)
      then show ?thesis using assms(2) by simp
    next
      case True
      show ?thesis
      proof (cases body)
        case (UploadBody x)
        have res: "r = \<lparr>mresp_status = 200,
                       mresp_body = SuccessBody x (insert_mirror (mirror_insert_fails w) user activityId (mirrors s1))
                          (act_id activity) (act_name activity)
                          (''https://www.strava.com/activities/'' @ Number_toString (act_id activity))\<rparr>"
          and st: "s' = (case insert_mirror (mirror_insert_fails w) user activityId (mirrors s1) of
                           None \<Rightarrow> s1 | Some m \<Rightarrow> s1\<lparr>mirrors := mirrors s1 @ [m]\<rparr>)"
          using assms(1) Inr f Response True UploadBody by (simp_all add: mirror_upload_def Let_def)
        have i: "insert_mirror (mirror_insert_fails w) user activityId (mirrors s1) = Some m"
          using res assms(2) by simp
        show ?thesis using i st ms by simp
      qed (use assms(1) Inr f Response True in \<open>simp_all add: mirror_upload_def Let_def\<close>)
    qed
  qed
qed

lemma mirror_fetch_recorded:
  assumes "mirror_fetch pf env w user activityId humanConnection humanToken petToken s = (Inr r, s')"
      and "mresp_body r = SuccessBody uploadId (Some m) a n u"
  shows "insert_mirror (mirror_insert_fails w) user activityId (mirrors s) = Some m \<and>
         mirrors s' = mirrors s @ [m]"
proof -
  obtain resp s1 where f1: "fetch (mw_provider w) (GetActivity activityId humanToken) s = (resp, s1)"
    by (cases "fetch (mw_provider w) (GetActivity activityId humanToken) s")
  have m1: "mirrors s1 = mirrors s" by (rule fetch_mirrors[OF f1])
  obtain resp2 s2 where f2: "fetch (mw_provider w) (GetStreams activityId humanToken) s1 = (resp2, s2)"
    by (cases "fetch (mw_provider w) (GetStreams activityId humanToken) s1")
  have m2: "mirrors s2 = mirrors s" using fetch_mirrors[OF f2] m1 by simp
  have "\<exists>activity streams.
          mirror_upload pf env w user activityId petToken activity streams s2 = (Inr r, s')"
    using assms f1 f2
    by (auto simp: mirror_fetch_def split: http_response.splits if_splits response_body.splits)
  then obtain activity streams
    where "mirror_upload pf env w user activityId petToken activity streams s2 = (Inr r, s')"
    by blast
  from mirror_upload_recorded[OF this assms(2)] m2 show ?thesis by simp
qed

lemma mirror_try_recorded:
  assumes "mirror_try pf env w req s = (Inr r, s')"
      and "mresp_body r = SuccessBody uploadId (Some m) a n u"
      and "mreq_authorization req = Some auth" and "getUser w auth = Some user"
      and "mreq_activityUrl req = Some activityUrl"
      and "match_activity_digits activityUrl = Some digits"
  shows "insert_mirror (mirror_insert_fails w) user (parseInt digits) (mirrors s) = Some m \<and>
         mirrors s' = mirrors s @ [m]"
proof -
  have ne: "\<not> falsy (mreq_authorization req)"
    using assms(1,2,3) by (auto simp: mirror_try_def split: if_splits)
  have "\<exists>humanConnection petConnection humanToken petToken s1 s2.
          refreshTokenIfNeeded env (mw_url_error w) (mw_provider w) (mw_now_human w) (update_fails_human w)
            humanConnection s = (Inr humanToken, s1) \<and>
          refreshTokenIfNeeded env (mw_url_error w) (mw_provider w) (mw_now_pet w) (update_fails_pet w)
            petConnection s1 = (Inr petToken, s2) \<and>
          mirror_fetch pf env w user (parseInt digits) humanConnection humanToken petToken s2 = (Inr r, s')"
    using assms ne
    by (auto simp: mirror_try_def Let_def split: option.splits if_splits prod.splits sum.splits) blast+
  then obtain humanConnection petConnection humanToken petToken s1 s2
    where r1: "refreshTokenIfNeeded env (mw_url_error w) (mw_provider w) (mw_now_human w)
                 (update_fails_human w) humanConnection s = (Inr humanToken, s1)"
      and r2: "refreshTokenIfNeeded env (mw_url_error w) (mw_provider w) (mw_now_pet w)
                 (update_fails_pet w) petConnection s1 = (Inr petToken, s2)"
      and mf: "mirror_fetch pf env w user (parseInt digits) humanConnection humanToken petToken s2 = (Inr r, s')"
    by blast
  have "mirrors s2 = mirrors s" using refresh_mirrors[OF r1] refresh_mirrors[OF r2] by simp
  with mirror_fetch_recorded[OF mf assms(2)] show ?thesis by simp
qed

lemma mirror_activity_recorded:
  assumes "mirror_activity pf env w req s = (Inr r, s')"
      and "mresp_body r = SuccessBody uploadId (Some m) a n u"
      and "mreq_authorization req = Some auth" and "getUser w auth = Some user"
      and "mreq_activityUrl req = Some activityUrl"
      and "match_activity_digits activityUrl = Some digits"
  shows "insert_mirror (mirror_insert_fails w) user (parseInt digits) (mirrors s) = Some m \<and>
         mirrors s' = mirrors s @ [m]"
proof -
  have "mirror_try pf env w req s = (Inr r, s')"
    using assms(1,2)
    by (auto simp: mirror_activity_def new_cors_Response_def
             split: if_splits prod.splits sum.splits option.splits)
  from mirror_try_recorded[OF this assms(2-6)] show ?thesis .
qed

lemma mirror_activity_existing:
  assumes "mreq_method req = ''POST''"
      and "mreq_authorization req = Some auth" and "auth \<noteq> []" and "getUser w auth = Some user"
      and "mreq_activityUrl req = Some activityUrl"
      and "match_activity_digits activityUrl = Some digits"
      and "createClient (mw_url_error w) (SUPABASE_URL env) (SUPABASE_ANON_KEY env) = None"
      and "\<not> mirror_lookup_fails w" and "cors_error env = None"
      and "filter (\<lambda>m'. mirror_user_id m' = user \<and> mirror_source_activity_id m' = parseInt digits) (mirrors s) = [m]"
  shows "mirror_activity pf env w req s =
           (Inr \<lparr>mresp_status = 400, mresp_body = AlreadyMirroredBody ''Activity already mirrored'' m\<rparr>, s)"
  using assms
  by (simp add: mirror_activity_def mirror_try_def Let_def falsy_def maybeSingle_def new_cors_Response_def)

subsection \<open>An example run\<close>

lemma demo_gpx:
  "generateGPX demo_dates demo_env demo_activity demo_streams =
     Inr (projr (generateGPX demo_dates demo_env demo_activity demo_streams))"
  by (simp add: generateGPX_example)

lemma demo_url: "match_activity_digits ''https://www.strava.com/activities/7'' = Some ''7''"
  by (simp add: is_digit_def)

lemma demo_parseInt: "parseInt ''7'' = 7"
  by (simp add: parseInt_def)

lemma demo_mirror_upload:
  "mirror_upload demo_dates demo_env (demo_mirror_world lk ins) ''u1'' 7 ''pet-access'' demo_activity
     demo_streams s =
   (Inr \<lparr>mresp_status = 200,
         mresp_body = SuccessBody 9 (insert_mirror ins ''u1'' 7 (mirrors s)) 7 ''Morning''
                        ''https://www.strava.com/activities/7''\<rparr>,
    (case insert_mirror ins ''u1'' 7 (mirrors s) of
       None \<Rightarrow> s\<lparr>http_log := http_log s @
                   [Upload ''pet-access'' (projr (generateGPX demo_dates demo_env demo_activity demo_streams))
                      ''Run with Morning'']\<rparr>
     | Some m \<Rightarrow> s\<lparr>http_log := http_log s @
                   [Upload ''pet-access'' (projr (generateGPX demo_dates demo_env demo_activity demo_streams))
                      ''Run with Morning''],
                   mirrors := mirrors s @ [m]\<rparr>))"
proof -
  have n: "Number_toString 7 = ''7''" by (simp add: codec_eval)
  have a: "act_id demo_activity = 7" "act_name demo_activity = ''Morning''"
    by (simp_all add: demo_activity_def)
  have e: "env_or (TITLE_PREFIX demo_env) default_title_prefix = ''Run with ''"
    by (simp add: demo_env_def env_or_def)
  show ?thesis
    unfolding mirror_upload_def
    by (subst demo_gpx)
       (simp add: Let_def e a n fetch_def demo_mirror_world_def demo_mirror_provider_def response_ok_def
             split: option.splits)
qed

lemma demo_mirror_fetch:
  "mirror_fetch demo_dates demo_env (demo_mirror_world lk ins) ''u1'' 7 demo_human ''old-access''
     ''pet-access'' s =
   mirror_upload demo_dates demo_env (demo_mirror_world lk ins) ''u1'' 7 ''pet-access'' demo_activity
     demo_streams
     (s\<lparr>http_log := http_log s @ [GetActivity 7 ''old-access'', GetStreams 7 ''old-access'']\<rparr>)"
  by (simp add: mirror_fetch_def fetch_def demo_mirror_world_def demo_mirror_provider_def response_ok_def
        demo_activity_def demo_human_def demo_streams_def)

lemma demo_mirror_world_simps:
  "getUser (demo_mirror_world lk ins) ''Bearer jwt'' = Some ''u1''"
  "mw_provider (demo_mirror_world lk ins) = demo_mirror_provider"
  "mw_now_human (demo_mirror_world lk ins) = 0" "mw_now_pet (demo_mirror_world lk ins) = 0"
  "\<not> connections_query_fails (demo_mirror_world lk ins)"
  "mirror_lookup_fails (demo_mirror_world lk ins) = lk"
  "mw_url_error (demo_mirror_world lk ins) = (\<lambda>u. None)"
  "update_fails_human (demo_mirror_world lk ins) = False"
  "update_fails_pet (demo_mirror_world lk ins) = False"
  "mirror_insert_fails (demo_mirror_world lk ins) = ins"
  by (simp_all add: demo_mirror_world_def)

lemma demo_mirror_env:
  "createClient (\<lambda>u. None) (SUPABASE_URL demo_env) (SUPABASE_ANON_KEY demo_env) = None"
  "cors_error demo_env = None"
  by (simp_all add: demo_env_def createClient_def falsy_def cors_error_def header_value_def http_trim_def
        http_whitespace_def template_str_def)

lemma demo_mirror_try:
  assumes "connections s = [demo_human, demo_pet]"
      and "lk \<or> filter (\<lambda>m. mirror_user_id m = ''u1'' \<and> mirror_source_activity_id m = 7) (mirrors s) = []"
  shows "mirror_try demo_dates demo_env (demo_mirror_world lk ins) demo_mirror_request s =
         mirror_fetch demo_dates demo_env (demo_mirror_world lk ins) ''u1'' 7 demo_human ''old-access''
           ''pet-access'' s"
proof -
  have r1: "refreshTokenIfNeeded demo_env (\<lambda>u. None) demo_mirror_provider 0 False demo_human s
              = (Inr ''old-access'', s)"
    by (simp add: refreshTokenIfNeeded_def demo_human_def)
  have r2: "refreshTokenIfNeeded demo_env (\<lambda>u. None) demo_mirror_provider 0 False demo_pet s
              = (Inr ''pet-access'', s)"
    by (simp add: refreshTokenIfNeeded_def demo_pet_def)
  have c: "filter (\<lambda>c. conn_user_id c = ''u1'') [demo_human, demo_pet] = [demo_human, demo_pet]"
          "find (\<lambda>c. conn_role c = ''HUMAN'') [demo_human, demo_pet] = Some demo_human"
          "find (\<lambda>c. conn_role c = ''PET'') [demo_human, demo_pet] = Some demo_pet"
    by (simp_all add: demo_human_def demo_pet_def)
  have q: "mreq_authorization demo_mirror_request = Some ''Bearer jwt''"
          "mreq_activityUrl demo_mirror_request = Some ''https://www.strava.com/activities/7''"
    by (simp_all add: demo_mirror_request_def)
  have e: "(if lk then None
            else maybeSingle (filter (\<lambda>m. mirror_user_id m = ''u1'' \<and> mirror_source_activity_id m = 7)
                                (mirrors s))) = None"
    using assms(2) by (auto simp: maybeSingle_def)
  show ?thesis
    unfolding mirror_try_def q
    by (simp add: falsy_def demo_mirror_world_simps demo_mirror_env demo_url demo_parseInt assms(1) e c
          r1 r2 Let_def
          del: match_activity_digits.simps filter.simps find.simps)
qed

lemma demo_mirror_activity:
  assumes "connections s = [demo_human, demo_pet]"
      and "lk \<or> filter (\<lambda>m. mirror_user_id m = ''u1'' \<and> mirror_source_activity_id m = 7) (mirrors s) = []"
  shows "mirror_activity demo_dates demo_env (demo_mirror_world lk ins) demo_mirror_request s =
   (Inr \<lparr>mresp_status = 200,
         mresp_body = SuccessBody 9 (insert_mirror ins ''u1'' 7 (mirrors s)) 7 ''Morning''
                        ''https://www.strava.com/activities/7''\<rparr>,
    (case insert_mirror ins ''u1'' 7 (mirrors s) of
       None \<Rightarrow> s\<lparr>http_log := http_log s @ demo_log\<rparr>
     | Some m \<Rightarrow> s\<lparr>http_log := http_log s @ demo_log, mirrors := mirrors s @ [m]\<rparr>))"
proof -
  have m: "mreq_method demo_mirror_request = ''POST''" by (simp add: demo_mirror_request_def)
  show ?thesis
    unfolding mirror_activity_def m demo_mirror_try[OF assms] demo_mirror_fetch demo_mirror_upload
    by (simp add: demo_log_def new_cors_Response_def demo_mirror_env split: option.splits)
qed

lemma demo_log_uploads: "length (filter (\<lambda>r. case r of Upload t g n \<Rightarrow> True | _ \<Rightarrow> False) demo_log) = 1"
  by (simp add: demo_log_def)

text \<open>
  Claim C3 as stated fails when the first call cannot store its record: the insert is
  best effort, the first call still answers 200 (with no record), and a second call for
  the same user and activity finds no record and uploads again.
\<close>

theorem C3_counterexample:
  "fst (mirror_activity demo_dates demo_env (demo_mirror_world False True) demo_mirror_request demo_system)
     = Inr \<lparr>mresp_status = 200,
            mresp_body = SuccessBody 9 None 7 ''Morning'' ''https://www.strava.com/activities/7''\<rparr> \<and>
   fst (mirror_activity demo_dates demo_env (demo_mirror_world False True) demo_mirror_request
          (snd (mirror_activity demo_dates demo_env (demo_mirror_world False True) demo_mirror_request
                  demo_system)))
     = Inr \<lparr>mresp_status = 200,
            mresp_body = SuccessBody 9 None 7 ''Morning'' ''https://www.strava.com/activities/7''\<rparr> \<and>
   length (uploads (snd (mirror_activity demo_dates demo_env (demo_mirror_world False True)
                            demo_mirror_request demo_system))) = 1 \<and>
   length (uploads (snd (mirror_activity demo_dates demo_env (demo_mirror_world False True)
          demo_mirror_request
          (snd (mirror_activity demo_dates demo_env (demo_mirror_world False True) demo_mirror_request
                  demo_system))))) = 2"
proof -
  have i: "insert_mirror True u a ms = None" for u a ms by (simp add: insert_mirror_def)
  have c: "connections demo_system = [demo_human, demo_pet]" "mirrors demo_system = []"
          "http_log demo_system = []"
    by (simp_all add: demo_system_def)
  have 1: "mirror_activity demo_dates demo_env (demo_mirror_world False True) demo_mirror_request demo_system =
     (Inr \<lparr>mresp_status = 200,
        mresp_body = SuccessBody 9 None 7 ''Morning'' ''https://www.strava.com/activities/7''\<rparr>,
      demo_system\<lparr>http_log := http_log demo_system @ demo_log\<rparr>)"
    by (subst demo_mirror_activity) (simp_all add: c i)
  have 2: "mirror_activity demo_dates demo_env (demo_mirror_world False True) demo_mirror_request
             (demo_system\<lparr>http_log := http_log demo_system @ demo_log\<rparr>) =
     (Inr \<lparr>mresp_status = 200,
        mresp_body = SuccessBody 9 None 7 ''Morning'' ''https://www.strava.com/activities/7''\<rparr>,
      demo_system\<lparr>http_log := (http_log demo_system @ demo_log) @ demo_log\<rparr>)"
    by (subst demo_mirror_activity) (simp_all add: c i)
  have l: "length (uploads (demo_system\<lparr>http_log := http_log demo_system @ demo_log\<rparr>)) = 1"
          "length (uploads (demo_system\<lparr>http_log := (http_log demo_system @ demo_log) @ demo_log\<rparr>)) = 2"
    using demo_log_uploads by (simp_all add: uploads_def c)
  show ?thesis unfolding 1 2 fst_conv snd_conv 2 using l by simp
qed

text \<open>
  Claim C3, for a first call that stored its record and a second call that reaches the
  store. For every user and source activity id (a number JavaScript holds exactly): if a
  first mirror call of the user for the activity answered with the success body
  carrying a mirror record \<open>m\<close>, then \<open>m\<close> is the record the call added to the store; and
  a second call, by the same user for the same activity id, on the store the first call
  left, whose client of the store is made, whose lookup of the existing mirror is
  answered and whose allowed origin is a header value, answers 400 \<open>Activity already
  mirrored\<close> with \<open>m\<close>, leaves the state as it is and so makes no request to the
  provider: the uploads are those made before.
\<close>

theorem C3_second_call_already_mirrored:
  assumes "mirror_activity pf env w req s = (Inr r1, s1)"
      and "mresp_body r1 = SuccessBody uploadId (Some m) a n u"
      and "mreq_authorization req = Some auth" and "getUser w auth = Some user"
      and "mreq_activityUrl req = Some activityUrl"
      and "match_activity_digits activityUrl = Some digits"
      and "parseInt digits \<le> 9007199254740991"
      and "mreq_method req2 = ''POST''"
      and "mreq_authorization req2 = Some auth2" and "auth2 \<noteq> []" and "getUser w2 auth2 = Some user"
      and "mreq_activityUrl req2 = Some activityUrl2"
      and "match_activity_digits activityUrl2 = Some digits2"
      and "parseInt digits2 = parseInt digits"
      and "createClient (mw_url_error w2) (SUPABASE_URL env2) (SUPABASE_ANON_KEY env2) = None"
      and "\<not> mirror_lookup_fails w2" and "cors_error env2 = None"
  shows "mirrors s1 = mirrors s @ [m] \<and>
         mirror_activity pf2 env2 w2 req2 s1 =
           (Inr \<lparr>mresp_status = 400, mresp_body = AlreadyMirroredBody ''Activity already mirrored'' m\<rparr>,
            s1) \<and>
         uploads (snd (mirror_activity pf2 env2 w2 req2 s1)) = uploads s1"
proof -
  have rec: "insert_mirror (mirror_insert_fails w) user (parseInt digits) (mirrors s) = Some m"
    and ms: "mirrors s1 = mirrors s @ [m]"
    using mirror_activity_recorded[OF assms(1-6)] by simp_all
  have f: "filter (\<lambda>m'. mirror_user_id m' = user \<and> mirror_source_activity_id m' = parseInt digits2)
             (mirrors s1) = [m]"
    unfolding ms assms(14) by (rule insert_mirror_Some[OF rec])
  have second: "mirror_activity pf2 env2 w2 req2 s1 =
           (Inr \<lparr>mresp_status = 400, mresp_body = AlreadyMirroredBody ''Activity already mirrored'' m\<rparr>,
            s1)"
    by (rule mirror_activity_existing[OF assms(8-13) assms(15-17) f])
  show ?thesis using ms second by simp
qed

theorem C3_second_call_witness:
  "mirror_activity demo_dates demo_env (demo_mirror_world False False) demo_mirror_request demo_system =
     (Inr \<lparr>mresp_status = 200,
        mresp_body = SuccessBody 9 (Some demo_mirror) 7 ''Morning'' ''https://www.strava.com/activities/7''\<rparr>,
      demo_system\<lparr>http_log := demo_log, mirrors := [demo_mirror]\<rparr>) \<and>
   getUser (demo_mirror_world False False) ''Bearer jwt'' = Some ''u1'' \<and>
   match_activity_digits ''https://www.strava.com/activities/7'' = Some ''7'' \<and>
   parseInt ''7'' \<le> 9007199254740991 \<and>
   createClient (mw_url_error (demo_mirror_world False False)) (SUPABASE_URL demo_env)
     (SUPABASE_ANON_KEY demo_env) = None \<and>
   \<not> mirror_lookup_fails (demo_mirror_world False False) \<and> cors_error demo_env = None \<and>
   mirror_activity demo_dates demo_env (demo_mirror_world False False) demo_mirror_request
       (demo_system\<lparr>http_log := demo_log, mirrors := [demo_mirror]\<rparr>) =
     (Inr \<lparr>mresp_status = 400, mresp_body = AlreadyMirroredBody ''Activity already mirrored'' demo_mirror\<rparr>,
      demo_system\<lparr>http_log := demo_log, mirrors := [demo_mirror]\<rparr>) \<and>
   length (uploads (snd (mirror_activity demo_dates demo_env (demo_mirror_world False False)
       demo_mirror_request (demo_system\<lparr>http_log := demo_log, mirrors := [demo_mirror]\<rparr>)))) = 1"
proof -
  have c: "connections demo_system = [demo_human, demo_pet]" "mirrors demo_system = []"
          "http_log demo_system = []"
    by (simp_all add: demo_system_def)
  have i: "insert_mirror False ''u1'' 7 [] = Some demo_mirror"
    by (simp add: insert_mirror_def demo_mirror_def)
  have 1: "mirror_activity demo_dates demo_env (demo_mirror_world False False) demo_mirror_request demo_system =
     (Inr \<lparr>mresp_status = 200,
        mresp_body = SuccessBody 9 (Some demo_mirror) 7 ''Morning'' ''https://www.strava.com/activities/7''\<rparr>,
      demo_system\<lparr>http_log := demo_log, mirrors := [demo_mirror]\<rparr>)"
    by (subst demo_mirror_activity) (simp_all add: c i)
  have b: "mresp_body \<lparr>mresp_status = 200,
        mresp_body = SuccessBody 9 (Some demo_mirror) 7 ''Morning'' ''https://www.strava.com/activities/7''\<rparr>
        = SuccessBody 9 (Some demo_mirror) 7 ''Morning'' ''https://www.strava.com/activities/7''"
    by simp
  have q: "mreq_method demo_mirror_request = ''POST''"
          "mreq_authorization demo_mirror_request = Some ''Bearer jwt''"
          "mreq_activityUrl demo_mirror_request = Some ''https://www.strava.com/activities/7''"
    by (simp_all add: demo_mirror_request_def)
  have g: "getUser (demo_mirror_world False False) ''Bearer jwt'' = Some ''u1''"
    by (simp add: demo_mirror_world_def)
  have ne: "''Bearer jwt'' \<noteq> []" by simp
  have bound: "parseInt ''7'' \<le> 9007199254740991" by (simp add: demo_parseInt)
  have cl: "createClient (mw_url_error (demo_mirror_world False False)) (SUPABASE_URL demo_env)
              (SUPABASE_ANON_KEY demo_env) = None"
    by (simp add: demo_mirror_world_simps demo_mirror_env)
  have lk: "\<not> mirror_lookup_fails (demo_mirror_world False False)"
    by (simp add: demo_mirror_world_simps)
  note inst = C3_second_call_already_mirrored[where ?pf2.0 = demo_dates,
      OF 1 b q(2) g q(3) demo_url bound q(1) q(2) ne g q(3) demo_url refl cl lk demo_mirror_env(2)]
  have l: "length (uploads (demo_system\<lparr>http_log := demo_log, mirrors := [demo_mirror]\<rparr>)) = 1"
    using demo_log_uploads by (simp add: uploads_def)
  show ?thesis using inst 1 g demo_url l bound cl lk demo_mirror_env(2) by simp
qed

section \<open>The oauth-callback handler\<close>

subsection \<open>The Location header\<close>

text \<open>
  The characters of a status query: none is white space, a NUL or a byte that is part of
  a code point above U+00FF.
\<close>

lemma digit_char_plain:
  "d < 10 \<Longrightarrow> \<not> http_whitespace (digit_char d) \<and> digit_char d \<noteq> CHR 0x00 \<and>
                (of_char (digit_char d) :: nat) < 196"
proof -
  assume "d < 10"
  then have "d = 0 \<or> d = 1 \<or> d = 2 \<or> d = 3 \<or> d = 4 \<or> d = 5 \<or> d = 6 \<or> d = 7 \<or> d = 8 \<or> d = 9"
    by arith
  then show ?thesis
    by (elim disjE) (simp_all add: digit_char_def http_whitespace_def)
qed

lemma decimal_nat_plain:
  "list_all (\<lambda>c. \<not> http_whitespace c \<and> c \<noteq> CHR 0x00 \<and> (of_char c :: nat) < 196) (decimal_nat n)"
proof (induction n rule: decimal_nat.induct)
  case (1 n)
  show ?case
  proof (cases "n < 10")
    case True
    then show ?thesis using digit_char_plain[of n] by (subst decimal_nat.simps) simp
  next
    case False
    have "n mod 10 < 10" by simp
    then show ?thesis using False "1.IH" digit_char_plain[of "n mod 10"]
      by (subst decimal_nat.simps) simp
  qed
qed

lemma Number_toString_plain:
  "list_all (\<lambda>c. \<not> http_whitespace c \<and> c \<noteq> CHR 0x00 \<and> (of_char c :: nat) < 196) (Number_toString i)"
  using decimal_nat_plain by (simp add: Number_toString_def http_whitespace_def)

lemma status_query_plain:
  assumes "status_query q"
  shows "q \<noteq> [] \<and> list_all (\<lambda>c. \<not> http_whitespace c \<and> c \<noteq> CHR 0x00 \<and> (of_char c :: nat) < 196) q"
proof -
  have lit: "list_all (\<lambda>c. \<not> http_whitespace c \<and> c \<noteq> CHR 0x00 \<and> (of_char c :: nat) < 196)
               ''?error=oauth_denied''"
       "list_all (\<lambda>c. \<not> http_whitespace c \<and> c \<noteq> CHR 0x00 \<and> (of_char c :: nat) < 196)
               ''?error=invalid_request''"
       "list_all (\<lambda>c. \<not> http_whitespace c \<and> c \<noteq> CHR 0x00 \<and> (of_char c :: nat) < 196)
               ''?error=server_error''"
       "list_all (\<lambda>c. \<not> http_whitespace c \<and> c \<noteq> CHR 0x00 \<and> (of_char c :: nat) < 196)
               ''?error=invalid_state''"
       "list_all (\<lambda>c. \<not> http_whitespace c \<and> c \<noteq> CHR 0x00 \<and> (of_char c :: nat) < 196)
               ''?error=token_exchange_failed''"
       "list_all (\<lambda>c. \<not> http_whitespace c \<and> c \<noteq> CHR 0x00 \<and> (of_char c :: nat) < 196)
               ''?error=database_error''"
       "list_all (\<lambda>c. \<not> http_whitespace c \<and> c \<noteq> CHR 0x00 \<and> (of_char c :: nat) < 196)
               ''?error=athlete_role_conflict&athlete_id=''"
       "list_all (\<lambda>c. \<not> http_whitespace c \<and> c \<noteq> CHR 0x00 \<and> (of_char c :: nat) < 196)
               ''?oauth_success=true&role=HUMAN''"
       "list_all (\<lambda>c. \<not> http_whitespace c \<and> c \<noteq> CHR 0x00 \<and> (of_char c :: nat) < 196)
               ''?oauth_success=true&role=PET''"
    by (simp_all add: http_whitespace_def)
  have num: "list_all (\<lambda>c. \<not> http_whitespace c \<and> c \<noteq> CHR 0x00 \<and> (of_char c :: nat) < 196)
            (''?error=athlete_role_conflict&athlete_id='' @ Number_toString aid)" for aid
    unfolding list_all_append using lit(7) Number_toString_plain by blast
  have r: "q \<noteq> [] \<and> list_all (\<lambda>c. \<not> http_whitespace c \<and> c \<noteq> CHR 0x00 \<and> (of_char c :: nat) < 196) q"
    if "list_all (\<lambda>c. \<not> http_whitespace c \<and> c \<noteq> CHR 0x00 \<and> (of_char c :: nat) < 196) l"
      and "l \<noteq> []" and "q = l" for l
    using that by simp
  from assms[unfolded status_query_def] show ?thesis
    apply (elim disjE exE)
            apply (rule r[OF lit(1)]; simp)
           apply (rule r[OF lit(2)]; simp)
          apply (rule r[OF lit(3)]; simp)
         apply (rule r[OF lit(4)]; simp)
        apply (rule r[OF lit(5)]; simp)
       apply (rule r[OF lit(6)]; simp)
      apply (rule r[OF num]; simp)
     apply (rule r[OF lit(8)]; simp)
    apply (rule r[OF lit(9)]; simp)
    done
qed

lemma dropWhile_keep: "xs \<noteq> [] \<Longrightarrow> \<not> P (hd xs) \<Longrightarrow> dropWhile P xs = xs"
  by (cases xs) simp_all

lemma http_trim_append:
  assumes "q \<noteq> []" and "list_all (\<lambda>c. \<not> http_whitespace c) q"
  shows "http_trim (b @ q) = dropWhile http_whitespace b @ q"
proof -
  have h: "\<not> http_whitespace (hd q)" and l: "\<not> http_whitespace (last q)"
    using assms by (simp_all add: list_all_iff)
  have 1: "dropWhile http_whitespace (b @ q) = dropWhile http_whitespace b @ q"
    using dropWhile_keep[where P = http_whitespace, OF assms(1) h] by (simp add: dropWhile_append)
  have "hd (rev q @ rev (dropWhile http_whitespace b)) = last q"
    using assms(1) by (simp add: hd_rev)
  then have 2: "dropWhile http_whitespace (rev (dropWhile http_whitespace b @ q))
             = rev (dropWhile http_whitespace b @ q)"
    using assms(1) l by (simp add: dropWhile_keep)
  show ?thesis unfolding http_trim_def 1 2 by simp
qed

lemma list_all_not_ex:
  "list_all P xs \<Longrightarrow> (\<And>x. P x \<Longrightarrow> \<not> Q x) \<Longrightarrow> \<not> list_ex Q xs"
  unfolding list_all_iff list_ex_iff by blast

lemma header_value_location:
  assumes "q \<noteq> []"
      and "list_all (\<lambda>c. \<not> http_whitespace c \<and> c \<noteq> CHR 0x00 \<and> (of_char c :: nat) < 196) q"
  shows "header_value (b @ q) =
           (if list_ex (\<lambda>c. 196 \<le> (of_char c :: nat)) b \<or>
               list_ex (\<lambda>c. c = CHR 0x00 \<or> c = CHR 0x0A \<or> c = CHR 0x0D) (dropWhile http_whitespace b)
            then Inl TypeError else Inr (dropWhile http_whitespace b @ q))"
proof -
  have ws: "list_all (\<lambda>c. \<not> http_whitespace c) q"
    using assms(2) unfolding list_all_iff by blast
  have a: "\<not> list_ex (\<lambda>c. 196 \<le> (of_char c :: nat)) q"
    by (rule list_all_not_ex[OF assms(2)]) simp
  have b: "\<not> list_ex (\<lambda>c. c = CHR 0x00 \<or> c = CHR 0x0A \<or> c = CHR 0x0D) q"
    by (rule list_all_not_ex[OF assms(2)]) (auto simp: http_whitespace_def)
  have e1: "list_ex (\<lambda>c. 196 \<le> (of_char c :: nat)) (b @ q) = list_ex (\<lambda>c. 196 \<le> (of_char c :: nat)) b"
    unfolding list_ex_append using a by blast
  have e2: "list_ex (\<lambda>c. c = CHR 0x00 \<or> c = CHR 0x0A \<or> c = CHR 0x0D) (dropWhile http_whitespace b @ q)
          = list_ex (\<lambda>c. c = CHR 0x00 \<or> c = CHR 0x0A \<or> c = CHR 0x0D) (dropWhile http_whitespace b)"
    unfolding list_ex_append using b by blast
  show ?thesis
    unfolding header_value_def http_trim_append[OF assms(1) ws] e1 e2
    by (cases "list_ex (\<lambda>c. 196 \<le> (of_char c :: nat)) b") simp_all
qed

lemma new_Response_redirect:
  assumes "status_query q"
  shows "new_Response (redirect env q) =
           (if location_base_ok env then Inr (sent_redirect env q) else Inl TypeError)"
proof -
  have q: "q \<noteq> []" "list_all (\<lambda>c. \<not> http_whitespace c \<and> c \<noteq> CHR 0x00 \<and> (of_char c :: nat) < 196) q"
    using status_query_plain[OF assms] by simp_all
  show ?thesis
    unfolding new_Response_def redirect_def
    by (simp add: header_value_location[OF q] location_base_ok_def sent_redirect_def)
qed

subsection \<open>Every answer of the try block is a redirect\<close>

lemma is_redirect_simps [simp]:
  "is_redirect env (redirect env ''?error=oauth_denied'')"
  "is_redirect env (redirect env ''?error=invalid_request'')"
  "is_redirect env (redirect env ''?error=server_error'')"
  "is_redirect env (redirect env ''?error=invalid_state'')"
  "is_redirect env (redirect env ''?error=token_exchange_failed'')"
  "is_redirect env (redirect env ''?error=database_error'')"
  "is_redirect env (redirect env (''?error=athlete_role_conflict&athlete_id='' @ Number_toString aid))"
  "is_redirect env (redirect env ''?oauth_success=true&role=HUMAN'')"
  "is_redirect env (redirect env ''?oauth_success=true&role=PET'')"
  unfolding is_redirect_def status_query_def by blast+

lemma upsert_connection_role:
  "upsert_connection fails uid rl aid td cs = Some (r, cs') \<Longrightarrow> r = ''HUMAN'' \<or> r = ''PET''"
  by (simp add: upsert_connection_def split: option.splits json.splits if_splits)

lemma callback_upsert_redirect:
  assumes "callback_upsert env w uid rl td ath s1 = (Inr r, s')"
  shows "is_redirect env r"
proof -
  define existing where
    "existing = (if lookup_fails w then None
                 else find_existing_connection uid (athlete_id ath) (connections s1))"
  show ?thesis
  proof (cases "existing \<noteq> None \<and> Some (JStr (conn_role (the existing))) \<noteq> rl")
    case True
    then have r: "r = redirect env (''?error=athlete_role_conflict&athlete_id='' @
                        Number_toString (athlete_id ath))"
      using assms unfolding callback_upsert_def Let_def existing_def by simp
    show ?thesis unfolding r by (rule is_redirect_simps(7))
  next
    case False
    show ?thesis
    proof (cases "upsert_connection (upsert_fails w) uid rl (athlete_id ath) td (connections s1)")
      case None
      then have "r = redirect env ''?error=database_error''"
        using assms False unfolding callback_upsert_def Let_def existing_def by (simp split: if_splits)
      then show ?thesis by simp
    next
      case (Some a)
      obtain r' cs' where a: "a = (r', cs')" by (cases a)
      have r: "r = redirect env (''?oauth_success=true&role='' @ r')"
        using assms False Some a unfolding callback_upsert_def Let_def existing_def
        by (simp split: if_splits)
      have "r' = ''HUMAN'' \<or> r' = ''PET''"
        using Some a upsert_connection_role[of "upsert_fails w" uid rl "athlete_id ath" td "connections s1" r' cs']
        by simp
      then show ?thesis unfolding r by (rule disjE) simp_all
    qed
  qed
qed

lemma callback_token_response_redirect:
  assumes "callback_token_response env w uid rl resp s1 = (Inr r, s')"
  shows "is_redirect env r"
proof (cases resp)
  case NetworkFailure
  then show ?thesis using assms by (simp add: callback_token_response_def)
next
  case (Response st body)
  show ?thesis
  proof (cases "response_ok st")
    case False
    then show ?thesis using assms Response by (auto simp: callback_token_response_def)
  next
    case True
    show ?thesis
    proof (cases body)
      case (TokenBody td)
      show ?thesis
      proof (cases "createClient (cw_url_error w) (SUPABASE_URL env) (SUPABASE_SERVICE_ROLE_KEY env)")
        case (Some e)
        then show ?thesis using assms Response True TokenBody by (simp add: callback_token_response_def)
      next
        case None
        note client = None
        show ?thesis
        proof (cases "athlete td")
          case None
          then show ?thesis using assms Response True TokenBody client
            by (simp add: callback_token_response_def)
        next
          case (Some ath)
          then have "callback_upsert env w uid rl td ath s1 = (Inr r, s')"
            using assms Response True TokenBody client by (simp add: callback_token_response_def)
          then show ?thesis by (rule callback_upsert_redirect)
        qed
      qed
    qed (use assms Response True in \<open>simp_all add: callback_token_response_def\<close>)
  qed
qed

lemma callback_exchange_redirect:
  assumes "callback_exchange env w c p s = (Inr r, s')"
  shows "is_redirect env r"
proof (cases "falsy (STRAVA_CLIENT_ID env) \<or> falsy (STRAVA_CLIENT_SECRET env)")
  case True
  then show ?thesis using assms by (auto simp: callback_exchange_def Let_def)
next
  case False
  then have "callback_token_response env w (js_get p ''userId'') (js_get p ''role'')
               (cw_provider w (length (http_log s))
                  (TokenExchange (STRAVA_CLIENT_ID env) (STRAVA_CLIENT_SECRET env) c (js_get p ''codeVerifier'')))
               (s\<lparr>http_log := http_log s @ [TokenExchange (STRAVA_CLIENT_ID env) (STRAVA_CLIENT_SECRET env) c
                                               (js_get p ''codeVerifier'')]\<rparr>) = (Inr r, s')"
    using assms by (simp add: callback_exchange_def Let_def fetch_def)
  then show ?thesis by (rule callback_token_response_redirect)
qed

lemma callback_try_redirect:
  assumes "callback_try pf env w req s = (Inr r, s')"
  shows "is_redirect env r"
proof -
  consider (denied) "\<not> falsy (req_error req)"
    | (invalid) "falsy (req_error req)" "falsy (req_code req) \<or> falsy (req_state req)"
    | (nosecret) "falsy (req_error req)" "\<not> (falsy (req_code req) \<or> falsy (req_state req))" "falsy (STATE_SECRET env)"
    | (validate) "falsy (req_error req)" "\<not> (falsy (req_code req) \<or> falsy (req_state req))" "\<not> falsy (STATE_SECRET env)"
    by blast
  then show ?thesis
  proof cases
    case denied then show ?thesis using assms by (auto simp: callback_try_def)
  next
    case invalid then show ?thesis using assms by (auto simp: callback_try_def)
  next
    case nosecret then show ?thesis using assms by (auto simp: callback_try_def)
  next
    case validate
    show ?thesis
    proof (cases "validateState pf (the (STATE_SECRET env)) (cw_now w) (the (req_state req))")
      case (Inl e)
      then show ?thesis using assms validate by (auto simp: callback_try_def)
    next
      case (Inr p)
      then have "callback_exchange env w (the (req_code req)) p s = (Inr r, s')"
        using assms validate by (simp add: callback_try_def)
      then show ?thesis by (rule callback_exchange_redirect)
    qed
  qed
qed

subsection \<open>The response of the handler\<close>

lemma oauth_callback_preflight:
  "req_method req = ''OPTIONS'' \<Longrightarrow>
   oauth_callback pf env w req s =
     ((case cors_error env of Some e \<Rightarrow> Inl e
       | None \<Rightarrow> Inr \<lparr>resp_status = 200, resp_location = None\<rparr>), s)"
  by (simp add: oauth_callback_def)

lemma oauth_callback_answer:
  assumes "req_method req \<noteq> ''OPTIONS''"
      and "callback_try pf env w req s = (Inr (redirect env q), s')" and "status_query q"
  shows "oauth_callback pf env w req s =
           ((if location_base_ok env then Inr (sent_redirect env q) else Inl TypeError), s')"
proof -
  have s: "status_query ''?error=server_error''" by (simp add: status_query_def)
  show ?thesis
    using assms(1,2)
    by (simp add: oauth_callback_def new_Response_redirect[OF assms(3)] new_Response_redirect[OF s])
qed

lemma oauth_callback_caught:
  assumes "req_method req \<noteq> ''OPTIONS''"
      and "callback_try pf env w req s = (Inl e, s')"
  shows "oauth_callback pf env w req s =
           ((if location_base_ok env then Inr (sent_redirect env ''?error=server_error'')
             else Inl TypeError), s')"
proof -
  have s: "status_query ''?error=server_error''" by (simp add: status_query_def)
  show ?thesis
    using assms by (simp add: oauth_callback_def new_Response_redirect[OF s])
qed

lemma oauth_callback_redirect:
  assumes "req_method req \<noteq> ''OPTIONS''"
  shows "\<exists>q. status_query q \<and>
             fst (oauth_callback pf env w req s) =
               (if location_base_ok env then Inr (sent_redirect env q) else Inl TypeError)"
proof (cases "callback_try pf env w req s")
  case (Pair res s')
  show ?thesis
  proof (cases res)
    case (Inl e)
    have s: "status_query ''?error=server_error''" by (simp add: status_query_def)
    have "fst (oauth_callback pf env w req s) =
            (if location_base_ok env then Inr (sent_redirect env ''?error=server_error'') else Inl TypeError)"
      unfolding oauth_callback_caught[OF assms Pair[unfolded Inl]] by (rule fst_conv)
    then show ?thesis using s by blast
  next
    case (Inr r)
    then have "is_redirect env r" using Pair callback_try_redirect by blast
    then obtain q where q: "status_query q" and r: "r = redirect env q"
      unfolding is_redirect_def by blast
    have "fst (oauth_callback pf env w req s) =
            (if location_base_ok env then Inr (sent_redirect env q) else Inl TypeError)"
      unfolding oauth_callback_answer[OF assms Pair[unfolded Inr r] q] by (rule fst_conv)
    then show ?thesis using q by blast
  qed
qed

subsection \<open>The answer does not depend on the tokens\<close>

lemma upsert_connection_tokens:
  "map_option fst (upsert_connection fails uid rl aid td' cs)
     = map_option fst (upsert_connection fails uid rl aid td cs)"
  by (simp add: upsert_connection_def split: option.splits json.splits)

lemma callback_upsert_tokens:
  assumes "upsert_fails w' = upsert_fails w" and "lookup_fails w' = lookup_fails w"
  shows "fst (callback_upsert env w' uid rl td' ath s1) = fst (callback_upsert env w uid rl td ath s1)"
proof -
  have u: "map_option fst (upsert_connection (upsert_fails w) uid rl (athlete_id ath) td' (connections s1))
     = map_option fst (upsert_connection (upsert_fails w) uid rl (athlete_id ath) td (connections s1))"
    by (rule upsert_connection_tokens)
  show ?thesis
  proof (cases "upsert_connection (upsert_fails w) uid rl (athlete_id ath) td (connections s1)")
    case None
    then have "upsert_connection (upsert_fails w) uid rl (athlete_id ath) td' (connections s1) = None"
      using u by simp
    then show ?thesis using None assms by (simp add: callback_upsert_def Let_def)
  next
    case (Some a)
    obtain r cs' where a: "a = (r, cs')" by (cases a)
    from Some u obtain b where b: "upsert_connection (upsert_fails w) uid rl (athlete_id ath) td' (connections s1) = Some b"
      and "fst b = fst a" by (cases "upsert_connection (upsert_fails w) uid rl (athlete_id ath) td' (connections s1)") auto
    then obtain cs'' where "b = (r, cs'')" using a by (cases b) simp
    then show ?thesis using Some a b assms by (simp add: callback_upsert_def Let_def)
  qed
qed

lemma callback_token_response_tokens:
  assumes "upsert_fails w' = upsert_fails w" and "lookup_fails w' = lookup_fails w"
      and "cw_url_error w' = cw_url_error w"
  shows "fst (callback_token_response env w' uid rl (with_tokens f resp) s1)
       = fst (callback_token_response env w uid rl resp s1)"
proof (cases resp)
  case NetworkFailure
  then show ?thesis by (simp add: callback_token_response_def with_tokens_def)
next
  case (Response st body)
  show ?thesis
  proof (cases body)
    case (TokenBody td)
    show ?thesis
    proof (cases "createClient (cw_url_error w) (SUPABASE_URL env) (SUPABASE_SERVICE_ROLE_KEY env)")
      case (Some e)
      then show ?thesis using Response TokenBody assms(3)
        by (simp add: callback_token_response_def with_tokens_def)
    next
      case None
      note client = None
      show ?thesis
      proof (cases "athlete td")
        case None
        then show ?thesis using Response TokenBody client assms(3)
          by (simp add: callback_token_response_def with_tokens_def)
      next
        case (Some ath)
        then show ?thesis using Response TokenBody client assms(3) callback_upsert_tokens[OF assms(1,2)]
          by (simp add: callback_token_response_def with_tokens_def)
      qed
    qed
  qed (use Response in \<open>simp_all add: callback_token_response_def with_tokens_def\<close>)
qed

lemma callback_exchange_tokens:
  "fst (callback_exchange env (w\<lparr>cw_provider := \<lambda>k r. with_tokens (f k r) (cw_provider w k r)\<rparr>) c p s)
     = fst (callback_exchange env w c p s)"
  using callback_token_response_tokens[where w' = "w\<lparr>cw_provider := \<lambda>k r. with_tokens (f k r) (cw_provider w k r)\<rparr>" and w = w]
  by (simp add: callback_exchange_def Let_def fetch_def)

lemma callback_try_tokens:
  "fst (callback_try pf env (w\<lparr>cw_provider := \<lambda>k r. with_tokens (f k r) (cw_provider w k r)\<rparr>) req s)
     = fst (callback_try pf env w req s)"
  using callback_exchange_tokens[where env = env and w = w and f = f]
  by (simp add: callback_try_def split: sum.splits)

lemma oauth_callback_tokens:
  "fst (oauth_callback pf env (w\<lparr>cw_provider := \<lambda>k r. with_tokens (f k r) (cw_provider w k r)\<rparr>) req s)
     = fst (oauth_callback pf env w req s)"
proof -
  let ?w' = "w\<lparr>cw_provider := \<lambda>k r. with_tokens (f k r) (cw_provider w k r)\<rparr>"
  have t: "fst (callback_try pf env ?w' req s) = fst (callback_try pf env w req s)"
    by (rule callback_try_tokens)
  obtain a sa where a: "callback_try pf env ?w' req s = (a, sa)" by (cases "callback_try pf env ?w' req s")
  obtain b sb where b: "callback_try pf env w req s = (b, sb)" by (cases "callback_try pf env w req s")
  have "a = b" using t a b by simp
  then show ?thesis using a b by (simp add: oauth_callback_def split: sum.splits)
qed

subsection \<open>The paths of the handler\<close>


lemma callback_try_validated:
  assumes "falsy (req_error req)"
      and "req_code req = Some code_param" and "code_param \<noteq> []"
      and "req_state req = Some stateParam" and "stateParam \<noteq> []"
      and "STATE_SECRET env = Some secret" and "secret \<noteq> []"
      and "validateState pf secret (cw_now w) stateParam = Inr statePayload"
  shows "callback_try pf env w req s = callback_exchange env w code_param statePayload s"
  using assms by (simp add: callback_try_def falsy_def)

lemma callback_exchange_answered:
  assumes "\<not> falsy (STRAVA_CLIENT_ID env)" and "\<not> falsy (STRAVA_CLIENT_SECRET env)"
      and "cw_provider w (length (http_log s))
             (TokenExchange (STRAVA_CLIENT_ID env) (STRAVA_CLIENT_SECRET env) code_param
                (js_get statePayload ''codeVerifier'')) = Response st (TokenBody tokenData)"
      and "response_ok st"
  shows "callback_exchange env w code_param statePayload s =
           (case createClient (cw_url_error w) (SUPABASE_URL env) (SUPABASE_SERVICE_ROLE_KEY env) of
              Some e \<Rightarrow>
                (Inl e, s\<lparr>http_log := http_log s @
                             [TokenExchange (STRAVA_CLIENT_ID env) (STRAVA_CLIENT_SECRET env) code_param
                                (js_get statePayload ''codeVerifier'')]\<rparr>)
            | None \<Rightarrow>
                (case athlete tokenData of
                   None \<Rightarrow>
                     (Inl TypeError, s\<lparr>http_log := http_log s @
                             [TokenExchange (STRAVA_CLIENT_ID env) (STRAVA_CLIENT_SECRET env) code_param
                                (js_get statePayload ''codeVerifier'')]\<rparr>)
                 | Some ath \<Rightarrow>
                     callback_upsert env w (js_get statePayload ''userId'') (js_get statePayload ''role'')
                       tokenData ath
                       (s\<lparr>http_log := http_log s @
                             [TokenExchange (STRAVA_CLIENT_ID env) (STRAVA_CLIENT_SECRET env) code_param
                                (js_get statePayload ''codeVerifier'')]\<rparr>)))"
  using assms by (simp add: callback_exchange_def Let_def fetch_def callback_token_response_def)

lemma filter_distinct_key:
  "distinct (map f xs) \<Longrightarrow> x \<in> set xs \<Longrightarrow> filter (\<lambda>y. f y = f x) xs = [x]"
proof (induction xs)
  case Nil
  then show ?case by simp
next
  case (Cons a xs)
  show ?case
  proof (cases "a = x")
    case True
    have "f x \<notin> f ` set xs" using Cons.prems(1) True by simp
    then have "\<forall>y \<in> set xs. f y \<noteq> f x" by (auto simp: image_iff)
    then have "filter (\<lambda>y. f y = f x) xs = []"
      by (simp add: filter_empty_conv)
    then show ?thesis using True by simp
  next
    case False
    then have "x \<in> set xs" using Cons.prems(2) by simp
    moreover have "f a \<noteq> f x" using Cons.prems(1) \<open>x \<in> set xs\<close> by (auto simp: image_iff)
    ultimately show ?thesis using Cons by simp
  qed
qed

lemma find_existing_connection_unique:
  assumes "connections_unique cs" and "c \<in> set cs"
  shows "find_existing_connection (Some (JStr (conn_user_id c))) (conn_athlete_id c) cs = Some c"
proof -
  have d: "distinct (map (\<lambda>c. (conn_user_id c, conn_athlete_id c)) cs)"
    using assms(1) by (simp add: connections_unique_def)
  have "filter (\<lambda>y. Some (JStr (conn_user_id c)) = Some (JStr (conn_user_id y)) \<and>
                     conn_athlete_id y = conn_athlete_id c) cs
        = filter (\<lambda>y. (conn_user_id y, conn_athlete_id y) = (conn_user_id c, conn_athlete_id c)) cs"
    by (rule filter_cong) auto
  also have "\<dots> = [c]" by (rule filter_distinct_key[OF d assms(2)])
  finally show ?thesis by (simp add: find_existing_connection_def maybeSingle_def)
qed

lemma callback_upsert_conflict:
  assumes "connections_unique (connections s1)" and "c \<in> set (connections s1)"
      and "uid = Some (JStr (conn_user_id c))" and "conn_athlete_id c = athlete_id ath"
      and "rl = Some (JStr r)" and "conn_role c \<noteq> r" and "\<not> lookup_fails w"
  shows "callback_upsert env w uid rl tokenData ath s1 =
           (Inr (redirect env (''?error=athlete_role_conflict&athlete_id='' @
                                Number_toString (athlete_id ath))), s1)"
proof -
  have "find_existing_connection uid (athlete_id ath) (connections s1) = Some c"
    using find_existing_connection_unique[OF assms(1,2)] assms(3,4) by simp
  then show ?thesis using assms(5,6,7) by (simp add: callback_upsert_def Let_def)
qed

lemma oauth_callback_conflict:
  assumes "req_method req \<noteq> ''OPTIONS''" and "falsy (req_error req)"
      and "req_code req = Some code_param" and "code_param \<noteq> []"
      and "req_state req = Some stateParam" and "stateParam \<noteq> []"
      and "STATE_SECRET env = Some secret" and "secret \<noteq> []"
      and "validateState pf secret (cw_now w) stateParam = Inr statePayload"
      and "js_get statePayload ''userId'' = Some (JStr u)"
      and "js_get statePayload ''role'' = Some (JStr r)"
      and "\<not> falsy (STRAVA_CLIENT_ID env)" and "\<not> falsy (STRAVA_CLIENT_SECRET env)"
      and "cw_provider w (length (http_log s))
             (TokenExchange (STRAVA_CLIENT_ID env) (STRAVA_CLIENT_SECRET env) code_param
                (js_get statePayload ''codeVerifier'')) = Response st (TokenBody tokenData)"
      and "response_ok st" and "athlete tokenData = Some ath"
      and "createClient (cw_url_error w) (SUPABASE_URL env) (SUPABASE_SERVICE_ROLE_KEY env) = None"
      and "\<not> lookup_fails w"
      and "connections_unique (connections s)"
      and "c \<in> set (connections s)" and "conn_user_id c = u"
      and "conn_athlete_id c = athlete_id ath" and "conn_role c \<noteq> r"
  shows "oauth_callback pf env w req s =
           ((if location_base_ok env
             then Inr (sent_redirect env (''?error=athlete_role_conflict&athlete_id='' @
                                            Number_toString (athlete_id ath)))
             else Inl TypeError),
            s\<lparr>http_log := http_log s @
                  [TokenExchange (STRAVA_CLIENT_ID env) (STRAVA_CLIENT_SECRET env) code_param
                     (js_get statePayload ''codeVerifier'')]\<rparr>)"
proof -
  let ?s1 = "s\<lparr>http_log := http_log s @
                  [TokenExchange (STRAVA_CLIENT_ID env) (STRAVA_CLIENT_SECRET env) code_param
                     (js_get statePayload ''codeVerifier'')]\<rparr>"
  have x: "callback_exchange env w code_param statePayload s =
           callback_upsert env w (js_get statePayload ''userId'') (js_get statePayload ''role'') tokenData ath ?s1"
    unfolding callback_exchange_answered[OF assms(12,13,14,15)] using assms(16,17) by simp
  have u: "callback_upsert env w (js_get statePayload ''userId'') (js_get statePayload ''role'') tokenData ath ?s1
           = (Inr (redirect env (''?error=athlete_role_conflict&athlete_id='' @
                                Number_toString (athlete_id ath))), ?s1)"
    by (rule callback_upsert_conflict[where c = c and r = r])
       (use assms(10,11,18,19,20,21,22,23) in simp_all)
  have t: "callback_try pf env w req s =
             (Inr (redirect env (''?error=athlete_role_conflict&athlete_id='' @
                                Number_toString (athlete_id ath))), ?s1)"
    unfolding callback_try_validated[OF assms(2-9)] x u by (rule refl)
  have q: "status_query (''?error=athlete_role_conflict&athlete_id='' @ Number_toString (athlete_id ath))"
    unfolding status_query_def by blast
  show ?thesis by (rule oauth_callback_answer[OF assms(1) t q])
qed

subsection \<open>The example state tokens\<close>

lemma base64urlEncode_nonempty: "data \<noteq> [] \<Longrightarrow> base64urlEncode data \<noteq> []"
proof -
  assume ne: "data \<noteq> []"
  have "\<And>ns. ns \<noteq> [] \<Longrightarrow> sextets ns \<noteq> []"
    subgoal for ns by (induction ns rule: sextets.induct) simp_all
    done
  then show ?thesis using ne
    by (simp add: base64urlEncode_sextets String_fromCharCode_def)
qed

lemma encodeState_nonempty: "encodeState pf secret p \<noteq> []"
  by (simp add: encodeState_def Let_def base64urlEncode_nonempty TextEncoder_encode_def)

lemma toy_mac_nonempty: "toy_mac key msg \<noteq> []"
  by (simp add: toy_mac_def take_eq_Nil)

lemma demo_json:
  "JSON_stringify_payload demo_payload =
     ''{\"userId\":\"u1\",\"role\":\"PET\",\"exp\":1000,\"nonce\":\"n\",\"codeVerifier\":\"v\"}''"
  "JSON_stringify_payload demo_payload_human =
     ''{\"userId\":\"u1\",\"role\":\"HUMAN\",\"exp\":1000,\"nonce\":\"n\",\"codeVerifier\":\"v\"}''"
  by (simp_all add: demo_payload_def demo_payload_human_def codec_eval)

lemma demo_json_ok:
  "ascii (JSON_stringify_payload demo_payload)" "CHR ''.'' \<notin> set (JSON_stringify_payload demo_payload)"
  "ascii (JSON_stringify_payload demo_payload_human)"
  "CHR ''.'' \<notin> set (JSON_stringify_payload demo_payload_human)"
  unfolding demo_json by (simp_all add: ascii_def)

lemma demo_parse:
  "JSON_parse demo_platform (JSON_stringify_payload demo_payload) = Some (payload_json demo_payload)"
  "JSON_parse demo_platform (JSON_stringify_payload demo_payload_human) = Some (payload_json demo_payload_human)"
  unfolding demo_json by (simp_all add: demo_platform_def demo_json)

lemma demo_mac:
  "hmac_sha256 demo_platform key msg \<noteq> []"
  by (simp add: demo_platform_def toy_mac_nonempty)

lemma demo_validate:
  "validateState demo_platform ''secret'' now (encodeState demo_platform ''secret'' demo_payload) =
     (if 1000 < now then Inl (Error ''State expired'') else Inr (payload_json demo_payload))"
  "validateState demo_platform ''secret'' now (encodeState demo_platform ''secret'' demo_payload_human) =
     (if 1000 < now then Inl (Error ''State expired'') else Inr (payload_json demo_payload_human))"
proof -
  have e: "js_get (payload_json demo_payload) ''exp'' = Some (JNum 1000)"
          "js_get (payload_json demo_payload_human) ''exp'' = Some (JNum 1000)"
          "payload_json demo_payload \<noteq> JNull" "payload_json demo_payload_human \<noteq> JNull"
    by (simp_all add: payload_json_def js_get_def demo_payload_def demo_payload_human_def)
  show "validateState demo_platform ''secret'' now (encodeState demo_platform ''secret'' demo_payload) =
     (if 1000 < now then Inl (Error ''State expired'') else Inr (payload_json demo_payload))"
    unfolding validateState_encodeState[OF demo_json_ok(1,2) demo_mac] demo_parse
    by (simp add: e js_less_def)
  show "validateState demo_platform ''secret'' now (encodeState demo_platform ''secret'' demo_payload_human) =
     (if 1000 < now then Inl (Error ''State expired'') else Inr (payload_json demo_payload_human))"
    unfolding validateState_encodeState[OF demo_json_ok(3,4) demo_mac] demo_parse
    by (simp add: e js_less_def)
qed

subsection \<open>Expired states\<close>





lemma demo_env_simps:
  "STATE_SECRET demo_env = Some ''secret''" "\<not> falsy (STRAVA_CLIENT_ID demo_env)"
  "\<not> falsy (STRAVA_CLIENT_SECRET demo_env)"
  "createClient (\<lambda>u. None) (SUPABASE_URL demo_env) (SUPABASE_SERVICE_ROLE_KEY demo_env) = None"
  "createClient (\<lambda>u. None) (SUPABASE_URL demo_env) (SUPABASE_ANON_KEY demo_env) = None"
  "STRAVA_CLIENT_ID demo_env = Some ''cid''" "STRAVA_CLIENT_SECRET demo_env = Some ''csecret''"
  by (simp_all add: demo_env_def falsy_def createClient_def)

lemma demo_location:
  "location_base_ok demo_env"
  "dropWhile http_whitespace (template_str (SUPABASE_URL demo_env)) = ''https://app.example''"
  by (simp_all add: location_base_ok_def demo_env_def template_str_def http_whitespace_def)


subsection \<open>The example runs of the handler\<close>

lemma demo_fields:
  "js_get (payload_json demo_payload) ''userId'' = Some (JStr ''u1'')"
  "js_get (payload_json demo_payload) ''role'' = Some (JStr ''PET'')"
  "js_get (payload_json demo_payload_human) ''userId'' = Some (JStr ''u1'')"
  "js_get (payload_json demo_payload_human) ''role'' = Some (JStr ''HUMAN'')"
  "js_get (payload_json demo_payload) ''codeVerifier'' = Some (JStr ''v'')"
  by (simp_all add: payload_json_def js_get_def demo_payload_def demo_payload_human_def)

lemma demo_request_simps:
  "req_method (demo_request p) = ''GET''" "req_error (demo_request p) = None"
  "req_code (demo_request p) = Some ''code1''"
  "req_state (demo_request p) = Some (encodeState demo_platform ''secret'' p)"
  by (simp_all add: demo_request_def)

lemma demo_world_simps:
  "cw_provider (demo_callback_world aid t) k r = Response 200 (TokenBody (exchange_tokens aid))"
  "cw_now (demo_callback_world aid t) = t" "upsert_fails (demo_callback_world aid t) = False"
  "lookup_fails (demo_callback_world aid t) = False"
  "cw_url_error (demo_callback_world aid t) = (\<lambda>u. None)"
  by (simp_all add: demo_callback_world_def)

lemma demo_system_unique: "connections_unique (connections demo_system)"
  by (simp add: connections_unique_def demo_system_def demo_human_def demo_pet_def)

lemma demo_cors: "cors_error demo_env = None"
  by (simp add: cors_error_def header_value_def http_trim_def http_whitespace_def demo_env_def
        template_str_def)

text \<open>
  The try block on the example request for the payload with role \<open>PET\<close>, up to the client
  of the store, for any environment and world that agree with the examples on what is
  read before.
\<close>

lemma demo_try:
  assumes "STATE_SECRET env = Some ''secret''"
      and "STRAVA_CLIENT_ID env = Some ''cid''" and "STRAVA_CLIENT_SECRET env = Some ''csecret''"
      and "cw_now w = 500"
      and "cw_provider w 0 (TokenExchange (Some ''cid'') (Some ''csecret'') ''code1'' (Some (JStr ''v'')))
             = Response 200 (TokenBody (exchange_tokens aid))"
  shows "callback_try demo_platform env w (demo_request demo_payload) demo_system =
           (case createClient (cw_url_error w) (SUPABASE_URL env) (SUPABASE_SERVICE_ROLE_KEY env) of
              Some e \<Rightarrow>
                (Inl e, demo_system\<lparr>http_log :=
                          [TokenExchange (Some ''cid'') (Some ''csecret'') ''code1'' (Some (JStr ''v''))]\<rparr>)
            | None \<Rightarrow>
                callback_upsert env w (Some (JStr ''u1'')) (Some (JStr ''PET'')) (exchange_tokens aid)
                  \<lparr>athlete_id = aid\<rparr>
                  (demo_system\<lparr>http_log :=
                          [TokenExchange (Some ''cid'') (Some ''csecret'') ''code1'' (Some (JStr ''v''))]\<rparr>))"
proof -
  have v: "validateState demo_platform ''secret'' (cw_now w)
              (encodeState demo_platform ''secret'' demo_payload) = Inr (payload_json demo_payload)"
    by (simp add: demo_validate assms(4))
  have l: "http_log demo_system = []" by (simp add: demo_system_def)
  have ok: "response_ok 200" by (simp add: response_ok_def)
  have p: "cw_provider w (length (http_log demo_system))
             (TokenExchange (STRAVA_CLIENT_ID env) (STRAVA_CLIENT_SECRET env) ''code1''
                (js_get (payload_json demo_payload) ''codeVerifier''))
           = Response 200 (TokenBody (exchange_tokens aid))"
    by (simp add: l assms demo_fields)
  have f: "\<not> falsy (STRAVA_CLIENT_ID env)" "\<not> falsy (STRAVA_CLIENT_SECRET env)"
    by (simp_all add: assms falsy_def)
  have t: "callback_try demo_platform env w (demo_request demo_payload) demo_system =
           callback_exchange env w ''code1'' (payload_json demo_payload) demo_system"
    by (rule callback_try_validated[where secret = "''secret''"
          and stateParam = "encodeState demo_platform ''secret'' demo_payload"])
       (simp_all add: demo_request_simps falsy_def encodeState_nonempty assms(1) v)
  show ?thesis
    unfolding t callback_exchange_answered[OF f p ok]
    by (simp add: l assms demo_fields exchange_tokens_def split: option.splits)
qed

lemma demo_redirect:
  "SUPABASE_URL env = Some ''https://app.example'' \<Longrightarrow>
   location_base_ok env \<and>
   sent_redirect env q = \<lparr>resp_status = 302, resp_location = Some (''https://app.example'' @ q)\<rparr>"
  by (simp add: location_base_ok_def sent_redirect_def template_str_def http_whitespace_def)

text \<open>
  Claim C4 as stated fails when the callback cannot reach the store: with the service
  key not set, the conflicting connection is never looked up and the answer is
  \<open>server_error\<close>; and when the lookup is refused, its error is not read, the upsert is
  tried, and the answer is \<open>database_error\<close>. In both runs the athlete 42 is linked as
  \<open>HUMAN\<close> and requested as \<open>PET\<close>.
\<close>

theorem C4_counterexample:
  "demo_human \<in> set (connections demo_system) \<and> conn_user_id demo_human = ''u1'' \<and>
   conn_athlete_id demo_human = 42 \<and> conn_role demo_human = ''HUMAN'' \<and>
   oauth_callback demo_platform (demo_env\<lparr>SUPABASE_SERVICE_ROLE_KEY := None\<rparr>) (demo_callback_world 42 500)
       (demo_request demo_payload) demo_system
     = (Inr \<lparr>resp_status = 302, resp_location = Some ''https://app.example?error=server_error''\<rparr>,
        demo_system\<lparr>http_log :=
          [TokenExchange (Some ''cid'') (Some ''csecret'') ''code1'' (Some (JStr ''v''))]\<rparr>) \<and>
   oauth_callback demo_platform demo_env ((demo_callback_world 42 500)\<lparr>lookup_fails := True\<rparr>)
       (demo_request demo_payload) demo_system
     = (Inr \<lparr>resp_status = 302, resp_location = Some ''https://app.example?error=database_error''\<rparr>,
        demo_system\<lparr>http_log :=
          [TokenExchange (Some ''cid'') (Some ''csecret'') ''code1'' (Some (JStr ''v''))]\<rparr>)"
proof -
  let ?env = "demo_env\<lparr>SUPABASE_SERVICE_ROLE_KEY := None\<rparr>"
  let ?w = "(demo_callback_world 42 500)\<lparr>lookup_fails := True\<rparr>"
  let ?s1 = "demo_system\<lparr>http_log :=
          [TokenExchange (Some ''cid'') (Some ''csecret'') ''code1'' (Some (JStr ''v''))]\<rparr>"
  have m: "''GET'' \<noteq> ''OPTIONS''" by simp
  have c: "createClient (cw_url_error (demo_callback_world 42 500)) (SUPABASE_URL ?env)
             (SUPABASE_SERVICE_ROLE_KEY ?env) = Some (Error ''supabaseKey is required.'')"
    by (simp add: createClient_def demo_env_def falsy_def demo_world_simps)
  have e: "STATE_SECRET ?env = Some ''secret''" "STRAVA_CLIENT_ID ?env = Some ''cid''"
          "STRAVA_CLIENT_SECRET ?env = Some ''csecret''" "SUPABASE_URL ?env = Some ''https://app.example''"
          "SUPABASE_URL demo_env = Some ''https://app.example''"
    by (simp_all add: demo_env_def)
  have t1: "callback_try demo_platform ?env (demo_callback_world 42 500) (demo_request demo_payload)
              demo_system = (Inl (Error ''supabaseKey is required.''), ?s1)"
    unfolding demo_try[where env = ?env and w = "demo_callback_world 42 500" and aid = 42,
        OF e(1,2,3) demo_world_simps(2) demo_world_simps(1)] c
    by simp
  have r1: "oauth_callback demo_platform ?env (demo_callback_world 42 500) (demo_request demo_payload)
              demo_system
            = (Inr \<lparr>resp_status = 302, resp_location = Some ''https://app.example?error=server_error''\<rparr>, ?s1)"
    unfolding oauth_callback_caught[where req = "demo_request demo_payload", unfolded demo_request_simps,
        OF m t1]
    using demo_redirect[OF e(4), of "''?error=server_error''"] by simp
  have w2: "cw_now ?w = 500"
      "cw_provider ?w 0 (TokenExchange (Some ''cid'') (Some ''csecret'') ''code1'' (Some (JStr ''v'')))
         = Response 200 (TokenBody (exchange_tokens 42))"
    by (simp_all add: demo_world_simps)
  have c2: "createClient (cw_url_error ?w) (SUPABASE_URL demo_env) (SUPABASE_SERVICE_ROLE_KEY demo_env) = None"
    by (simp add: demo_env_simps demo_world_simps)
  have u: "callback_upsert demo_env ?w (Some (JStr ''u1'')) (Some (JStr ''PET'')) (exchange_tokens 42)
             \<lparr>athlete_id = 42\<rparr> ?s1 = (Inr (redirect demo_env ''?error=database_error''), ?s1)"
    by (simp add: callback_upsert_def Let_def upsert_connection_def demo_system_def demo_human_def
          demo_pet_def demo_world_simps)
  have t2: "callback_try demo_platform demo_env ?w (demo_request demo_payload) demo_system
            = (Inr (redirect demo_env ''?error=database_error''), ?s1)"
    unfolding demo_try[where env = demo_env and w = ?w and aid = 42, OF demo_env_simps(1,6,7) w2] c2
    by (simp add: u)
  have q: "status_query ''?error=database_error''" by (simp add: status_query_def)
  have r2: "oauth_callback demo_platform demo_env ?w (demo_request demo_payload) demo_system
            = (Inr \<lparr>resp_status = 302, resp_location = Some ''https://app.example?error=database_error''\<rparr>, ?s1)"
    unfolding oauth_callback_answer[where req = "demo_request demo_payload", unfolded demo_request_simps,
        OF m t2 q]
    using demo_redirect[OF e(5), of "''?error=database_error''"] by simp
  show ?thesis
    unfolding r1 r2 by (simp add: demo_system_def demo_human_def)
qed

text \<open>
  Claim C4, for a callback that reaches the store. In a store that satisfies the
  uniqueness constraints of the connections table, for every user \<open>u\<close>, requested role
  \<open>r\<close> and athlete returned by the token exchange, when the client of the store is made
  (the URL is set and accepted, the service key is set), the lookup of the existing
  connection is answered and the base URL is a header value: if the store holds a
  connection of \<open>u\<close> for this athlete id under a role other than \<open>r\<close>, the callback
  answers with the \<open>athlete_role_conflict\<close> redirect carrying the athlete id, and the
  connections are left as they were (the only effect is the token exchange request).
  Nothing in the statement depends on which role is held and which is requested.
\<close>

theorem C4_role_conflict:
  assumes "req_method req \<noteq> ''OPTIONS''" and "falsy (req_error req)"
      and "req_code req = Some code_param" and "code_param \<noteq> []"
      and "req_state req = Some stateParam" and "stateParam \<noteq> []"
      and "STATE_SECRET env = Some secret" and "secret \<noteq> []"
      and "validateState pf secret (cw_now w) stateParam = Inr statePayload"
      and "js_get statePayload ''userId'' = Some (JStr u)"
      and "js_get statePayload ''role'' = Some (JStr r)"
      and "\<not> falsy (STRAVA_CLIENT_ID env)" and "\<not> falsy (STRAVA_CLIENT_SECRET env)"
      and "cw_provider w (length (http_log s))
             (TokenExchange (STRAVA_CLIENT_ID env) (STRAVA_CLIENT_SECRET env) code_param
                (js_get statePayload ''codeVerifier'')) = Response st (TokenBody tokenData)"
      and "response_ok st" and "athlete tokenData = Some ath"
      and "createClient (cw_url_error w) (SUPABASE_URL env) (SUPABASE_SERVICE_ROLE_KEY env) = None"
      and "\<not> lookup_fails w"
      and "connections_unique (connections s)"
      and "c \<in> set (connections s)" and "conn_user_id c = u"
      and "conn_athlete_id c = athlete_id ath" and "conn_role c \<noteq> r"
      and "location_base_ok env"
  shows "fst (oauth_callback pf env w req s) =
           Inr \<lparr>resp_status = 302,
                resp_location = Some (dropWhile http_whitespace (template_str (SUPABASE_URL env))
                   @ ''?error=athlete_role_conflict&athlete_id='' @ Number_toString (athlete_id ath))\<rparr> \<and>
         connections (snd (oauth_callback pf env w req s)) = connections s \<and>
         mirrors (snd (oauth_callback pf env w req s)) = mirrors s"
  unfolding oauth_callback_conflict[OF assms(1-23)] using assms(24) by (simp add: sent_redirect_def)

theorem C4_role_conflict_witness:
  "validateState demo_platform ''secret'' 500 (encodeState demo_platform ''secret'' demo_payload)
     = Inr (payload_json demo_payload) \<and>
   validateState demo_platform ''secret'' 500 (encodeState demo_platform ''secret'' demo_payload_human)
     = Inr (payload_json demo_payload_human) \<and>
   createClient (\<lambda>u. None) (SUPABASE_URL demo_env) (SUPABASE_SERVICE_ROLE_KEY demo_env) = None \<and>
   location_base_ok demo_env \<and>
   connections_unique (connections demo_system) \<and>
   demo_human \<in> set (connections demo_system) \<and> conn_role demo_human \<noteq> ''PET'' \<and>
   demo_pet \<in> set (connections demo_system) \<and> conn_role demo_pet \<noteq> ''HUMAN'' \<and>
   fst (oauth_callback demo_platform demo_env (demo_callback_world 42 500) (demo_request demo_payload) demo_system)
     = Inr \<lparr>resp_status = 302,
            resp_location = Some ''https://app.example?error=athlete_role_conflict&athlete_id=42''\<rparr> \<and>
   connections (snd (oauth_callback demo_platform demo_env (demo_callback_world 42 500)
                       (demo_request demo_payload) demo_system)) = [demo_human, demo_pet] \<and>
   fst (oauth_callback demo_platform demo_env (demo_callback_world 43 500) (demo_request demo_payload_human)
          demo_system)
     = Inr \<lparr>resp_status = 302,
            resp_location = Some ''https://app.example?error=athlete_role_conflict&athlete_id=43''\<rparr> \<and>
   connections (snd (oauth_callback demo_platform demo_env (demo_callback_world 43 500)
                       (demo_request demo_payload_human) demo_system)) = [demo_human, demo_pet]"
proof -
  have v1: "validateState demo_platform ''secret'' (cw_now (demo_callback_world 42 500))
              (encodeState demo_platform ''secret'' demo_payload) = Inr (payload_json demo_payload)"
    by (simp add: demo_validate demo_world_simps)
  have v2: "validateState demo_platform ''secret'' (cw_now (demo_callback_world 43 500))
              (encodeState demo_platform ''secret'' demo_payload_human) = Inr (payload_json demo_payload_human)"
    by (simp add: demo_validate demo_world_simps)
  have ok: "response_ok 200" by (simp add: response_ok_def)
  have a1: "athlete (exchange_tokens 42) = Some \<lparr>athlete_id = 42\<rparr>"
   and a2: "athlete (exchange_tokens 43) = Some \<lparr>athlete_id = 43\<rparr>"
    by (simp_all add: exchange_tokens_def)
  have m1: "demo_human \<in> set (connections demo_system)" and m2: "demo_pet \<in> set (connections demo_system)"
    by (simp_all add: demo_system_def)
  have c1: "conn_user_id demo_human = ''u1''" "conn_athlete_id demo_human = athlete_id \<lparr>athlete_id = 42\<rparr>"
           "conn_role demo_human \<noteq> ''PET''"
    by (simp_all add: demo_human_def)
  have c2: "conn_user_id demo_pet = ''u1''" "conn_athlete_id demo_pet = athlete_id \<lparr>athlete_id = 43\<rparr>"
           "conn_role demo_pet \<noteq> ''HUMAN''"
    by (simp_all add: demo_pet_def)
  have ne: "''GET'' \<noteq> ''OPTIONS''" "falsy (None :: string option)" "''code1'' \<noteq> []" "''secret'' \<noteq> []"
    by (simp_all add: falsy_def)
  have lf: "\<not> False" by simp
  note i1 = C4_role_conflict[where pf = demo_platform and env = demo_env and w = "demo_callback_world 42 500"
      and req = "demo_request demo_payload" and s = demo_system and c = demo_human and r = "''PET''"
      and u = "''u1''" and secret = "''secret''" and code_param = "''code1''"
      and stateParam = "encodeState demo_platform ''secret'' demo_payload"
      and statePayload = "payload_json demo_payload" and st = 200 and tokenData = "exchange_tokens 42"
      and ath = "\<lparr>athlete_id = 42\<rparr>",
      unfolded demo_request_simps demo_world_simps,
      OF ne(1,2) refl ne(3) refl encodeState_nonempty demo_env_simps(1) ne(4)
         v1[unfolded demo_world_simps] demo_fields(1,2) demo_env_simps(2,3) refl ok a1
         demo_env_simps(4) lf demo_system_unique m1 c1 demo_location(1)]
  note i2 = C4_role_conflict[where pf = demo_platform and env = demo_env and w = "demo_callback_world 43 500"
      and req = "demo_request demo_payload_human" and s = demo_system and c = demo_pet and r = "''HUMAN''"
      and u = "''u1''" and secret = "''secret''" and code_param = "''code1''"
      and stateParam = "encodeState demo_platform ''secret'' demo_payload_human"
      and statePayload = "payload_json demo_payload_human" and st = 200 and tokenData = "exchange_tokens 43"
      and ath = "\<lparr>athlete_id = 43\<rparr>",
      unfolded demo_request_simps demo_world_simps,
      OF ne(1,2) refl ne(3) refl encodeState_nonempty demo_env_simps(1) ne(4)
         v2[unfolded demo_world_simps] demo_fields(3,4) demo_env_simps(2,3) refl ok a2
         demo_env_simps(4) lf demo_system_unique m2 c2 demo_location(1)]
  have n: "Number_toString 42 = ''42''" "Number_toString 43 = ''43''"
    by (simp_all add: codec_eval)
  have s: "connections demo_system = [demo_human, demo_pet]" by (simp add: demo_system_def)
  show ?thesis
    using i1 i2 v1 v2 demo_system_unique m1 m2 c1(3) c2(3) demo_env_simps(4) demo_location(1)
    by (simp add: n s demo_world_simps demo_location(2))
qed

lemma demo_success_run:
  "fst (oauth_callback demo_platform demo_env (demo_callback_world 43 500) (demo_request demo_payload)
          demo_system)
     = Inr \<lparr>resp_status = 302, resp_location = Some ''https://app.example?oauth_success=true&role=PET''\<rparr>"
proof -
  let ?s1 = "demo_system\<lparr>http_log :=
          [TokenExchange (Some ''cid'') (Some ''csecret'') ''code1'' (Some (JStr ''v''))]\<rparr>"
  have m: "''GET'' \<noteq> ''OPTIONS''" by simp
  have c: "createClient (cw_url_error (demo_callback_world 43 500)) (SUPABASE_URL demo_env)
             (SUPABASE_SERVICE_ROLE_KEY demo_env) = None"
    by (simp add: demo_env_simps demo_world_simps)
  have f: "find_existing_connection (Some (JStr ''u1'')) 43 [demo_human, demo_pet] = Some demo_pet"
    by (simp add: find_existing_connection_def maybeSingle_def demo_human_def demo_pet_def)
  have up: "upsert_connection False (Some (JStr ''u1'')) (Some (JStr ''PET'')) 43 (exchange_tokens 43)
             [demo_human, demo_pet] =
           Some (''PET'', upsert_row ''u1'' ''PET'' 43 (exchange_tokens 43) [demo_human, demo_pet])"
    by (simp add: upsert_connection_def demo_human_def demo_pet_def)
  have cs: "connections ?s1 = [demo_human, demo_pet]" by (simp add: demo_system_def)
  have u: "callback_upsert demo_env (demo_callback_world 43 500) (Some (JStr ''u1'')) (Some (JStr ''PET''))
             (exchange_tokens 43) \<lparr>athlete_id = 43\<rparr> ?s1 =
           (Inr (redirect demo_env ''?oauth_success=true&role=PET''),
            ?s1\<lparr>connections := upsert_row ''u1'' ''PET'' 43 (exchange_tokens 43) [demo_human, demo_pet]\<rparr>)"
    unfolding callback_upsert_def Let_def cs
    by (simp add: f up demo_world_simps) (simp add: demo_pet_def)
  have t: "callback_try demo_platform demo_env (demo_callback_world 43 500) (demo_request demo_payload)
             demo_system
           = (Inr (redirect demo_env ''?oauth_success=true&role=PET''),
              ?s1\<lparr>connections := upsert_row ''u1'' ''PET'' 43 (exchange_tokens 43) [demo_human, demo_pet]\<rparr>)"
    unfolding demo_try[where env = demo_env and w = "demo_callback_world 43 500" and aid = 43,
        OF demo_env_simps(1,6,7) demo_world_simps(2) demo_world_simps(1)] c
    by (simp add: u)
  have q: "status_query ''?oauth_success=true&role=PET''" by (simp add: status_query_def)
  show ?thesis
    unfolding oauth_callback_answer[where req = "demo_request demo_payload", unfolded demo_request_simps,
        OF m t q]
    by (simp add: demo_location sent_redirect_def)
qed

text \<open>
  Claim C2 as stated fails in two ways. The preflight request is answered by the handler
  itself with the default status 200 and no \<open>Location\<close> header. And when the base URL is
  not a header value (here it ends in a line feed), no response can be built, not even
  the one of the outer \<open>catch\<close>: the handler throws a \<open>TypeError\<close>.
\<close>

theorem C2_counterexample:
  "oauth_callback demo_platform demo_env (demo_callback_world 43 500) preflight_request demo_system
     = (Inr \<lparr>resp_status = 200, resp_location = None\<rparr>, demo_system) \<and>
   fst (oauth_callback demo_platform (demo_env\<lparr>SUPABASE_URL := Some ''https://app.example\<newline>''\<rparr>)
          (demo_callback_world 43 500) (demo_request demo_payload) demo_system) = Inl TypeError"
proof -
  let ?env = "demo_env\<lparr>SUPABASE_URL := Some ''https://app.example\<newline>''\<rparr>"
  have 1: "oauth_callback demo_platform demo_env (demo_callback_world 43 500) preflight_request demo_system
     = (Inr \<lparr>resp_status = 200, resp_location = None\<rparr>, demo_system)"
    by (simp add: oauth_callback_def preflight_request_def demo_cors)
  have n: "\<not> location_base_ok ?env"
    by (simp add: location_base_ok_def demo_env_def template_str_def http_whitespace_def)
  have m: "req_method (demo_request demo_payload) \<noteq> ''OPTIONS''" by (simp add: demo_request_simps)
  have 2: "fst (oauth_callback demo_platform ?env (demo_callback_world 43 500) (demo_request demo_payload)
             demo_system) = Inl TypeError"
    using oauth_callback_redirect[OF m, of demo_platform ?env "demo_callback_world 43 500" demo_system] n
    by auto
  show ?thesis using 1 2 by simp
qed

text \<open>
  Claim C2, for the requests the handler treats as callbacks and a base URL that is a
  header value. The preflight request (method \<open>OPTIONS\<close>) is answered with status 200 and
  no \<open>Location\<close> (or the handler throws, when the allowed origin is not a header value).
  For every other request, whatever the store and the provider do: when the base URL is
  a header value, the response has status 302 and a \<open>Location\<close> made of the base URL
  (without white space before it) and one of the fixed status queries (the nine
  outcomes); when it is not, the handler throws a \<open>TypeError\<close>. In every case the answer
  is the same when the provider's token responses carry any other access and refresh
  tokens: no part of it is computed from the tokens.
\<close>

theorem C2_callback_redirects:
  "(req_method req = ''OPTIONS'' \<longrightarrow>
      oauth_callback pf env w req s =
        ((case cors_error env of Some e \<Rightarrow> Inl e
          | None \<Rightarrow> Inr \<lparr>resp_status = 200, resp_location = None\<rparr>), s))
   \<and> (req_method req \<noteq> ''OPTIONS'' \<and> location_base_ok env \<longrightarrow>
        (\<exists>q. status_query q \<and>
              fst (oauth_callback pf env w req s) =
                Inr \<lparr>resp_status = 302,
                     resp_location =
                       Some (dropWhile http_whitespace (template_str (SUPABASE_URL env)) @ q)\<rparr>))
   \<and> (req_method req \<noteq> ''OPTIONS'' \<and> \<not> location_base_ok env \<longrightarrow>
        fst (oauth_callback pf env w req s) = Inl TypeError)
   \<and> fst (oauth_callback pf env (w\<lparr>cw_provider := \<lambda>k r. with_tokens (f k r) (cw_provider w k r)\<rparr>) req s)
        = fst (oauth_callback pf env w req s)"
proof (intro conjI impI)
  assume "req_method req = ''OPTIONS''"
  then show "oauth_callback pf env w req s =
        ((case cors_error env of Some e \<Rightarrow> Inl e
          | None \<Rightarrow> Inr \<lparr>resp_status = 200, resp_location = None\<rparr>), s)"
    by (rule oauth_callback_preflight)
next
  assume h: "req_method req \<noteq> ''OPTIONS'' \<and> location_base_ok env"
  then obtain q where q: "status_query q"
    and r: "fst (oauth_callback pf env w req s) =
              (if location_base_ok env then Inr (sent_redirect env q) else Inl TypeError)"
    using oauth_callback_redirect[of req pf env w s] by blast
  have "fst (oauth_callback pf env w req s) =
                Inr \<lparr>resp_status = 302,
                     resp_location =
                       Some (dropWhile http_whitespace (template_str (SUPABASE_URL env)) @ q)\<rparr>"
    using r h by (simp add: sent_redirect_def)
  then show "\<exists>q. status_query q \<and>
              fst (oauth_callback pf env w req s) =
                Inr \<lparr>resp_status = 302,
                     resp_location =
                       Some (dropWhile http_whitespace (template_str (SUPABASE_URL env)) @ q)\<rparr>"
    using q by blast
next
  assume h: "req_method req \<noteq> ''OPTIONS'' \<and> \<not> location_base_ok env"
  then obtain q where
    r: "fst (oauth_callback pf env w req s) =
              (if location_base_ok env then Inr (sent_redirect env q) else Inl TypeError)"
    using oauth_callback_redirect[of req pf env w s] by blast
  then show "fst (oauth_callback pf env w req s) = Inl TypeError" using h by simp
next
  show "fst (oauth_callback pf env (w\<lparr>cw_provider := \<lambda>k r. with_tokens (f k r) (cw_provider w k r)\<rparr>) req s)
        = fst (oauth_callback pf env w req s)"
    by (rule oauth_callback_tokens)
qed

theorem C2_callback_redirects_witness:
  "req_method preflight_request = ''OPTIONS'' \<and> cors_error demo_env = None \<and>
   oauth_callback demo_platform demo_env (demo_callback_world 43 500) preflight_request demo_system
     = (Inr \<lparr>resp_status = 200, resp_location = None\<rparr>, demo_system) \<and>
   req_method (demo_request demo_payload) \<noteq> ''OPTIONS'' \<and> location_base_ok demo_env \<and>
   fst (oauth_callback demo_platform demo_env (demo_callback_world 43 500) (demo_request demo_payload)
          demo_system)
     = Inr \<lparr>resp_status = 302, resp_location = Some ''https://app.example?oauth_success=true&role=PET''\<rparr> \<and>
   \<not> location_base_ok (demo_env\<lparr>SUPABASE_URL := Some ''https://app.example\<newline>''\<rparr>) \<and>
   fst (oauth_callback demo_platform (demo_env\<lparr>SUPABASE_URL := Some ''https://app.example\<newline>''\<rparr>)
          (demo_callback_world 43 500) (demo_request demo_payload) demo_system) = Inl TypeError \<and>
   fst (oauth_callback demo_platform demo_env
          ((demo_callback_world 43 500)
             \<lparr>cw_provider := \<lambda>k r. with_tokens other_tokens (cw_provider (demo_callback_world 43 500) k r)\<rparr>)
          (demo_request demo_payload) demo_system)
     = Inr \<lparr>resp_status = 302, resp_location = Some ''https://app.example?oauth_success=true&role=PET''\<rparr> \<and>
   with_tokens other_tokens (cw_provider (demo_callback_world 43 500) 0
       (TokenExchange (Some ''cid'') (Some ''csecret'') ''code1'' (Some (JStr ''v''))))
     = Response 200 (TokenBody \<lparr>access_token = ''other-access'', refresh_token = ''other-refresh'',
                                expires_at = 5000, athlete = Some \<lparr>athlete_id = 43\<rparr>\<rparr>)"
proof -
  let ?env = "demo_env\<lparr>SUPABASE_URL := Some ''https://app.example\<newline>''\<rparr>"
  have o: "req_method preflight_request = ''OPTIONS''" by (simp add: preflight_request_def)
  have m: "req_method (demo_request demo_payload) \<noteq> ''OPTIONS''" by (simp add: demo_request_simps)
  have n: "\<not> location_base_ok ?env"
    by (simp add: location_base_ok_def demo_env_def template_str_def http_whitespace_def)
  note i1 = C2_callback_redirects[where pf = demo_platform and env = demo_env
      and w = "demo_callback_world 43 500" and s = demo_system and req = preflight_request,
      THEN conjunct1, rule_format, OF o]
  note i2 = C2_callback_redirects[where pf = demo_platform and env = demo_env
      and w = "demo_callback_world 43 500" and s = demo_system and req = "demo_request demo_payload",
      THEN conjunct2, THEN conjunct1, rule_format, OF conjI[OF m demo_location(1)]]
  note i3 = C2_callback_redirects[where pf = demo_platform and env = ?env
      and w = "demo_callback_world 43 500" and s = demo_system and req = "demo_request demo_payload",
      THEN conjunct2, THEN conjunct2, THEN conjunct1, rule_format, OF conjI[OF m n]]
  note i4 = C2_callback_redirects[where pf = demo_platform and env = demo_env
      and w = "demo_callback_world 43 500" and s = demo_system and req = "demo_request demo_payload"
      and f = "\<lambda>k r. other_tokens", THEN conjunct2, THEN conjunct2, THEN conjunct2]
  have t: "with_tokens other_tokens (cw_provider (demo_callback_world 43 500) 0
       (TokenExchange (Some ''cid'') (Some ''csecret'') ''code1'' (Some (JStr ''v''))))
     = Response 200 (TokenBody \<lparr>access_token = ''other-access'', refresh_token = ''other-refresh'',
                                expires_at = 5000, athlete = Some \<lparr>athlete_id = 43\<rparr>\<rparr>)"
    by (simp add: with_tokens_def demo_world_simps exchange_tokens_def other_tokens_def)
  show ?thesis
    using i1 i2 i3 i4 o m n t demo_location(1) by (simp add: demo_success_run demo_cors)
qed

section \<open>The activity name in the track log\<close>

lemmas xml_eval = well_formed_def xml_space_def xml_char_def name_start_def name_char_def is_digit_def
  closed_def decl_attributes_def in_tag_def reference_ok_def hex_value_def legal_character_def

lemma foldl_step_Rejected: "foldl step Rejected xs = Rejected"
  by (induction xs) simp_all

lemma step_content_text:
  assumes "text_char c"
  shows "\<exists>k. step (Content stack j) c = Content stack k"
proof -
  have c: "c \<noteq> CHR ''<''" "c \<noteq> CHR ''&''" "c \<noteq> CHR ''>''" "xml_char c"
    using assms unfolding text_char_def by blast+
  show ?thesis
  proof (cases "c = CHR '']''")
    case True
    then show ?thesis using c(1,2,3) by simp
  next
    case False
    then show ?thesis using c by simp
  qed
qed

lemma content_text:
  "list_all text_char xs \<Longrightarrow> \<exists>k. foldl step (Content stack j) xs = Content stack k"
proof (induction xs arbitrary: j)
  case Nil
  then show ?case by simp
next
  case (Cons c cs)
  then have c: "text_char c" and cs: "list_all text_char cs" by simp_all
  obtain k where k: "step (Content stack j) c = Content stack k"
    using step_content_text[OF c] by blast
  show ?case using Cons.IH[OF cs, of k] k by simp
qed

lemma step_value_text:
  assumes "text_char c"
  shows "step (Att_Value kind stack names (CHR 0x22)) c = Att_Value kind stack names (CHR 0x22)"
proof -
  have c: "c \<noteq> CHR ''<''" "c \<noteq> CHR ''&''" "c \<noteq> CHR 0x22" "xml_char c"
    using assms unfolding text_char_def by blast+
  show ?thesis using c by simp
qed

lemma value_text:
  "list_all text_char xs \<Longrightarrow>
   foldl step (Att_Value kind stack names (CHR 0x22)) xs = Att_Value kind stack names (CHR 0x22)"
  by (induction xs) (simp_all add: step_value_text del: step.simps)

lemma reference_ok_Nil: "\<not> reference_ok []"
  by (simp add: reference_ok_def)

lemma broken_markup_rejected:
  assumes "broken_markup c d"
  shows "step (step (Content stack k) c) d = Rejected"
proof -
  consider (amp) "c = CHR ''&''" "\<not> name_start d" "d \<noteq> CHR ''#''"
    | (lt) "c = CHR ''<''" "\<not> name_start d" "d \<noteq> CHR ''/''" "d \<noteq> CHR ''!''" "d \<noteq> CHR ''?''"
    using assms unfolding broken_markup_def by blast
  then show ?thesis
  proof cases
    case amp
    have 1: "step (Content stack k) c = Content_Ref stack []" using amp(1) by simp
    show ?thesis unfolding 1 using amp(2,3) by (simp add: reference_ok_Nil)
  next
    case lt
    have 1: "step (Content stack k) c = Markup_Start stack False" using lt(1) by simp
    show ?thesis unfolding 1 using lt(2-5) by simp
  qed
qed

lemma gpx_document_parts:
  "gpx_document appName titlePrefix activity_name startIso trackPoints =
     ''<?xml version=\"1.0\" encoding=\"UTF-8\"?>\<newline><gpx version=\"1.1\" creator=\"'' @ appName @
     ''\">\<newline>  <metadata>\<newline>    <name>'' @ titlePrefix @ activity_name @
     ''</name>\<newline>    <time>'' @ startIso @
     ''</time>\<newline>  </metadata>\<newline>  <trk>\<newline>    <name>'' @ titlePrefix @ activity_name @
     ''</name>\<newline>    <trkseg>\<newline>'' @ trackPoints @ ''    </trkseg>\<newline>  </trk>\<newline></gpx>''"
  by (simp add: gpx_document_def)

lemma generateGPX_document:
  assumes "generateGPX pf env activity streams = Inr doc"
  shows "\<exists>startIso trackPoints.
           doc = gpx_document (env_or (APP_NAME env) ''Pet Activity Syncer'')
                   (env_or (TITLE_PREFIX env) default_title_prefix) (act_name activity) startIso trackPoints"
proof -
  obtain ll where ll: "latlng streams = Some ll"
    using assms by (cases "latlng streams") (simp_all add: generateGPX_def)
  obtain ts where ts: "time streams = Some ts"
    using assms ll by (cases "time streams") (simp_all add: generateGPX_def)
  obtain tp where tp: "generateGPX_loop pf ll ts (altitude streams) (new_Date pf (act_start_date activity)) 0 []
                        = Inr tp"
    using assms ll ts
    by (cases "generateGPX_loop pf ll ts (altitude streams) (new_Date pf (act_start_date activity)) 0 []")
       (simp_all add: generateGPX_def Let_def)
  obtain t0 where t0: "new_Date pf (act_start_date activity) = Some t0"
    using assms ll ts tp
    by (cases "new_Date pf (act_start_date activity)") (simp_all add: generateGPX_def Let_def)
  have "doc = gpx_document (env_or (APP_NAME env) ''Pet Activity Syncer'')
                   (env_or (TITLE_PREFIX env) default_title_prefix) (act_name activity)
                   (toISOString pf t0) tp"
    using assms ll ts tp t0 by (simp add: generateGPX_def Let_def)
  then show ?thesis by blast
qed

lemma gpx_document_broken:
  assumes "list_all text_char appName" and "list_all text_char titlePrefix"
      and "list_all text_char u" and "broken_markup c d"
  shows "\<not> well_formed (gpx_document appName titlePrefix (u @ c # d # v) startIso trackPoints)"
proof -
  let ?stack = "[''name'', ''metadata'', ''gpx'']"
  let ?rest = "v @ ''</name>\<newline>    <time>'' @ startIso @
     ''</time>\<newline>  </metadata>\<newline>  <trk>\<newline>    <name>'' @ titlePrefix @ (u @ c # d # v) @
     ''</name>\<newline>    <trkseg>\<newline>'' @ trackPoints @ ''    </trkseg>\<newline>  </trk>\<newline></gpx>''"
  have 1: "foldl step (Prolog True)
             ''<?xml version=\"1.0\" encoding=\"UTF-8\"?>\<newline><gpx version=\"1.1\" creator=\"''
           = Att_Value (Element ''gpx'') [] [''version'', ''creator''] (CHR 0x22)"
    by (simp add: xml_eval)
  have 2: "foldl step (Att_Value (Element ''gpx'') [] [''version'', ''creator''] (CHR 0x22))
             ''\">\<newline>  <metadata>\<newline>    <name>'' = Content ?stack 0"
    by (simp add: xml_eval)
  obtain k where 3: "foldl step (Content ?stack 0) titlePrefix = Content ?stack k"
    using content_text[OF assms(2)] by blast
  obtain k' where 4: "foldl step (Content ?stack k) u = Content ?stack k'"
    using content_text[OF assms(3)] by blast
  have doc: "gpx_document appName titlePrefix (u @ c # d # v) startIso trackPoints =
     ''<?xml version=\"1.0\" encoding=\"UTF-8\"?>\<newline><gpx version=\"1.1\" creator=\"'' @ appName @
     ''\">\<newline>  <metadata>\<newline>    <name>'' @ titlePrefix @ u @ [c] @ [d] @ ?rest"
    unfolding gpx_document_parts by simp
  have "foldl step (Prolog True) (gpx_document appName titlePrefix (u @ c # d # v) startIso trackPoints)
        = foldl step (step (step (Content ?stack k') c) d) ?rest"
    unfolding doc foldl_append 1 value_text[OF assms(1)] 2 3 4 by simp
  also have "\<dots> = Rejected"
    unfolding broken_markup_rejected[OF assms(4)] by (rule foldl_step_Rejected)
  finally show ?thesis by (simp add: well_formed_def)
qed

lemma generateGPX_named:
  "generateGPX demo_dates demo_env (named_activity n) demo_streams = Inr
     (''<?xml version=\"1.0\" encoding=\"UTF-8\"?>\<newline><gpx version=\"1.1\" creator=\"Pet Activity Syncer\">\<newline>  <metadata>\<newline>    <name>Run with '' @ n @ ''</name>\<newline>    <time>1704067200000</time>\<newline>  </metadata>\<newline>  <trk>\<newline>    <name>Run with '' @ n @ ''</name>\<newline>    <trkseg>\<newline>      <trkpt lat=\"1\" lon=\"2\">\<newline>        <time>1704067200000</time>\<newline>      </trkpt>\<newline>      <trkpt lat=\"3\" lon=\"4\">\<newline>        <time>1704067205000</time>\<newline>      </trkpt>\<newline>      <trkpt lat=\"5\" lon=\"6\">\<newline>        <time>1704067210000</time>\<newline>      </trkpt>\<newline>    </trkseg>\<newline>  </trk>\<newline></gpx>'')"
proof -
  have h1: "latlng demo_streams = Some [(1, 2), (3, 4), (5, 6)]"
   and h2: "time demo_streams = Some [0, 5, 10]"
   and h3: "length [0, 5, 10 :: int] = length [(1, 2), (3, 4), (5, 6 :: int)]"
   and h4: "new_Date demo_dates (act_start_date (named_activity n)) = Some 1704067200000"
   and h6: "altitude demo_streams = None"
    by (simp_all add: gpx_eval named_activity_def)
  have h5: "\<forall>j < length [(1, 2), (3, 4), (5, 6 :: int)]. \<bar>1704067200000 + [0, 5, 10 :: int] ! j * 1000\<bar> \<le> 8640000000000000"
    by (auto simp: less_Suc_eq)
  show ?thesis
    using generateGPX_track_points[OF h1 h2 h3 h4 h5, of demo_env]
    by (simp add: gpx_eval upt_rec h6 named_activity_def)
qed

text \<open>
  Claim C10 as stated fails for a name whose only special character is \<open>>\<close>: in
  character data \<open>>\<close> needs no escaping (only \<open><\<close> and \<open>&\<close> do, and \<open>>\<close> after \<open>]]\<close>), so the
  track log of the activity named \<open>a>b\<close> is well-formed.
\<close>

theorem C10_counterexample:
  "CHR ''>'' \<in> set (act_name (named_activity ''a>b'')) \<and>
   generateGPX demo_dates demo_env (named_activity ''a>b'') demo_streams = Inr
     ''<?xml version=\"1.0\" encoding=\"UTF-8\"?>\<newline><gpx version=\"1.1\" creator=\"Pet Activity Syncer\">\<newline>  <metadata>\<newline>    <name>Run with a>b</name>\<newline>    <time>1704067200000</time>\<newline>  </metadata>\<newline>  <trk>\<newline>    <name>Run with a>b</name>\<newline>    <trkseg>\<newline>      <trkpt lat=\"1\" lon=\"2\">\<newline>        <time>1704067200000</time>\<newline>      </trkpt>\<newline>      <trkpt lat=\"3\" lon=\"4\">\<newline>        <time>1704067205000</time>\<newline>      </trkpt>\<newline>      <trkpt lat=\"5\" lon=\"6\">\<newline>        <time>1704067210000</time>\<newline>      </trkpt>\<newline>    </trkseg>\<newline>  </trk>\<newline></gpx>'' \<and>
   well_formed
     ''<?xml version=\"1.0\" encoding=\"UTF-8\"?>\<newline><gpx version=\"1.1\" creator=\"Pet Activity Syncer\">\<newline>  <metadata>\<newline>    <name>Run with a>b</name>\<newline>    <time>1704067200000</time>\<newline>  </metadata>\<newline>  <trk>\<newline>    <name>Run with a>b</name>\<newline>    <trkseg>\<newline>      <trkpt lat=\"1\" lon=\"2\">\<newline>        <time>1704067200000</time>\<newline>      </trkpt>\<newline>      <trkpt lat=\"3\" lon=\"4\">\<newline>        <time>1704067205000</time>\<newline>      </trkpt>\<newline>      <trkpt lat=\"5\" lon=\"6\">\<newline>        <time>1704067210000</time>\<newline>      </trkpt>\<newline>    </trkseg>\<newline>  </trk>\<newline></gpx>''"
proof -
  have w: "well_formed
     ''<?xml version=\"1.0\" encoding=\"UTF-8\"?>\<newline><gpx version=\"1.1\" creator=\"Pet Activity Syncer\">\<newline>  <metadata>\<newline>    <name>Run with a>b</name>\<newline>    <time>1704067200000</time>\<newline>  </metadata>\<newline>  <trk>\<newline>    <name>Run with a>b</name>\<newline>    <trkseg>\<newline>      <trkpt lat=\"1\" lon=\"2\">\<newline>        <time>1704067200000</time>\<newline>      </trkpt>\<newline>      <trkpt lat=\"3\" lon=\"4\">\<newline>        <time>1704067205000</time>\<newline>      </trkpt>\<newline>      <trkpt lat=\"5\" lon=\"6\">\<newline>        <time>1704067210000</time>\<newline>      </trkpt>\<newline>    </trkseg>\<newline>  </trk>\<newline></gpx>''"
    by (simp add: xml_eval)
  have g: "generateGPX demo_dates demo_env (named_activity ''a>b'') demo_streams = Inr
     ''<?xml version=\"1.0\" encoding=\"UTF-8\"?>\<newline><gpx version=\"1.1\" creator=\"Pet Activity Syncer\">\<newline>  <metadata>\<newline>    <name>Run with a>b</name>\<newline>    <time>1704067200000</time>\<newline>  </metadata>\<newline>  <trk>\<newline>    <name>Run with a>b</name>\<newline>    <trkseg>\<newline>      <trkpt lat=\"1\" lon=\"2\">\<newline>        <time>1704067200000</time>\<newline>      </trkpt>\<newline>      <trkpt lat=\"3\" lon=\"4\">\<newline>        <time>1704067205000</time>\<newline>      </trkpt>\<newline>      <trkpt lat=\"5\" lon=\"6\">\<newline>        <time>1704067210000</time>\<newline>      </trkpt>\<newline>    </trkseg>\<newline>  </trk>\<newline></gpx>''"
    unfolding generateGPX_named by simp
  have n: "CHR ''>'' \<in> set (act_name (named_activity ''a>b''))" by (simp add: named_activity_def)
  show ?thesis using w g n by blast
qed

text \<open>
  Claim C10, for the characters that break the document. For every activity, the track
  log that \<open>generateGPX\<close> returns holds the name as it is, after the title prefix, in the
  \<open>name\<close> element of \<open>metadata\<close> and in the \<open>name\<close> element of \<open>trk\<close>: nothing is escaped.
  So when the application name and the title prefix are plain text and the name has,
  after plain text, an \<open>&\<close> that does not begin a reference or a \<open><\<close> that does not begin
  markup (the next character is not the start of a name, nor \<open>#\<close> after \<open>&\<close>, nor \<open>/\<close>, \<open>!\<close>
  or \<open>?\<close> after \<open><\<close>), the track log is not well-formed XML.
\<close>

theorem C10_name_not_escaped:
  assumes "generateGPX pf env activity streams = Inr doc"
  shows "(\<exists>startIso trackPoints.
            doc =
              ''<?xml version=\"1.0\" encoding=\"UTF-8\"?>\<newline><gpx version=\"1.1\" creator=\"''
                @ env_or (APP_NAME env) ''Pet Activity Syncer''
                @ ''\">\<newline>  <metadata>\<newline>    <name>''
                @ env_or (TITLE_PREFIX env) default_title_prefix @ act_name activity
                @ ''</name>\<newline>    <time>'' @ startIso
                @ ''</time>\<newline>  </metadata>\<newline>  <trk>\<newline>    <name>''
                @ env_or (TITLE_PREFIX env) default_title_prefix @ act_name activity
                @ ''</name>\<newline>    <trkseg>\<newline>'' @ trackPoints
                @ ''    </trkseg>\<newline>  </trk>\<newline></gpx>'') \<and>
         (list_all text_char (env_or (APP_NAME env) ''Pet Activity Syncer'') \<and>
          list_all text_char (env_or (TITLE_PREFIX env) default_title_prefix) \<and>
          act_name activity = u @ c # d # v \<and> list_all text_char u \<and> broken_markup c d
          \<longrightarrow> \<not> well_formed doc)"
proof -
  obtain startIso trackPoints where
    doc: "doc = gpx_document (env_or (APP_NAME env) ''Pet Activity Syncer'')
                   (env_or (TITLE_PREFIX env) default_title_prefix) (act_name activity) startIso trackPoints"
    using generateGPX_document[OF assms] by blast
  have 1: "\<exists>startIso trackPoints.
            doc =
              ''<?xml version=\"1.0\" encoding=\"UTF-8\"?>\<newline><gpx version=\"1.1\" creator=\"''
                @ env_or (APP_NAME env) ''Pet Activity Syncer''
                @ ''\">\<newline>  <metadata>\<newline>    <name>''
                @ env_or (TITLE_PREFIX env) default_title_prefix @ act_name activity
                @ ''</name>\<newline>    <time>'' @ startIso
                @ ''</time>\<newline>  </metadata>\<newline>  <trk>\<newline>    <name>''
                @ env_or (TITLE_PREFIX env) default_title_prefix @ act_name activity
                @ ''</name>\<newline>    <trkseg>\<newline>'' @ trackPoints
                @ ''    </trkseg>\<newline>  </trk>\<newline></gpx>''"
    unfolding doc gpx_document_parts by blast
  have 2: "\<not> well_formed doc"
    if "list_all text_char (env_or (APP_NAME env) ''Pet Activity Syncer'') \<and>
        list_all text_char (env_or (TITLE_PREFIX env) default_title_prefix) \<and>
        act_name activity = u @ c # d # v \<and> list_all text_char u \<and> broken_markup c d"
  proof -
    from that have a: "list_all text_char (env_or (APP_NAME env) ''Pet Activity Syncer'')"
      and p: "list_all text_char (env_or (TITLE_PREFIX env) default_title_prefix)"
      and n: "act_name activity = u @ c # d # v" and u: "list_all text_char u"
      and b: "broken_markup c d" by blast+
    show ?thesis unfolding doc n by (rule gpx_document_broken[OF a p u b])
  qed
  show ?thesis using 1 2 by blast
qed

theorem C10_name_not_escaped_witness:
  "generateGPX demo_dates demo_env (named_activity ''Tom & Jerry'') demo_streams = Inr
     ''<?xml version=\"1.0\" encoding=\"UTF-8\"?>\<newline><gpx version=\"1.1\" creator=\"Pet Activity Syncer\">\<newline>  <metadata>\<newline>    <name>Run with Tom & Jerry</name>\<newline>    <time>1704067200000</time>\<newline>  </metadata>\<newline>  <trk>\<newline>    <name>Run with Tom & Jerry</name>\<newline>    <trkseg>\<newline>      <trkpt lat=\"1\" lon=\"2\">\<newline>        <time>1704067200000</time>\<newline>      </trkpt>\<newline>      <trkpt lat=\"3\" lon=\"4\">\<newline>        <time>1704067205000</time>\<newline>      </trkpt>\<newline>      <trkpt lat=\"5\" lon=\"6\">\<newline>        <time>1704067210000</time>\<newline>      </trkpt>\<newline>    </trkseg>\<newline>  </trk>\<newline></gpx>'' \<and>
   list_all text_char (env_or (APP_NAME demo_env) ''Pet Activity Syncer'') \<and>
   list_all text_char (env_or (TITLE_PREFIX demo_env) default_title_prefix) \<and>
   act_name (named_activity ''Tom & Jerry'') = ''Tom '' @ CHR ''&'' # CHR '' '' # ''Jerry'' \<and>
   list_all text_char ''Tom '' \<and> broken_markup (CHR ''&'') (CHR '' '') \<and>
   \<not> well_formed
     ''<?xml version=\"1.0\" encoding=\"UTF-8\"?>\<newline><gpx version=\"1.1\" creator=\"Pet Activity Syncer\">\<newline>  <metadata>\<newline>    <name>Run with Tom & Jerry</name>\<newline>    <time>1704067200000</time>\<newline>  </metadata>\<newline>  <trk>\<newline>    <name>Run with Tom & Jerry</name>\<newline>    <trkseg>\<newline>      <trkpt lat=\"1\" lon=\"2\">\<newline>        <time>1704067200000</time>\<newline>      </trkpt>\<newline>      <trkpt lat=\"3\" lon=\"4\">\<newline>        <time>1704067205000</time>\<newline>      </trkpt>\<newline>      <trkpt lat=\"5\" lon=\"6\">\<newline>        <time>1704067210000</time>\<newline>      </trkpt>\<newline>    </trkseg>\<newline>  </trk>\<newline></gpx>''"
proof -
  have g: "generateGPX demo_dates demo_env (named_activity ''Tom & Jerry'') demo_streams = Inr
     ''<?xml version=\"1.0\" encoding=\"UTF-8\"?>\<newline><gpx version=\"1.1\" creator=\"Pet Activity Syncer\">\<newline>  <metadata>\<newline>    <name>Run with Tom & Jerry</name>\<newline>    <time>1704067200000</time>\<newline>  </metadata>\<newline>  <trk>\<newline>    <name>Run with Tom & Jerry</name>\<newline>    <trkseg>\<newline>      <trkpt lat=\"1\" lon=\"2\">\<newline>        <time>1704067200000</time>\<newline>      </trkpt>\<newline>      <trkpt lat=\"3\" lon=\"4\">\<newline>        <time>1704067205000</time>\<newline>      </trkpt>\<newline>      <trkpt lat=\"5\" lon=\"6\">\<newline>        <time>1704067210000</time>\<newline>      </trkpt>\<newline>    </trkseg>\<newline>  </trk>\<newline></gpx>''"
    unfolding generateGPX_named by simp
  have a: "list_all text_char (env_or (APP_NAME demo_env) ''Pet Activity Syncer'')"
   and p: "list_all text_char (env_or (TITLE_PREFIX demo_env) default_title_prefix)"
   and u: "list_all text_char ''Tom ''"
    by (simp_all add: demo_env_def env_or_def text_char_def xml_char_def xml_space_def)
  have n: "act_name (named_activity ''Tom & Jerry'') = ''Tom '' @ CHR ''&'' # CHR '' '' # ''Jerry''"
    by (simp add: named_activity_def)
  have b: "broken_markup (CHR ''&'') (CHR '' '')"
    by (simp add: broken_markup_def name_start_def)
  note inst = C10_name_not_escaped[OF g, THEN conjunct2, rule_format,
      OF conjI[OF a conjI[OF p conjI[OF n conjI[OF u b]]]]]
  show ?thesis using inst g a p u n b by blast
qed


end
